theory Spec2Isabelle
  imports Main "HOL-Library.Word"
begin

unbundle bit_operations_syntax

section \<open>GrGLProgramDesc.cpp: the program descriptor key\<close>

text \<open>
  A shallow embedding of \<^verbatim>\<open>src/gpu/gl/GrGLProgramDesc.cpp\<close>: the swizzle test, the
  transform key, the texture key, the meta key and \<^verbatim>\<open>GrGLProgramDescBuilder::Build\<close>.
  \<^verbatim>\<open>uint32_t\<close> is \<open>32 word\<close>, a byte of the key array is \<open>8 word\<close>. \<^verbatim>\<open>SkASSERT\<close> is
  modelled as in a debug build: a failed assertion ends the call with \<open>SkAssertFailure\<close>.
  A shift whose count is not smaller than the width of the shifted type is undefined in
  C++; the model ends the call with \<open>UndefinedShift\<close> there.
\<close>

type_synonym u8 = "8 word"
type_synonym u32 = "32 word"

datatype failure = SkAssertFailure | UndefinedShift

subsection \<open>Capabilities and the declarations the file takes from its headers\<close>

text \<open>
  \<^verbatim>\<open>GrGLCaps\<close>, read by the file through four accessors. \<^verbatim>\<open>gpu->glCaps()\<close> and
  \<^verbatim>\<open>gpu->caps()\<close> are one capability set.
\<close>

record GrGLCaps =
  textureSwizzleSupport :: bool
  textureRedSupport :: bool
  pathRenderingSupport :: bool
  dstReadInShaderSupport :: bool

type_synonym GrPixelConfig = nat
type_synonym GrTexture = nat
type_synonym GrRenderTarget = nat
type_synonym DrawType = nat

text \<open>
  The constants, the struct layout and the helper functions that the file uses and
  other headers declare are parameters of the model, collected in one record:
  the colour component flags, \<^verbatim>\<open>GrPixelConfigComponentMask\<close>, the key offsets of
  \<^verbatim>\<open>GrProgramDesc\<close>, the byte offsets of the five fields of \<^verbatim>\<open>GLKeyHeader\<close> inside
  the header (each field one byte), \<^verbatim>\<open>GrGpu::IsPathRenderingDrawType\<close>, the two key
  functions of \<^verbatim>\<open>GrGLFragmentShaderBuilder\<close> and
  \<^verbatim>\<open>GrProgramDesc::finalize\<close>, as a function on the key array.
\<close>

record decls =
  kA_GrColorComponentFlag :: u32
  kRGB_GrColorComponentFlags :: u32
  GrPixelConfigComponentMask :: "GrPixelConfig \<Rightarrow> u32"
  kHeaderOffset :: nat
  kHeaderSize :: nat
  kProcessorKeysOffset :: nat
  offsetof_fDstReadKey :: nat
  offsetof_fFragPosKey :: nat
  offsetof_fColorEffectCnt :: nat
  offsetof_fCoverageEffectCnt :: nat
  offsetof_fUseNvpr :: nat
  IsPathRenderingDrawType :: "DrawType \<Rightarrow> bool"
  KeyForDstRead :: "GrTexture option \<Rightarrow> GrGLCaps \<Rightarrow> u8"
  KeyForFragmentPosition :: "GrRenderTarget \<Rightarrow> GrGLCaps \<Rightarrow> u8"
  finalize :: "u8 list \<Rightarrow> u8 list"

subsection \<open>swizzle_requires_alpha_remapping (lines 21-41)\<close>

definition swizzle_requires_alpha_remapping :: "decls \<Rightarrow> GrGLCaps \<Rightarrow> u32 \<Rightarrow> u32 \<Rightarrow> bool" where
  "swizzle_requires_alpha_remapping ext caps configComponentMask swizzleComponentMask =
     (if textureSwizzleSupport caps then False
      else if kA_GrColorComponentFlag ext = configComponentMask then
        (if textureRedSupport caps \<and> (kA_GrColorComponentFlag ext AND swizzleComponentMask) \<noteq> 0
         then True
         else if (kRGB_GrColorComponentFlags ext AND swizzleComponentMask) \<noteq> 0 then True
         else False)
      else False)"

subsection \<open>The transform key (lines 47-97)\<close>

definition kMatrixTypeKeyBits :: nat where
  "kMatrixTypeKeyBits = 1"

definition kMatrixTypeKeyMask :: u32 where
  "kMatrixTypeKeyMask = push_bit kMatrixTypeKeyBits 1 - 1"

definition kPrecisionBits :: nat where
  "kPrecisionBits = 2"

definition kPrecisionShift :: nat where
  "kPrecisionShift = kMatrixTypeKeyBits"

definition kPositionCoords_Flag :: u32 where
  "kPositionCoords_Flag = push_bit (kPrecisionShift + kPrecisionBits) 1"

definition kDeviceCoords_Flag :: u32 where
  "kDeviceCoords_Flag = kPositionCoords_Flag + kPositionCoords_Flag"

definition kTransformKeyBits :: nat where
  "kTransformKeyBits = kMatrixTypeKeyBits + kPrecisionBits + 2"

definition kNoPersp_MatrixType :: u32 where
  "kNoPersp_MatrixType = 0"

definition kGeneral_MatrixType :: u32 where
  "kGeneral_MatrixType = 1"

datatype GrCoordSet = kLocal_GrCoordSet | kDevice_GrCoordSet

text \<open>
  A coordinate transform as the key reads it: its source coordinates and its precision,
  the numeric value of a \<^verbatim>\<open>GrSLPrecision\<close>. The static assertions of lines 60 and 88 say
  that every precision is smaller than \<open>2 ^ kPrecisionBits\<close>.
\<close>

record GrCoordTransform =
  sourceCoords :: GrCoordSet
  precision :: u32

record GrTextureAccess =
  config :: GrPixelConfig
  swizzleMask :: u32

text \<open>
  What \<^verbatim>\<open>get_meta_key\<close> reads of any \<^verbatim>\<open>GrProcessor\<close>: the class id and the texture
  accesses. The three kinds of processor extend it with the words their
  \<^verbatim>\<open>getGLProcessorKey\<close> adds to the key builder.
\<close>

record GrProcessor =
  classID :: u32
  textureAccesses :: "GrTextureAccess list"

type_synonym GrBatchTracker = nat

record GrPrimitiveProcessor = GrProcessor +
  gpGLProcessorKey :: "GrBatchTracker \<Rightarrow> GrGLCaps \<Rightarrow> u32 list"

record GrFragmentProcessor = GrProcessor +
  coordTransforms :: "GrCoordTransform list"
  fpGLProcessorKey :: "GrGLCaps \<Rightarrow> u32 list"

record GrXferProcessor = GrProcessor +
  xpGLProcessorKey :: "GrGLCaps \<Rightarrow> u32 list"

record GrPendingFragmentStage =
  processor :: GrFragmentProcessor
  isPerspectiveCoordTransform :: "nat \<Rightarrow> bool"

definition numTransforms :: "GrFragmentProcessor \<Rightarrow> nat" where
  "numTransforms fp = length (coordTransforms fp)"

definition numTextures :: "'a GrProcessor_scheme \<Rightarrow> nat" where
  "numTextures proc = length (textureAccesses proc)"

text \<open>Lines 74-89: the key of transform \<open>t\<close> before it is shifted into place.\<close>

definition transform_key_field :: "GrPendingFragmentStage \<Rightarrow> bool \<Rightarrow> nat \<Rightarrow> GrCoordTransform \<Rightarrow> u32" where
  "transform_key_field stage useExplicitLocalCoords t coordTransform =
     (let key0 = (if isPerspectiveCoordTransform stage t then 0 OR kGeneral_MatrixType
                  else 0 OR kNoPersp_MatrixType);
          key1 = (if kLocal_GrCoordSet = sourceCoords coordTransform \<and> \<not> useExplicitLocalCoords
                  then key0 OR kPositionCoords_Flag
                  else if kDevice_GrCoordSet = sourceCoords coordTransform
                  then key0 OR kDeviceCoords_Flag
                  else key0)
      in key1 OR push_bit kPrecisionShift (precision coordTransform))"

text \<open>
  The loop of lines 73-95, from index \<open>t\<close> on; the list holds \<^verbatim>\<open>coordTransform(t)\<close>,
  \<^verbatim>\<open>coordTransform(t + 1)\<close>, ... of the stage's processor.
\<close>

fun gen_transform_key_loop ::
  "GrPendingFragmentStage \<Rightarrow> bool \<Rightarrow> GrCoordTransform list \<Rightarrow> nat \<Rightarrow> u32 \<Rightarrow> failure + u32" where
  "gen_transform_key_loop stage useExplicitLocalCoords [] t totalKey = Inr totalKey"
| "gen_transform_key_loop stage useExplicitLocalCoords (coordTransform # rest) t totalKey =
     (if 32 \<le> kTransformKeyBits * t then Inl UndefinedShift
      else
        let key = push_bit (kTransformKeyBits * t)
                    (transform_key_field stage useExplicitLocalCoords t coordTransform)
        in if 0 \<noteq> (totalKey AND key) then Inl SkAssertFailure
           else gen_transform_key_loop stage useExplicitLocalCoords rest (t + 1) (totalKey OR key))"

definition gen_transform_key :: "GrPendingFragmentStage \<Rightarrow> bool \<Rightarrow> failure + u32" where
  "gen_transform_key stage useExplicitLocalCoords =
     gen_transform_key_loop stage useExplicitLocalCoords (coordTransforms (processor stage)) 0 0"


subsection \<open>The key builder\<close>

text \<open>
  Modelled from the spec: \<^verbatim>\<open>SK_MaxU16\<close> (\<^verbatim>\<open>SkTypes.h\<close> is not among the sources), the
  largest value of 16 bits: a field fails to fit when it "occupies more than 16 bits".
\<close>

definition SK_MaxU16 :: nat where
  "SK_MaxU16 = 65535"

text \<open>
  The key array holds bytes; a 32-bit word is stored in four of them, lowest byte first
  (the byte order of the targets the library is built for; no claim depends on it).
\<close>

definition word_bytes :: "u32 \<Rightarrow> u8 list" where
  "word_bytes v = [ucast v, ucast (drop_bit 8 v), ucast (drop_bit 16 v), ucast (drop_bit 24 v)]"

text \<open>
  Modelled from the spec: \<^verbatim>\<open>GrProcessorKeyBuilder\<close> (declared in \<^verbatim>\<open>GrProcessor.h\<close>, which
  is not among the sources). The specification describes the key buffer as "an ordered,
  appendable sequence of bytes, word-aligned", its processor-keys zone as "holding, for
  every pipeline stage in pipeline order, that stage's private key immediately followed
  by its meta-key", and what the meta-key encoder reads from the builder (line 125) as
  "the number of bytes already written into the key buffer for this stage's private key".

  The builder is constructed on the key array (\<open>fData\<close> is that array: the builder is
  the only writer while it is in use) and appends 32-bit words to it. \<open>fCount\<close> is the
  number of words of the private key of the stage that is being written: \<^verbatim>\<open>add32\<close>
  appends one word of it, and \<^verbatim>\<open>size()\<close> is its length in bytes,
  \<^verbatim>\<open>sizeof(uint32_t) * fCount\<close>. The two words that \<^verbatim>\<open>add32n(2)\<close> hands out (line 139)
  are the meta key that follows the private key: with them the stage is complete, and
  the private key of the next stage starts with no word written.
\<close>

record GrProcessorKeyBuilder =
  fData :: "u8 list"
  fCount :: nat

definition GrProcessorKeyBuilder_new :: "u8 list \<Rightarrow> GrProcessorKeyBuilder" where
  "GrProcessorKeyBuilder_new data = \<lparr>fData = data, fCount = 0\<rparr>"

definition add32 :: "u32 \<Rightarrow> GrProcessorKeyBuilder \<Rightarrow> GrProcessorKeyBuilder" where
  "add32 v b = b\<lparr>fData := fData b @ word_bytes v, fCount := fCount b + 1\<rparr>"

definition builder_size :: "GrProcessorKeyBuilder \<Rightarrow> nat" where
  "builder_size b = 4 * fCount b"

text \<open>
  \<^verbatim>\<open>add32n(2)\<close> followed by the stores to both words it returns (lines 139-141).
\<close>

definition add32n_2 :: "u32 \<Rightarrow> u32 \<Rightarrow> GrProcessorKeyBuilder \<Rightarrow> GrProcessorKeyBuilder" where
  "add32n_2 key0 key1 b =
     b\<lparr>fData := fData b @ word_bytes key0 @ word_bytes key1, fCount := 0\<rparr>"

text \<open>
  A processor's \<^verbatim>\<open>getGLProcessorKey\<close> adds the words of its private key to the builder,
  one \<^verbatim>\<open>add32\<close> each.
\<close>

fun getGLProcessorKey :: "u32 list \<Rightarrow> GrProcessorKeyBuilder \<Rightarrow> GrProcessorKeyBuilder" where
  "getGLProcessorKey [] b = b"
| "getGLProcessorKey (v # vs) b = getGLProcessorKey vs (add32 v b)"

subsection \<open>gen_texture_key (lines 99-110)\<close>

text \<open>
  The loop from index \<open>t\<close> on; the list holds \<^verbatim>\<open>textureAccess(t)\<close>,
  \<^verbatim>\<open>textureAccess(t + 1)\<close>, ... The literal \<^verbatim>\<open>1\<close> is an \<^verbatim>\<open>int\<close> of 32 bits.
\<close>

fun gen_texture_key_loop ::
  "decls \<Rightarrow> GrGLCaps \<Rightarrow> GrTextureAccess list \<Rightarrow> nat \<Rightarrow> u32 \<Rightarrow> failure + u32" where
  "gen_texture_key_loop ext caps [] t key = Inr key"
| "gen_texture_key_loop ext caps (access # rest) t key =
     (let configComponentMask = GrPixelConfigComponentMask ext (config access)
      in if swizzle_requires_alpha_remapping ext caps configComponentMask (swizzleMask access)
         then (if 32 \<le> t then Inl UndefinedShift
               else gen_texture_key_loop ext caps rest (t + 1) (key OR push_bit t 1))
         else gen_texture_key_loop ext caps rest (t + 1) key)"

definition gen_texture_key :: "decls \<Rightarrow> 'a GrProcessor_scheme \<Rightarrow> GrGLCaps \<Rightarrow> failure + u32" where
  "gen_texture_key ext proc caps = gen_texture_key_loop ext caps (textureAccesses proc) 0 0"

subsection \<open>get_meta_key (lines 121-143)\<close>

definition kMetaKeyInvalidMask :: u32 where
  "kMetaKeyInvalidMask = NOT (of_nat SK_MaxU16)"

definition SkToU16 :: "nat \<Rightarrow> 16 word" where
  "SkToU16 x = of_nat x"

definition get_meta_key ::
  "decls \<Rightarrow> 'a GrProcessor_scheme \<Rightarrow> GrGLCaps \<Rightarrow> u32 \<Rightarrow> GrProcessorKeyBuilder
     \<Rightarrow> failure + (bool \<times> GrProcessorKeyBuilder)" where
  "get_meta_key ext proc caps transformKey b =
     (let processorKeySize = builder_size b
      in case gen_texture_key ext proc caps of
           Inl e \<Rightarrow> Inl e
         | Inr textureKey \<Rightarrow>
             (let classID = classID proc
              in if ((textureKey OR transformKey OR classID) AND kMetaKeyInvalidMask) \<noteq> 0
                 then Inr (False, b)
                 else if processorKeySize > SK_MaxU16 then Inr (False, b)
                 else Inr (True,
                        add32n_2 (push_bit 16 textureKey OR transformKey)
                          (push_bit 16 classID OR ucast (SkToU16 processorKeySize)) b)))"

subsection \<open>GrGLProgramDescBuilder::Build (lines 145-231)\<close>

record GrDeviceCoordTexture =
  texture :: "GrTexture option"

text \<open>What \<^verbatim>\<open>Build\<close> reads of the pipeline state, of the descriptor info and of the GPU.\<close>

record GrOptDrawState =
  primitiveProcessor :: GrPrimitiveProcessor
  batchTracker :: GrBatchTracker
  fragmentStages :: "GrPendingFragmentStage list"
  xferProcessor :: GrXferProcessor
  hasGeometryProcessor :: bool
  dstCopy :: "GrDeviceCoordTexture option"
  renderTarget :: GrRenderTarget
  numColorStages :: nat
  numCoverageStages :: nat

record DescInfo =
  fRequiresLocalCoordAttrib :: bool
  fReadsDst :: bool
  fReadsFragPosition :: bool

record GrGLGpu =
  glCaps :: GrGLCaps

definition gpu_caps :: "GrGLGpu \<Rightarrow> GrGLCaps" where
  "gpu_caps gpu = glCaps gpu"

record GrProgramDesc =
  fKey :: "u8 list"

text \<open>
  \<^verbatim>\<open>push_back_n(n)\<close> on an array of bytes grows it by \<open>n\<close> bytes and does not initialise
  them: byte \<open>i\<close> of the grown array holds \<open>uninit i\<close>, whatever the memory held.
\<close>

definition push_back_n :: "nat \<Rightarrow> (nat \<Rightarrow> u8) \<Rightarrow> u8 list \<Rightarrow> u8 list" where
  "push_back_n n uninit key = key @ map uninit [length key ..< length key + n]"

definition memset0 :: "nat \<Rightarrow> nat \<Rightarrow> u8 list \<Rightarrow> u8 list" where
  "memset0 off n key = take off key @ replicate n 0 @ drop (off + n) key"

text \<open>The loop of lines 171-180 over the fragment stages that are left.\<close>

fun fragment_stages_loop ::
  "decls \<Rightarrow> GrGLCaps \<Rightarrow> bool \<Rightarrow> GrPendingFragmentStage list \<Rightarrow> GrProcessorKeyBuilder
     \<Rightarrow> failure + (bool \<times> GrProcessorKeyBuilder)" where
  "fragment_stages_loop ext glcaps requiresLocalCoordAttrib [] b = Inr (True, b)"
| "fragment_stages_loop ext glcaps requiresLocalCoordAttrib (fps # rest) b =
     (let fp = processor fps;
          b1 = getGLProcessorKey (fpGLProcessorKey fp glcaps) b
      in case gen_transform_key fps requiresLocalCoordAttrib of
           Inl e \<Rightarrow> Inl e
         | Inr transformKey \<Rightarrow>
             (case get_meta_key ext fp glcaps transformKey b1 of
                Inl e \<Rightarrow> Inl e
              | Inr (ok, b2) \<Rightarrow>
                  if \<not> ok then Inr (False, b2)
                  else fragment_stages_loop ext glcaps requiresLocalCoordAttrib rest b2))"

text \<open>
  Lines 192-228: the header is the \<open>kHeaderSize\<close> bytes of the key array from
  \<open>kHeaderOffset\<close> on; it is zeroed and its five fields are stored.
\<close>

definition write_header ::
  "decls \<Rightarrow> GrOptDrawState \<Rightarrow> DescInfo \<Rightarrow> DrawType \<Rightarrow> GrGLGpu \<Rightarrow> u8 list \<Rightarrow> failure + u8 list" where
  "write_header ext optState descInfo drawType gpu key0 =
     (let header = kHeaderOffset ext;
          key1 = memset0 header (kHeaderSize ext) key0;
          isPathRendering = IsPathRenderingDrawType ext drawType
      in case (if pathRenderingSupport (gpu_caps gpu) \<and> isPathRendering
               then (if hasGeometryProcessor optState then Inl SkAssertFailure
                     else Inr (key1[header + offsetof_fUseNvpr ext := 1]))
               else Inr (key1[header + offsetof_fUseNvpr ext := 0])) of
           Inl e \<Rightarrow> Inl e
         | Inr key2 \<Rightarrow>
             (case (if fReadsDst descInfo
                    then (if dstCopy optState = None \<and> \<not> dstReadInShaderSupport (gpu_caps gpu)
                          then Inl SkAssertFailure
                          else
                            let dstCopyTexture =
                                  (case dstCopy optState of None \<Rightarrow> None | Some dc \<Rightarrow> texture dc);
                                dstReadKey = KeyForDstRead ext dstCopyTexture (glCaps gpu)
                            in if dstReadKey = 0 then Inl SkAssertFailure
                               else Inr (key2[header + offsetof_fDstReadKey ext := dstReadKey]))
                    else Inr (key2[header + offsetof_fDstReadKey ext := 0])) of
                Inl e \<Rightarrow> Inl e
              | Inr key3 \<Rightarrow>
                  (let key4 =
                         (if fReadsFragPosition descInfo
                          then key3[header + offsetof_fFragPosKey ext :=
                                 KeyForFragmentPosition ext (renderTarget optState) (glCaps gpu)]
                          else key3[header + offsetof_fFragPosKey ext := 0]);
                       key5 = key4[header + offsetof_fColorEffectCnt ext :=
                                of_nat (numColorStages optState)];
                       key6 = key5[header + offsetof_fCoverageEffectCnt ext :=
                                of_nat (numCoverageStages optState)]
                   in Inr key6)))"

text \<open>
  \<open>Build\<close> returns \<open>Inl\<close> when an assertion fails or a shift is undefined, and otherwise
  the boolean it returns together with the descriptor it leaves behind. \<open>uninit\<close> is the
  content of the memory that \<^verbatim>\<open>push_back_n\<close> hands out.
\<close>

definition Build ::
  "decls \<Rightarrow> GrOptDrawState \<Rightarrow> DescInfo \<Rightarrow> DrawType \<Rightarrow> GrGLGpu \<Rightarrow> (nat \<Rightarrow> u8) \<Rightarrow> GrProgramDesc
     \<Rightarrow> failure + (bool \<times> GrProgramDesc)" where
  "Build ext optState descInfo drawType gpu uninit desc =
     (let requiresLocalCoordAttrib = fRequiresLocalCoordAttrib descInfo;
          desc1 = desc\<lparr>fKey := []\<rparr>;
          desc2 = desc1\<lparr>fKey := push_back_n (kProcessorKeysOffset ext) uninit (fKey desc1)\<rparr>;
          b0 = GrProcessorKeyBuilder_new (fKey desc2);
          primProc = primitiveProcessor optState;
          b1 = getGLProcessorKey (gpGLProcessorKey primProc (batchTracker optState) (glCaps gpu)) b0
      in case get_meta_key ext primProc (glCaps gpu) 0 b1 of
           Inl e \<Rightarrow> Inl e
         | Inr (ok, b2) \<Rightarrow>
             if \<not> ok then Inr (False, desc2\<lparr>fKey := []\<rparr>)
             else
               (case fragment_stages_loop ext (glCaps gpu) requiresLocalCoordAttrib
                       (fragmentStages optState) b2 of
                  Inl e \<Rightarrow> Inl e
                | Inr (ok, b3) \<Rightarrow>
                    if \<not> ok then Inr (False, desc2\<lparr>fKey := []\<rparr>)
                    else
                      (let xp = xferProcessor optState;
                           b4 = getGLProcessorKey (xpGLProcessorKey xp (glCaps gpu)) b3
                       in case get_meta_key ext xp (glCaps gpu) 0 b4 of
                            Inl e \<Rightarrow> Inl e
                          | Inr (ok, b5) \<Rightarrow>
                              if \<not> ok then Inr (False, desc2\<lparr>fKey := []\<rparr>)
                              else
                                (case write_header ext optState descInfo drawType gpu (fData b5) of
                                   Inl e \<Rightarrow> Inl e
                                 | Inr key \<Rightarrow> Inr (True, desc2\<lparr>fKey := finalize ext key\<rparr>)))))"

section \<open>The specification's words, and inputs to evaluate the code on\<close>

text \<open>
  The transform key in the words of the specification: the field of transform \<open>t\<close>,
  shifted left by \<open>kTransformKeyBits * t\<close>, combined with the fields of the later
  transforms by bitwise OR.
\<close>

fun packed_transform_fields ::
  "GrPendingFragmentStage \<Rightarrow> bool \<Rightarrow> GrCoordTransform list \<Rightarrow> nat \<Rightarrow> u32" where
  "packed_transform_fields stage useExplicitLocalCoords [] t = 0"
| "packed_transform_fields stage useExplicitLocalCoords (coordTransform # rest) t =
     push_bit (kTransformKeyBits * t)
       (transform_key_field stage useExplicitLocalCoords t coordTransform)
     OR packed_transform_fields stage useExplicitLocalCoords rest (t + 1)"

text \<open>
  Values for the declarations of the headers, for evaluating the code: the alpha flag 8
  and the colour flags 7, a pixel configuration 0 that is alpha-only, a header of eight
  bytes behind a length and a checksum word, and a \<open>finalize\<close> that stores the length
  of the key in the first word and leaves the checksum word zero.
\<close>

definition test_decls :: decls where
  "test_decls =
     \<lparr>kA_GrColorComponentFlag = 8, kRGB_GrColorComponentFlags = 7,
      GrPixelConfigComponentMask = (\<lambda>c. if c = 0 then 8 else 15),
      kHeaderOffset = 8, kHeaderSize = 8, kProcessorKeysOffset = 16,
      offsetof_fDstReadKey = 0, offsetof_fFragPosKey = 1, offsetof_fColorEffectCnt = 2,
      offsetof_fCoverageEffectCnt = 3, offsetof_fUseNvpr = 4,
      IsPathRenderingDrawType = (\<lambda>d. 3 \<le> d),
      KeyForDstRead = (\<lambda>t c. 1), KeyForFragmentPosition = (\<lambda>r c. 0),
      finalize = (\<lambda>k. word_bytes (of_nat (length k)) @ [0, 0, 0, 0] @ drop 8 k)\<rparr>"

definition no_swizzle_caps :: GrGLCaps where
  "no_swizzle_caps =
     \<lparr>textureSwizzleSupport = False, textureRedSupport = False,
      pathRenderingSupport = False, dstReadInShaderSupport = False\<rparr>"

definition red_caps :: GrGLCaps where
  "red_caps = no_swizzle_caps\<lparr>textureRedSupport := True\<rparr>"

definition swizzle_caps :: GrGLCaps where
  "swizzle_caps = no_swizzle_caps\<lparr>textureSwizzleSupport := True\<rparr>"

text \<open>
  The fragment stage of the specification's end-to-end example: class id 3, a private key
  of four zero bytes, one transform without perspective that is sourced from local
  coordinates.
\<close>

definition example_stage :: GrPendingFragmentStage where
  "example_stage =
     \<lparr>processor =
        \<lparr>classID = 3, textureAccesses = [],
         coordTransforms = [\<lparr>sourceCoords = kLocal_GrCoordSet, precision = 0\<rparr>],
         fpGLProcessorKey = (\<lambda>c. [0])\<rparr>,
      isPerspectiveCoordTransform = (\<lambda>t. False)\<rparr>"

text \<open>A stage with two transforms: the second has perspective, device coordinates and precision 2.\<close>

definition two_transform_stage :: GrPendingFragmentStage where
  "two_transform_stage =
     \<lparr>processor =
        \<lparr>classID = 5, textureAccesses = [],
         coordTransforms =
           [\<lparr>sourceCoords = kLocal_GrCoordSet, precision = 1\<rparr>,
            \<lparr>sourceCoords = kDevice_GrCoordSet, precision = 2\<rparr>],
         fpGLProcessorKey = (\<lambda>c. [])\<rparr>,
      isPerspectiveCoordTransform = (\<lambda>t. t = 1)\<rparr>"

text \<open>
  Six transforms with an all-zero field, and a seventh one sourced from device
  coordinates with precision 2.
\<close>

definition plain_transform :: GrCoordTransform where
  "plain_transform = \<lparr>sourceCoords = kLocal_GrCoordSet, precision = 0\<rparr>"

definition six_transform_stage :: GrPendingFragmentStage where
  "six_transform_stage =
     \<lparr>processor =
        \<lparr>classID = 3, textureAccesses = [],
         coordTransforms =
           [plain_transform, plain_transform, plain_transform,
            plain_transform, plain_transform, plain_transform],
         fpGLProcessorKey = (\<lambda>c. [])\<rparr>,
      isPerspectiveCoordTransform = (\<lambda>t. False)\<rparr>"

definition seven_transform_stage :: GrPendingFragmentStage where
  "seven_transform_stage =
     \<lparr>processor =
        \<lparr>classID = 3, textureAccesses = [],
         coordTransforms =
           [plain_transform, plain_transform, plain_transform,
            plain_transform, plain_transform, plain_transform,
            \<lparr>sourceCoords = kDevice_GrCoordSet, precision = 2\<rparr>],
         fpGLProcessorKey = (\<lambda>c. [])\<rparr>,
      isPerspectiveCoordTransform = (\<lambda>t. False)\<rparr>"

text \<open>
  Names for the builder states between the steps of \<open>Build\<close>: the key array after
  lines 159-160, the builder after the primitive processor has added its key (line 165),
  and the builder after the transfer processor has added its key (line 183).
\<close>

definition reserved_key :: "decls \<Rightarrow> (nat \<Rightarrow> u8) \<Rightarrow> u8 list" where
  "reserved_key ext uninit = push_back_n (kProcessorKeysOffset ext) uninit []"

definition primitive_stage_builder ::
  "decls \<Rightarrow> GrOptDrawState \<Rightarrow> GrGLGpu \<Rightarrow> (nat \<Rightarrow> u8) \<Rightarrow> GrProcessorKeyBuilder" where
  "primitive_stage_builder ext optState gpu uninit =
     getGLProcessorKey
       (gpGLProcessorKey (primitiveProcessor optState) (batchTracker optState) (glCaps gpu))
       (GrProcessorKeyBuilder_new (reserved_key ext uninit))"

definition xfer_stage_builder :: "GrOptDrawState \<Rightarrow> GrGLGpu \<Rightarrow> GrProcessorKeyBuilder \<Rightarrow> GrProcessorKeyBuilder" where
  "xfer_stage_builder optState gpu b =
     getGLProcessorKey (xpGLProcessorKey (xferProcessor optState) (glCaps gpu)) b"

text \<open>
  The pipeline of the specification's end-to-end example: the example fragment stage, a
  transfer processor with class id 1 and an empty private key that does not read the
  destination, and a primitive processor with class id 2 and an empty private key.
\<close>

definition example_state :: GrOptDrawState where
  "example_state =
     \<lparr>primitiveProcessor = \<lparr>classID = 2, textureAccesses = [], gpGLProcessorKey = (\<lambda>bt c. [])\<rparr>,
      batchTracker = 0,
      fragmentStages = [example_stage],
      xferProcessor = \<lparr>classID = 1, textureAccesses = [], xpGLProcessorKey = (\<lambda>c. [])\<rparr>,
      hasGeometryProcessor = False, dstCopy = None, renderTarget = 0,
      numColorStages = 1, numCoverageStages = 0\<rparr>"

definition example_info :: DescInfo where
  "example_info =
     \<lparr>fRequiresLocalCoordAttrib = False, fReadsDst = False, fReadsFragPosition = False\<rparr>"

definition example_gpu :: GrGLGpu where
  "example_gpu = \<lparr>glCaps = no_swizzle_caps\<rparr>"

text \<open>
  The example pipeline with the stage of six and with the stage of seven transforms as
  its fragment stage, built with explicit local coordinates.
\<close>

definition explicit_coords_info :: DescInfo where
  "explicit_coords_info = example_info\<lparr>fRequiresLocalCoordAttrib := True\<rparr>"

definition six_transform_state :: GrOptDrawState where
  "six_transform_state = example_state\<lparr>fragmentStages := [six_transform_stage]\<rparr>"

definition seven_transform_state :: GrOptDrawState where
  "seven_transform_state = example_state\<lparr>fragmentStages := [seven_transform_stage]\<rparr>"

text \<open>
  The example with a private key of 16000 words (64000 bytes) on the primitive processor
  and on the transfer processor: each private key is inside the budget of 65535 bytes and
  the keys together are not.
\<close>

definition long_key :: "u32 list" where
  "long_key = replicate 16000 0"

definition long_key_state :: GrOptDrawState where
  "long_key_state =
     example_state
       \<lparr>primitiveProcessor :=
          \<lparr>classID = 2, textureAccesses = [], gpGLProcessorKey = (\<lambda>bt c. long_key)\<rparr>,
        xferProcessor :=
          \<lparr>classID = 1, textureAccesses = [], xpGLProcessorKey = (\<lambda>c. long_key)\<rparr>\<rparr>"

text \<open>Processors whose class id needs 17 bits, at each of the three places.\<close>

definition wide_class_stage :: GrPendingFragmentStage where
  "wide_class_stage =
     example_stage\<lparr>processor := (processor example_stage)\<lparr>classID := 65536\<rparr>\<rparr>"

definition wide_prim_state :: GrOptDrawState where
  "wide_prim_state = example_state\<lparr>primitiveProcessor :=
       \<lparr>classID = 65536, textureAccesses = [], gpGLProcessorKey = (\<lambda>bt c. [])\<rparr>\<rparr>"

definition wide_fragment_state :: GrOptDrawState where
  "wide_fragment_state = example_state\<lparr>fragmentStages := [example_stage, wide_class_stage]\<rparr>"

definition wide_xfer_state :: GrOptDrawState where
  "wide_xfer_state = example_state\<lparr>xferProcessor :=
       \<lparr>classID = 65536, textureAccesses = [], xpGLProcessorKey = (\<lambda>c. [])\<rparr>\<rparr>"

text \<open>The sixteen reserved bytes when the fresh memory holds 170 everywhere.\<close>

definition reserved16 :: "u8 list" where
  "reserved16 = [170, 170, 170, 170, 170, 170, 170, 170, 170, 170, 170, 170, 170, 170, 170, 170]"

text \<open>
  The three steps of lines 164-187 on a builder whose array is empty: what the
  processors append does not depend on the bytes before it. \<open>prepend\<close> puts bytes in
  front of a builder's array.
\<close>

definition prepend :: "u8 list \<Rightarrow> GrProcessorKeyBuilder \<Rightarrow> GrProcessorKeyBuilder" where
  "prepend p b = b\<lparr>fData := p @ fData b\<rparr>"

definition processor_keys ::
  "decls \<Rightarrow> GrOptDrawState \<Rightarrow> DescInfo \<Rightarrow> GrGLGpu \<Rightarrow> failure + (bool \<times> GrProcessorKeyBuilder)" where
  "processor_keys ext optState descInfo gpu =
     (case get_meta_key ext (primitiveProcessor optState) (glCaps gpu) 0
             (getGLProcessorKey
                (gpGLProcessorKey (primitiveProcessor optState) (batchTracker optState) (glCaps gpu))
                (GrProcessorKeyBuilder_new [])) of
        Inl e \<Rightarrow> Inl e
      | Inr (ok, b2) \<Rightarrow>
          if \<not> ok then Inr (False, b2)
          else
            (case fragment_stages_loop ext (glCaps gpu) (fRequiresLocalCoordAttrib descInfo)
                    (fragmentStages optState) b2 of
               Inl e \<Rightarrow> Inl e
             | Inr (ok, b3) \<Rightarrow>
                 if \<not> ok then Inr (False, b3)
                 else get_meta_key ext (xferProcessor optState) (glCaps gpu) 0
                        (xfer_stage_builder optState gpu b3)))"

text \<open>
  Reading the header back: the byte of a field, the offsets of the five fields, and what
  the claims about the header assume of the declarations: the header lies inside the
  reserved bytes, its five fields are distinct bytes of it, and \<open>finalize\<close> leaves the
  bytes of the header as they are.
\<close>

definition header_field :: "decls \<Rightarrow> nat \<Rightarrow> u8 list \<Rightarrow> u8" where
  "header_field ext off key = key ! (kHeaderOffset ext + off)"

definition header_field_offsets :: "decls \<Rightarrow> nat list" where
  "header_field_offsets ext =
     [offsetof_fUseNvpr ext, offsetof_fDstReadKey ext, offsetof_fFragPosKey ext,
      offsetof_fColorEffectCnt ext, offsetof_fCoverageEffectCnt ext]"

definition header_layout_ok :: "decls \<Rightarrow> bool" where
  "header_layout_ok ext \<longleftrightarrow>
     kHeaderOffset ext + kHeaderSize ext \<le> kProcessorKeysOffset ext \<and>
     distinct (header_field_offsets ext) \<and>
     list_all (\<lambda>off. off < kHeaderSize ext) (header_field_offsets ext)"

definition finalize_keeps_header :: "decls \<Rightarrow> bool" where
  "finalize_keeps_header ext \<longleftrightarrow>
     (\<forall>key i. kProcessorKeysOffset ext \<le> length key \<and> i < kHeaderSize ext \<longrightarrow>
        finalize ext key ! (kHeaderOffset ext + i) = key ! (kHeaderOffset ext + i))"

text \<open>The values that lines 197-224 compute for the header.\<close>

definition dst_read_key :: "decls \<Rightarrow> GrOptDrawState \<Rightarrow> GrGLGpu \<Rightarrow> u8" where
  "dst_read_key ext optState gpu =
     KeyForDstRead ext (case dstCopy optState of None \<Rightarrow> None | Some dc \<Rightarrow> texture dc)
       (glCaps gpu)"

definition frag_pos_key :: "decls \<Rightarrow> GrOptDrawState \<Rightarrow> GrGLGpu \<Rightarrow> u8" where
  "frag_pos_key ext optState gpu = KeyForFragmentPosition ext (renderTarget optState) (glCaps gpu)"

definition uses_nvpr :: "decls \<Rightarrow> DrawType \<Rightarrow> GrGLGpu \<Rightarrow> bool" where
  "uses_nvpr ext drawType gpu \<longleftrightarrow>
     pathRenderingSupport (gpu_caps gpu) \<and> IsPathRenderingDrawType ext drawType"

text \<open>
  The example with a dependency on the fragment position, and with a destination copy
  that is read; declarations whose \<open>KeyForDstRead\<close> returns 0; the bytes that the three
  processors of the example append.
\<close>

definition frag_pos_info :: DescInfo where
  "frag_pos_info = example_info\<lparr>fReadsFragPosition := True\<rparr>"

definition dst_read_state :: GrOptDrawState where
  "dst_read_state = example_state\<lparr>dstCopy := Some \<lparr>texture = Some 7\<rparr>\<rparr>"

definition dst_read_info :: DescInfo where
  "dst_read_info = example_info\<lparr>fReadsDst := True\<rparr>"

definition zero_dst_decls :: decls where
  "zero_dst_decls = test_decls\<lparr>KeyForDstRead := (\<lambda>t c. 0)\<rparr>"

definition example_processor_keys :: "u8 list" where
  "example_processor_keys =
     [0, 0, 0, 0, 0, 0, 2, 0,
      0, 0, 0, 0, 8, 0, 0, 0, 4, 0, 3, 0,
      0, 0, 0, 0, 0, 0, 1, 0]"

text \<open>
  The processor keys in closed form. A stage contributes its private key (the words its
  processor adds), its texture key, its transform key and its class id; the chunk of a
  stage is its private key followed by the two words of its meta key, where the size
  field holds the byte length of the private key.
\<close>

type_synonym stage_key = "u32 list \<times> u32 \<times> u32 \<times> u32"

definition words_bytes :: "u32 list \<Rightarrow> u8 list" where
  "words_bytes ws = concat (map word_bytes ws)"

fun stage_chunk :: "stage_key \<Rightarrow> u32 list" where
  "stage_chunk (privateKey, textureKey, transformKey, cid) =
     privateKey @
       [push_bit 16 textureKey OR transformKey,
        push_bit 16 cid OR of_nat (4 * length privateKey)]"

definition stage_chunks :: "stage_key list \<Rightarrow> u32 list list" where
  "stage_chunks keys = map stage_chunk keys"

text \<open>
  A stage fits the meta key when its texture key, its transform key and its class id
  take at most 16 bits and the byte length of its private key is at most 65535.
\<close>

fun stage_key_fits :: "stage_key \<Rightarrow> bool" where
  "stage_key_fits (privateKey, textureKey, transformKey, cid) \<longleftrightarrow>
     unat textureKey \<le> 65535 \<and> unat transformKey \<le> 65535 \<and> unat cid \<le> 65535 \<and>
     4 * length privateKey \<le> 65535"

text \<open>
  The keys of the stages of a pipeline, in pipeline order: the primitive processor, the
  fragment stages, the transfer processor. Where the code fails with an assertion or an
  undefined shift the key is taken as 0; \<open>Build\<close> does not succeed there.
\<close>

definition texture_key_of :: "decls \<Rightarrow> 'a GrProcessor_scheme \<Rightarrow> GrGLCaps \<Rightarrow> u32" where
  "texture_key_of ext proc glcaps =
     (case gen_texture_key ext proc glcaps of Inl e \<Rightarrow> 0 | Inr textureKey \<Rightarrow> textureKey)"

definition transform_key_of :: "GrPendingFragmentStage \<Rightarrow> bool \<Rightarrow> u32" where
  "transform_key_of stage useExplicitLocalCoords =
     (case gen_transform_key stage useExplicitLocalCoords of
        Inl e \<Rightarrow> 0 | Inr transformKey \<Rightarrow> transformKey)"

definition fragment_stage_key :: "decls \<Rightarrow> GrGLCaps \<Rightarrow> bool \<Rightarrow> GrPendingFragmentStage \<Rightarrow> stage_key" where
  "fragment_stage_key ext glcaps requiresLocalCoordAttrib fps =
     (fpGLProcessorKey (processor fps) glcaps,
      texture_key_of ext (processor fps) glcaps,
      transform_key_of fps requiresLocalCoordAttrib,
      classID (processor fps))"

definition stage_keys :: "decls \<Rightarrow> GrOptDrawState \<Rightarrow> DescInfo \<Rightarrow> GrGLGpu \<Rightarrow> stage_key list" where
  "stage_keys ext optState descInfo gpu =
     (gpGLProcessorKey (primitiveProcessor optState) (batchTracker optState) (glCaps gpu),
      texture_key_of ext (primitiveProcessor optState) (glCaps gpu),
      0,
      classID (primitiveProcessor optState))
     # map (fragment_stage_key ext (glCaps gpu) (fRequiresLocalCoordAttrib descInfo))
         (fragmentStages optState)
     @ [(xpGLProcessorKey (xferProcessor optState) (glCaps gpu),
         texture_key_of ext (xferProcessor optState) (glCaps gpu),
         0,
         classID (xferProcessor optState))]"

text \<open>
  What the claims about the processor keys assume of \<open>finalize\<close>: it leaves the bytes
  from \<open>kProcessorKeysOffset\<close> on as they are.
\<close>

definition finalize_keeps_processor_keys :: "decls \<Rightarrow> bool" where
  "finalize_keeps_processor_keys ext \<longleftrightarrow>
     (\<forall>key. kProcessorKeysOffset ext \<le> length key \<longrightarrow>
        drop (kProcessorKeysOffset ext) (finalize ext key) = drop (kProcessorKeysOffset ext) key)"

text \<open>
  The header in closed form: the three assertions of lines 200, 207 and 214, and the key
  array after lines 195-228 when they hold.
\<close>

definition header_assertions_hold ::
  "decls \<Rightarrow> GrOptDrawState \<Rightarrow> DescInfo \<Rightarrow> DrawType \<Rightarrow> GrGLGpu \<Rightarrow> bool" where
  "header_assertions_hold ext optState descInfo drawType gpu \<longleftrightarrow>
     \<not> (uses_nvpr ext drawType gpu \<and> hasGeometryProcessor optState) \<and>
     \<not> (fReadsDst descInfo \<and> dstCopy optState = None \<and> \<not> dstReadInShaderSupport (gpu_caps gpu)) \<and>
     \<not> (fReadsDst descInfo \<and> dst_read_key ext optState gpu = 0)"

definition stored_header ::
  "decls \<Rightarrow> GrOptDrawState \<Rightarrow> DescInfo \<Rightarrow> DrawType \<Rightarrow> GrGLGpu \<Rightarrow> u8 list \<Rightarrow> u8 list" where
  "stored_header ext optState descInfo drawType gpu key0 =
     (memset0 (kHeaderOffset ext) (kHeaderSize ext) key0)
       [kHeaderOffset ext + offsetof_fUseNvpr ext :=
          (if uses_nvpr ext drawType gpu then 1 else 0),
        kHeaderOffset ext + offsetof_fDstReadKey ext :=
          (if fReadsDst descInfo then dst_read_key ext optState gpu else 0),
        kHeaderOffset ext + offsetof_fFragPosKey ext :=
          (if fReadsFragPosition descInfo then frag_pos_key ext optState gpu else 0),
        kHeaderOffset ext + offsetof_fColorEffectCnt ext := of_nat (numColorStages optState),
        kHeaderOffset ext + offsetof_fCoverageEffectCnt ext :=
          of_nat (numCoverageStages optState)]"

text \<open>
  Two fragment stages put the same bytes into the key when their processors add the
  same private key and have the same class id, and their transform keys and their
  texture keys are computed alike.
\<close>

definition same_stage_key ::
  "decls \<Rightarrow> GrGLCaps \<Rightarrow> bool \<Rightarrow> GrPendingFragmentStage \<Rightarrow> GrPendingFragmentStage \<Rightarrow> bool" where
  "same_stage_key ext glcaps req s1 s2 \<longleftrightarrow>
     fpGLProcessorKey (processor s1) glcaps = fpGLProcessorKey (processor s2) glcaps \<and>
     gen_transform_key s1 req = gen_transform_key s2 req \<and>
     classID (processor s1) = classID (processor s2) \<and>
     gen_texture_key ext (processor s1) glcaps = gen_texture_key ext (processor s2) glcaps"

text \<open>
  Two pipeline states differ only in their texture accesses when they are equal once the
  texture accesses of all their processors are erased. A list of texture accesses needs
  no remap when \<^verbatim>\<open>swizzle_requires_alpha_remapping\<close> is false for each of them.
\<close>

definition erase_stage_textures :: "GrPendingFragmentStage \<Rightarrow> GrPendingFragmentStage" where
  "erase_stage_textures fps = fps\<lparr>processor := (processor fps)\<lparr>textureAccesses := []\<rparr>\<rparr>"

definition erase_textures :: "GrOptDrawState \<Rightarrow> GrOptDrawState" where
  "erase_textures optState =
     optState
       \<lparr>primitiveProcessor := (primitiveProcessor optState)\<lparr>textureAccesses := []\<rparr>,
        fragmentStages := map erase_stage_textures (fragmentStages optState),
        xferProcessor := (xferProcessor optState)\<lparr>textureAccesses := []\<rparr>\<rparr>"

definition no_remap :: "decls \<Rightarrow> GrGLCaps \<Rightarrow> GrTextureAccess list \<Rightarrow> bool" where
  "no_remap ext glcaps accesses =
     list_all (\<lambda>access. \<not> swizzle_requires_alpha_remapping ext glcaps
                  (GrPixelConfigComponentMask ext (config access)) (swizzleMask access))
       accesses"

definition no_remap_needed :: "decls \<Rightarrow> GrGLCaps \<Rightarrow> GrOptDrawState \<Rightarrow> bool" where
  "no_remap_needed ext glcaps optState \<longleftrightarrow>
     no_remap ext glcaps (textureAccesses (primitiveProcessor optState)) \<and>
     list_all (\<lambda>fps. no_remap ext glcaps (textureAccesses (processor fps)))
       (fragmentStages optState) \<and>
     no_remap ext glcaps (textureAccesses (xferProcessor optState))"

text \<open>
  The example with a texture access on the primitive processor: an alpha-only
  configuration read through a swizzle with a colour channel. A GPU with hardware swizzle
  support.
\<close>

definition textured_state :: GrOptDrawState where
  "textured_state =
     example_state\<lparr>primitiveProcessor :=
       \<lparr>classID = 2, textureAccesses = [\<lparr>config = 0, swizzleMask = 1\<rparr>],
        gpGLProcessorKey = (\<lambda>bt c. [])\<rparr>\<rparr>"

definition swizzle_gpu :: GrGLGpu where
  "swizzle_gpu = \<lparr>glCaps = swizzle_caps\<rparr>"

text \<open>
  Logically equal inputs, in the words of the specification: the same stage sequence,
  class identities, private keys (as the processors add them under the capabilities in
  use), transform and texture configurations, flags and counts; the perspective of the
  transforms that a stage declares; the destination copy and the render target where the
  descriptor reads them. What \<open>Build\<close> does not read may differ.
\<close>

definition logically_equal_stages ::
  "GrGLCaps \<Rightarrow> GrPendingFragmentStage \<Rightarrow> GrPendingFragmentStage \<Rightarrow> bool" where
  "logically_equal_stages glcaps s1 s2 \<longleftrightarrow>
     classID (processor s1) = classID (processor s2) \<and>
     fpGLProcessorKey (processor s1) glcaps = fpGLProcessorKey (processor s2) glcaps \<and>
     textureAccesses (processor s1) = textureAccesses (processor s2) \<and>
     coordTransforms (processor s1) = coordTransforms (processor s2) \<and>
     list_all (\<lambda>t. isPerspectiveCoordTransform s1 t = isPerspectiveCoordTransform s2 t)
       [0 ..< numTransforms (processor s1)]"

definition logically_equal :: "GrGLGpu \<Rightarrow> DescInfo \<Rightarrow> GrOptDrawState \<Rightarrow> GrOptDrawState \<Rightarrow> bool" where
  "logically_equal gpu descInfo s1 s2 \<longleftrightarrow>
     classID (primitiveProcessor s1) = classID (primitiveProcessor s2) \<and>
     gpGLProcessorKey (primitiveProcessor s1) (batchTracker s1) (glCaps gpu) =
       gpGLProcessorKey (primitiveProcessor s2) (batchTracker s2) (glCaps gpu) \<and>
     textureAccesses (primitiveProcessor s1) = textureAccesses (primitiveProcessor s2) \<and>
     list_all2 (logically_equal_stages (glCaps gpu)) (fragmentStages s1) (fragmentStages s2) \<and>
     classID (xferProcessor s1) = classID (xferProcessor s2) \<and>
     xpGLProcessorKey (xferProcessor s1) (glCaps gpu) =
       xpGLProcessorKey (xferProcessor s2) (glCaps gpu) \<and>
     textureAccesses (xferProcessor s1) = textureAccesses (xferProcessor s2) \<and>
     hasGeometryProcessor s1 = hasGeometryProcessor s2 \<and>
     numColorStages s1 = numColorStages s2 \<and>
     numCoverageStages s1 = numCoverageStages s2 \<and>
     (if fReadsDst descInfo then dstCopy s1 = dstCopy s2 else True) \<and>
     (if fReadsFragPosition descInfo then renderTarget s1 = renderTarget s2 else True)"

text \<open>
  What determinism assumes of the declarations: the header ends where the processor keys
  begin, and \<open>finalize\<close> gives the same key for two arrays of one length that agree from
  \<open>kHeaderOffset\<close> on (it overwrites what lies before the header).
\<close>

definition reserved_bytes_determined :: "decls \<Rightarrow> bool" where
  "reserved_bytes_determined ext \<longleftrightarrow>
     kHeaderOffset ext + kHeaderSize ext = kProcessorKeysOffset ext \<and>
     (\<forall>key key'. length key = length key' \<and>
          drop (kHeaderOffset ext) key = drop (kHeaderOffset ext) key' \<longrightarrow>
        finalize ext key = finalize ext key')"

text \<open>
  The example with a different perspective flag for a transform the stage does not
  declare, and with a destination copy and a render target that the descriptor does not
  read.
\<close>

definition variant_state :: GrOptDrawState where
  "variant_state =
     example_state
       \<lparr>fragmentStages := [example_stage\<lparr>isPerspectiveCoordTransform := (\<lambda>t. 1 \<le> t)\<rparr>],
        dstCopy := Some \<lparr>texture = Some 7\<rparr>,
        renderTarget := 5\<rparr>"

section \<open>Properties\<close>

subsection \<open>Bits of the constants and of one transform's field\<close>

lemma kTransformKeyBits_eq: "kTransformKeyBits = 5"
  by (simp add: kTransformKeyBits_def kMatrixTypeKeyBits_def kPrecisionBits_def)

lemma bit_push_bit_u32:
  "bit (push_bit m (w :: u32)) n \<longleftrightarrow> m \<le> n \<and> n < 32 \<and> bit w (n - m)"
  by (auto simp add: bit_push_bit_iff dest: bit_imp_le_length)

lemma bit_exp_u32: "bit ((2 :: u32) ^ m) n \<longleftrightarrow> n = m \<and> m < 32"
  by (auto simp add: bit_exp_iff)

lemma bit_kPositionCoords_Flag: "bit kPositionCoords_Flag n \<longleftrightarrow> n = 3"
proof -
  have e: "bit ((2 :: u32) ^ 3) n \<longleftrightarrow> n = 3"
    unfolding bit_exp_u32 by simp
  have h: "kPositionCoords_Flag = 2 ^ 3"
    by (simp add: kPositionCoords_Flag_def kPrecisionShift_def kMatrixTypeKeyBits_def
        kPrecisionBits_def)
  show ?thesis unfolding h by (rule e)
qed

lemma bit_kDeviceCoords_Flag: "bit kDeviceCoords_Flag n \<longleftrightarrow> n = 4"
proof -
  have e: "bit ((2 :: u32) ^ 4) n \<longleftrightarrow> n = 4"
    unfolding bit_exp_u32 by simp
  have h: "kDeviceCoords_Flag = 2 ^ 4"
    by (simp add: kDeviceCoords_Flag_def kPositionCoords_Flag_def kPrecisionShift_def
        kMatrixTypeKeyBits_def kPrecisionBits_def)
  show ?thesis unfolding h by (rule e)
qed

lemma bit_precision:
  fixes p :: u32
  assumes "p < 4" and "bit p n"
  shows "n < 2"
proof -
  have "p < 2 ^ 2" using assms(1) by simp
  then have "p AND mask 2 = p" by (rule less_mask_eq)
  then have "bit (p AND mask 2) n" using assms(2) by simp
  then show ?thesis by (simp add: bit_and_iff bit_mask_iff)
qed

lemma bit_shifted_precision:
  "bit (push_bit kPrecisionShift (p :: u32)) n \<longleftrightarrow> 1 \<le> n \<and> n < 32 \<and> bit p (n - 1)"
  unfolding bit_push_bit_u32 by (simp add: kPrecisionShift_def kMatrixTypeKeyBits_def)

lemma bit_transform_key_field:
  "bit (transform_key_field stage ex t ct) n \<longleftrightarrow>
     (n = 0 \<and> isPerspectiveCoordTransform stage t) \<or>
     (n = 3 \<and> sourceCoords ct = kLocal_GrCoordSet \<and> \<not> ex) \<or>
     (n = 4 \<and> sourceCoords ct = kDevice_GrCoordSet) \<or>
     (1 \<le> n \<and> n < 32 \<and> bit (precision ct) (n - 1))"
  unfolding transform_key_field_def Let_def kNoPersp_MatrixType_def kGeneral_MatrixType_def
  by (cases "sourceCoords ct")
    (auto simp add: bit_or_iff bit_shifted_precision bit_1_iff bit_kPositionCoords_Flag
      bit_kDeviceCoords_Flag)

lemma field_small:
  assumes "precision ct < 4" and "bit (transform_key_field stage ex t ct) n"
  shows "n < 5"
  using assms(2) bit_precision [OF assms(1), of "n - 1"]
  by (auto simp add: bit_transform_key_field)

subsection \<open>The transform key loop\<close>

lemma shifted_field_disjoint:
  assumes low: "\<And>n. bit (totalKey :: u32) n \<Longrightarrow> n < m"
  shows "totalKey AND push_bit m f = 0"
proof (rule bit_eqI)
  fix n
  show "bit (totalKey AND push_bit m f) n \<longleftrightarrow> bit (0 :: u32) n"
    using low [of n] by (auto simp add: bit_and_iff bit_push_bit_u32)
qed

lemma gen_transform_key_loop_packed:
  assumes "\<forall>ct \<in> set cts. precision ct < 4"
    and "\<And>n. bit totalKey n \<Longrightarrow> n < kTransformKeyBits * t"
    and "t \<le> 7"
  shows "gen_transform_key_loop stage ex cts t totalKey =
           (if t + length cts \<le> 7
            then Inr (totalKey OR packed_transform_fields stage ex cts t)
            else Inl UndefinedShift)"
  using assms
proof (induction cts arbitrary: t totalKey)
  case Nil
  then show ?case by simp
next
  case (Cons ct rest)
  let ?key = "push_bit (kTransformKeyBits * t) (transform_key_field stage ex t ct)"
  show ?case
  proof (cases "t \<le> 6")
    case False
    then show ?thesis using Cons.prems(3) by (simp add: kTransformKeyBits_eq)
  next
    case True
    then have shift: "\<not> 32 \<le> kTransformKeyBits * t" by (simp add: kTransformKeyBits_eq)
    have disj: "totalKey AND ?key = 0"
      using Cons.prems(2) by (rule shifted_field_disjoint)
    have p: "precision ct < 4" using Cons.prems(1) by simp
    have low: "n < kTransformKeyBits * (t + 1)" if "bit (totalKey OR ?key) n" for n
    proof -
      from that consider "bit totalKey n" | "bit ?key n" by (auto simp add: bit_or_iff)
      then show ?thesis
      proof cases
        case 1
        then show ?thesis using Cons.prems(2) [of n] by simp
      next
        case 2
        then have "kTransformKeyBits * t \<le> n"
          and "bit (transform_key_field stage ex t ct) (n - kTransformKeyBits * t)"
          by (simp_all add: bit_push_bit_u32)
        then show ?thesis using field_small [OF p] by (fastforce simp add: kTransformKeyBits_eq)
      qed
    qed
    have "gen_transform_key_loop stage ex rest (t + 1) (totalKey OR ?key) =
          (if t + 1 + length rest \<le> 7
           then Inr ((totalKey OR ?key) OR packed_transform_fields stage ex rest (t + 1))
           else Inl UndefinedShift)"
      using Cons.prems(1) low True by (intro Cons.IH) simp_all
    then show ?thesis using shift disj by (simp add: Let_def or.assoc)
  qed
qed


lemma bit_packed_transform_fields:
  "bit (packed_transform_fields stage ex cts t) m \<longleftrightarrow>
     (\<exists>i < length cts. kTransformKeyBits * (t + i) \<le> m \<and> m < 32 \<and>
        bit (transform_key_field stage ex (t + i) (cts ! i)) (m - kTransformKeyBits * (t + i)))"
proof (induction cts arbitrary: t)
  case Nil
  then show ?case by simp
next
  case (Cons ct rest)
  have "(\<exists>i < length (ct # rest). P i) \<longleftrightarrow> P 0 \<or> (\<exists>i < length rest. P (Suc i))" for P
    by (auto simp add: less_Suc_eq_0_disj)
  then show ?case
    by (simp add: bit_or_iff bit_push_bit_u32 Cons.IH)
qed

lemma gen_transform_key_packed:
  assumes "\<forall>ct \<in> set (coordTransforms (processor stage)). precision ct < 4"
  shows "gen_transform_key stage ex =
           (if numTransforms (processor stage) \<le> 7
            then Inr (packed_transform_fields stage ex (coordTransforms (processor stage)) 0)
            else Inl UndefinedShift)"
  unfolding gen_transform_key_def numTransforms_def
  using gen_transform_key_loop_packed [OF assms, of 0 0 stage ex] by simp

lemma packed_field_readback:
  assumes valid: "\<forall>ct \<in> set cts. precision ct < 4"
    and n: "length cts \<le> 6" and t: "t < length cts" and k: "k < 5"
  shows "bit (packed_transform_fields stage ex cts 0) (kTransformKeyBits * t + k) \<longleftrightarrow>
           bit (transform_key_field stage ex t (cts ! t)) k"
proof
  assume "bit (packed_transform_fields stage ex cts 0) (kTransformKeyBits * t + k)"
  then obtain i where i: "i < length cts" "5 * i \<le> 5 * t + k"
    and b: "bit (transform_key_field stage ex i (cts ! i)) (5 * t + k - 5 * i)"
    by (auto simp add: bit_packed_transform_fields kTransformKeyBits_eq)
  have "precision (cts ! i) < 4" using valid i(1) by simp
  then have "5 * t + k - 5 * i < 5" using b by (rule field_small)
  then have "i = t" using i(2) k by arith
  then show "bit (transform_key_field stage ex t (cts ! t)) k" using b by simp
next
  assume "bit (transform_key_field stage ex t (cts ! t)) k"
  moreover have "5 * t + k < 32" using n t k by arith
  ultimately show "bit (packed_transform_fields stage ex cts 0) (kTransformKeyBits * t + k)"
    using t by (auto simp add: bit_packed_transform_fields kTransformKeyBits_eq intro!: exI [of _ t])
qed

lemma packed_field_extract:
  assumes valid: "\<forall>ct \<in> set cts. precision ct < 4"
    and n: "length cts \<le> 6" and t: "t < length cts"
  shows "take_bit kTransformKeyBits (drop_bit (kTransformKeyBits * t)
           (packed_transform_fields stage ex cts 0)) = transform_key_field stage ex t (cts ! t)"
proof (rule bit_eqI)
  fix k
  have p: "precision (cts ! t) < 4" using valid t by simp
  show "bit (take_bit kTransformKeyBits (drop_bit (kTransformKeyBits * t)
           (packed_transform_fields stage ex cts 0))) k \<longleftrightarrow>
        bit (transform_key_field stage ex t (cts ! t)) k"
  proof (cases "k < 5")
    case True
    then show ?thesis
      using packed_field_readback [OF valid n t True, of stage ex]
      by (simp add: bit_take_bit_iff bit_drop_bit_eq kTransformKeyBits_eq)
  next
    case False
    then show ?thesis using field_small [OF p, of stage ex t k]
      by (auto simp add: bit_take_bit_iff kTransformKeyBits_eq)
  qed
qed

lemma shifted_fields_disjoint:
  assumes "precision ct < 4" and "precision ct' < 4" and "i \<noteq> j"
  shows "push_bit (kTransformKeyBits * i) (transform_key_field stage ex i ct) AND
         push_bit (kTransformKeyBits * j) (transform_key_field stage ex j ct') = 0"
proof (rule bit_eqI)
  fix n
  have False
    if "5 * i \<le> n" "bit (transform_key_field stage ex i ct) (n - 5 * i)"
       "5 * j \<le> n" "bit (transform_key_field stage ex j ct') (n - 5 * j)"
  proof -
    have "n - 5 * i < 5" using assms(1) that(2) by (rule field_small)
    moreover have "n - 5 * j < 5" using assms(2) that(4) by (rule field_small)
    ultimately show False using that(1,3) assms(3) by arith
  qed
  then show "bit (push_bit (kTransformKeyBits * i) (transform_key_field stage ex i ct) AND
         push_bit (kTransformKeyBits * j) (transform_key_field stage ex j ct')) n \<longleftrightarrow> bit (0 :: u32) n"
    by (auto simp add: bit_and_iff bit_push_bit_u32 kTransformKeyBits_eq)
qed

subsection \<open>What one field holds\<close>

lemma and_flag_nonzero_iff:
  fixes w :: u32
  shows "w AND 2 ^ n \<noteq> 0 \<longleftrightarrow> bit w n"
  by (simp add: and_exp_eq_0_iff_not_bit)

lemma kPositionCoords_Flag_exp: "kPositionCoords_Flag = 2 ^ 3"
  by (simp add: kPositionCoords_Flag_def kPrecisionShift_def kMatrixTypeKeyBits_def kPrecisionBits_def)

lemma kDeviceCoords_Flag_exp: "kDeviceCoords_Flag = 2 ^ 4"
  by (simp add: kDeviceCoords_Flag_def kPositionCoords_Flag_def kPrecisionShift_def
        kMatrixTypeKeyBits_def kPrecisionBits_def)

lemma field_matrix_type:
  "transform_key_field stage ex t ct AND kMatrixTypeKeyMask =
     (if isPerspectiveCoordTransform stage t then kGeneral_MatrixType else kNoPersp_MatrixType)"
proof -
  have m: "kMatrixTypeKeyMask = 1" by (simp add: kMatrixTypeKeyMask_def kMatrixTypeKeyBits_def)
  have "bit (transform_key_field stage ex t ct AND 1) n \<longleftrightarrow>
        bit (if isPerspectiveCoordTransform stage t then 1 else 0 :: u32) n" for n
    by (auto simp add: bit_and_iff bit_1_iff bit_transform_key_field)
  then show ?thesis
    unfolding m kGeneral_MatrixType_def kNoPersp_MatrixType_def by (rule bit_eqI)
qed

lemma field_precision:
  assumes "precision ct < 4"
  shows "take_bit kPrecisionBits (drop_bit kPrecisionShift (transform_key_field stage ex t ct)) =
           precision ct"
proof (rule bit_eqI)
  fix k
  show "bit (take_bit kPrecisionBits (drop_bit kPrecisionShift (transform_key_field stage ex t ct))) k
          \<longleftrightarrow> bit (precision ct) k"
    using bit_precision [OF assms, of k] bit_precision [OF assms, of 2] bit_precision [OF assms, of 3]
    by (auto simp add: bit_take_bit_iff bit_drop_bit_eq bit_transform_key_field kPrecisionBits_def
        kPrecisionShift_def kMatrixTypeKeyBits_def dest: bit_imp_le_length)
qed

lemma field_position_flag:
  assumes "precision ct < 4"
  shows "transform_key_field stage ex t ct AND kPositionCoords_Flag \<noteq> 0 \<longleftrightarrow>
           sourceCoords ct = kLocal_GrCoordSet \<and> \<not> ex"
  unfolding kPositionCoords_Flag_exp and_flag_nonzero_iff
  using bit_precision [OF assms, of 2] by (auto simp add: bit_transform_key_field)

lemma field_device_flag:
  assumes "precision ct < 4"
  shows "transform_key_field stage ex t ct AND kDeviceCoords_Flag \<noteq> 0 \<longleftrightarrow>
           sourceCoords ct = kDevice_GrCoordSet"
  unfolding kDeviceCoords_Flag_exp and_flag_nonzero_iff
  using bit_precision [OF assms, of 3] by (auto simp add: bit_transform_key_field)

lemma field_width:
  assumes "precision ct < 4"
  shows "take_bit kTransformKeyBits (transform_key_field stage ex t ct) =
           transform_key_field stage ex t ct"
proof (rule bit_eqI)
  fix k
  show "bit (take_bit kTransformKeyBits (transform_key_field stage ex t ct)) k \<longleftrightarrow>
        bit (transform_key_field stage ex t ct) k"
    using field_small [OF assms, of stage ex t k]
    by (auto simp add: bit_take_bit_iff kTransformKeyBits_eq)
qed

subsection \<open>Fields of the meta key that fit 16 bits\<close>

lemma and_not_mask_zero_iff:
  fixes w :: u32
  shows "w AND NOT (mask 16) = 0 \<longleftrightarrow> w AND mask 16 = w"
  by (auto simp add: bit_eq_iff bit_and_iff bit_not_iff bit_mask_iff)

lemma fits_16_iff:
  fixes w :: u32
  shows "w AND kMetaKeyInvalidMask = 0 \<longleftrightarrow> unat w \<le> 65535"
proof -
  have k: "kMetaKeyInvalidMask = NOT (mask 16)"
    by (simp add: kMetaKeyInvalidMask_def SK_MaxU16_def mask_eq_exp_minus_1)
  have "w AND mask 16 = w \<longleftrightarrow> uint w < 2 ^ 16" by (rule mask_eq_iff)
  also have "\<dots> \<longleftrightarrow> int (unat w) < 65536" by simp
  also have "\<dots> \<longleftrightarrow> unat w \<le> 65535" by linarith
  finally show ?thesis by (simp add: k and_not_mask_zero_iff)
qed

lemma meta_key_fields_fit_iff:
  fixes textureKey transformKey classID :: u32
  shows "(textureKey OR transformKey OR classID) AND kMetaKeyInvalidMask = 0 \<longleftrightarrow>
     unat textureKey \<le> 65535 \<and> unat transformKey \<le> 65535 \<and> unat classID \<le> 65535"
  by (simp add: word_ao_dist or_eq_0_iff fits_16_iff)

lemmas transform_consts =
  kTransformKeyBits_def kMatrixTypeKeyBits_def kPrecisionBits_def kPrecisionShift_def
  kPositionCoords_Flag_def kDeviceCoords_Flag_def kNoPersp_MatrixType_def
  kGeneral_MatrixType_def kMatrixTypeKeyMask_def

lemma ucast_SkToU16:
  assumes "n \<le> 65535"
  shows "(ucast (SkToU16 n) :: u32) = of_nat n"
proof -
  have "take_bit 16 n = n" using assms by (simp add: take_bit_nat_eq_self_iff)
  then show ?thesis by (simp add: SkToU16_def unsigned_of_nat)
qed

subsection \<open>The transform keys of the example stages\<close>

lemma two_transform_stage_key: "gen_transform_key two_transform_stage False = Inr 682"
  by (simp add: gen_transform_key_def two_transform_stage_def transform_key_field_def transform_consts)

lemma six_transform_stage_key: "gen_transform_key six_transform_stage True = Inr 0"
  by (simp add: gen_transform_key_def six_transform_stage_def plain_transform_def
      transform_key_field_def transform_consts)

lemma seven_transform_stage_key: "gen_transform_key seven_transform_stage True = Inr 0"
  by (simp add: gen_transform_key_def seven_transform_stage_def plain_transform_def
      transform_key_field_def transform_consts)

subsection \<open>The two outcomes of the meta key\<close>

lemma get_meta_key_cases:
  assumes "gen_texture_key ext proc glcaps = Inr textureKey"
  shows "get_meta_key ext proc glcaps transformKey b =
           (if 65535 < unat textureKey \<or> 65535 < unat transformKey \<or>
               65535 < unat (classID proc) \<or> 65535 < builder_size b
            then Inr (False, b)
            else Inr (True,
                   b\<lparr>fData := fData b
                        @ word_bytes (push_bit 16 textureKey OR transformKey)
                        @ word_bytes (push_bit 16 (classID proc) OR of_nat (builder_size b)),
                     fCount := 0\<rparr>))"
proof -
  have fit: "(textureKey OR transformKey OR classID proc) AND kMetaKeyInvalidMask \<noteq> 0 \<longleftrightarrow>
      65535 < unat textureKey \<or> 65535 < unat transformKey \<or> 65535 < unat (classID proc)"
    using meta_key_fields_fit_iff [of textureKey transformKey "classID proc"] by auto
  show ?thesis
    unfolding get_meta_key_def Let_def assms sum.case fit
    by (simp add: SK_MaxU16_def add32n_2_def ucast_SkToU16)
qed

section \<open>The claims\<close>

text \<open>
  C2, the truth table of \<^verbatim>\<open>swizzle_requires_alpha_remapping\<close>. A swizzle reads alpha
  when it has a bit of \<open>kA_GrColorComponentFlag\<close> and reads red, green or blue when it
  has a bit of \<open>kRGB_GrColorComponentFlags\<close>. The function is false with hardware
  swizzle support; without it and on an alpha-only configuration it is true when the
  swizzle reads alpha and red textures are supported, true when the swizzle reads red,
  green or blue, false when the swizzle reads none of red, green and blue and red
  textures are not supported; it is false on every configuration that is not alpha-only.
\<close>

theorem swizzle_remap_truth_table:
  "(textureSwizzleSupport glcaps \<longrightarrow>
      \<not> swizzle_requires_alpha_remapping ext glcaps configComponentMask swizzleComponentMask) \<and>
   (\<not> textureSwizzleSupport glcaps \<and> configComponentMask = kA_GrColorComponentFlag ext \<and>
    textureRedSupport glcaps \<and> kA_GrColorComponentFlag ext AND swizzleComponentMask \<noteq> 0 \<longrightarrow>
      swizzle_requires_alpha_remapping ext glcaps configComponentMask swizzleComponentMask) \<and>
   (\<not> textureSwizzleSupport glcaps \<and> configComponentMask = kA_GrColorComponentFlag ext \<and>
    kRGB_GrColorComponentFlags ext AND swizzleComponentMask \<noteq> 0 \<longrightarrow>
      swizzle_requires_alpha_remapping ext glcaps configComponentMask swizzleComponentMask) \<and>
   (\<not> textureSwizzleSupport glcaps \<and> configComponentMask = kA_GrColorComponentFlag ext \<and>
    kRGB_GrColorComponentFlags ext AND swizzleComponentMask = 0 \<and> \<not> textureRedSupport glcaps \<longrightarrow>
      \<not> swizzle_requires_alpha_remapping ext glcaps configComponentMask swizzleComponentMask) \<and>
   (configComponentMask \<noteq> kA_GrColorComponentFlag ext \<longrightarrow>
      \<not> swizzle_requires_alpha_remapping ext glcaps configComponentMask swizzleComponentMask)"
  by (auto simp add: swizzle_requires_alpha_remapping_def)

text \<open>One input for each row of the table.\<close>

theorem swizzle_remap_truth_table_witness:
  "\<not> swizzle_requires_alpha_remapping test_decls swizzle_caps 8 15 \<and>
   swizzle_requires_alpha_remapping test_decls red_caps 8 8 \<and>
   swizzle_requires_alpha_remapping test_decls no_swizzle_caps 8 1 \<and>
   \<not> swizzle_requires_alpha_remapping test_decls no_swizzle_caps 8 8 \<and>
   \<not> swizzle_requires_alpha_remapping test_decls no_swizzle_caps 15 1"
  using swizzle_remap_truth_table [of swizzle_caps test_decls 8 15]
    swizzle_remap_truth_table [of red_caps test_decls 8 8]
    swizzle_remap_truth_table [of no_swizzle_caps test_decls 8 1]
    swizzle_remap_truth_table [of no_swizzle_caps test_decls 8 8]
    swizzle_remap_truth_table [of no_swizzle_caps test_decls 15 1]
  by (simp add: test_decls_def swizzle_caps_def red_caps_def no_swizzle_caps_def)

text \<open>
  C3, the contract of \<^verbatim>\<open>get_meta_key\<close>, for a processor whose texture key is defined.
  It returns false exactly when the texture key, the transform key or the class id is
  larger than 16 bits hold, or the size the builder reports is; then the builder is
  unchanged. Otherwise it returns true and has appended exactly two words:
  \<open>(textureKey << 16) | transformKey\<close> and \<open>(classID << 16) | size\<close>; the stage is
  complete, and the builder has no word of a next private key yet.
\<close>

theorem get_meta_key_contract:
  assumes "gen_texture_key ext proc glcaps = Inr textureKey"
  shows "get_meta_key ext proc glcaps transformKey b =
           (if 65535 < unat textureKey \<or> 65535 < unat transformKey \<or>
               65535 < unat (classID proc) \<or> 65535 < builder_size b
            then Inr (False, b)
            else Inr (True,
                   b\<lparr>fData := fData b
                        @ word_bytes (push_bit 16 textureKey OR transformKey)
                        @ word_bytes (push_bit 16 (classID proc) OR of_nat (builder_size b)),
                     fCount := 0\<rparr>))"
  using assms by (rule get_meta_key_cases)

text \<open>
  The processor of the example stage after a private key of three words: the meta key is
  appended with size 12; a transform key of 17 bits is refused and nothing is appended.
\<close>

theorem get_meta_key_contract_witness:
  "gen_texture_key test_decls (processor example_stage) no_swizzle_caps = Inr 0 \<and>
   getGLProcessorKey [0, 0, 0] (GrProcessorKeyBuilder_new []) =
     \<lparr>fData = [0, 0, 0, 0, 0, 0, 0, 0, 0, 0, 0, 0], fCount = 3\<rparr> \<and>
   get_meta_key test_decls (processor example_stage) no_swizzle_caps 8
       \<lparr>fData = [0, 0, 0, 0, 0, 0, 0, 0, 0, 0, 0, 0], fCount = 3\<rparr>
     = Inr (True, \<lparr>fData = [0, 0, 0, 0, 0, 0, 0, 0, 0, 0, 0, 0, 8, 0, 0, 0, 12, 0, 3, 0],
                   fCount = 0\<rparr>) \<and>
   get_meta_key test_decls (processor example_stage) no_swizzle_caps 65536
       \<lparr>fData = [0, 0, 0, 0, 0, 0, 0, 0, 0, 0, 0, 0], fCount = 3\<rparr>
     = Inr (False, \<lparr>fData = [0, 0, 0, 0, 0, 0, 0, 0, 0, 0, 0, 0], fCount = 3\<rparr>)"
proof -
  have t: "gen_texture_key test_decls (processor example_stage) no_swizzle_caps = Inr 0"
    by (simp add: gen_texture_key_def example_stage_def)
  have g: "getGLProcessorKey [0, 0, 0] (GrProcessorKeyBuilder_new []) =
     \<lparr>fData = [0, 0, 0, 0, 0, 0, 0, 0, 0, 0, 0, 0], fCount = 3\<rparr>"
    by (simp add: GrProcessorKeyBuilder_new_def add32_def word_bytes_def)
  show ?thesis
    using t g
      get_meta_key_contract [OF t, of 8
        "\<lparr>fData = [0, 0, 0, 0, 0, 0, 0, 0, 0, 0, 0, 0], fCount = 3\<rparr>"]
      get_meta_key_contract [OF t, of 65536
        "\<lparr>fData = [0, 0, 0, 0, 0, 0, 0, 0, 0, 0, 0, 0], fCount = 3\<rparr>"]
    by (simp add: example_stage_def builder_size_def word_bytes_def)
qed

text \<open>
  C6, the field of transform \<open>t\<close>, for a stage with valid precisions. Its matrix-type
  bit is \<open>kGeneral_MatrixType\<close> exactly when the transform has perspective; the two bits
  above hold the precision; the position flag is set exactly when the transform is
  sourced from local coordinates and explicit local coordinates are not in use; the
  device flag is set exactly when it is sourced from device coordinates; the field has
  \<open>kTransformKeyBits\<close> bits. The key is the OR of the fields, field \<open>t\<close> shifted left by
  \<open>kTransformKeyBits * t\<close> (for the up to seven transforms whose shift is defined), and
  with at most six transforms field \<open>t\<close> is read back from the key at that shift.
\<close>

theorem per_transform_field_encoding:
  assumes valid: "\<forall>ct \<in> set (coordTransforms (processor stage)). precision ct < 4"
    and t: "t < numTransforms (processor stage)"
    and ct: "coordTransform = coordTransforms (processor stage) ! t"
    and fld: "field = transform_key_field stage useExplicitLocalCoords t coordTransform"
  shows "field AND kMatrixTypeKeyMask =
           (if isPerspectiveCoordTransform stage t then kGeneral_MatrixType
            else kNoPersp_MatrixType) \<and>
         take_bit kPrecisionBits (drop_bit kPrecisionShift field) = precision coordTransform \<and>
         (field AND kPositionCoords_Flag \<noteq> 0 \<longleftrightarrow>
            sourceCoords coordTransform = kLocal_GrCoordSet \<and> \<not> useExplicitLocalCoords) \<and>
         (field AND kDeviceCoords_Flag \<noteq> 0 \<longleftrightarrow>
            sourceCoords coordTransform = kDevice_GrCoordSet) \<and>
         take_bit kTransformKeyBits field = field \<and>
         (numTransforms (processor stage) \<le> 7 \<longrightarrow>
            gen_transform_key stage useExplicitLocalCoords =
              Inr (packed_transform_fields stage useExplicitLocalCoords
                     (coordTransforms (processor stage)) 0)) \<and>
         (numTransforms (processor stage) \<le> 6 \<longrightarrow>
            (\<exists>key. gen_transform_key stage useExplicitLocalCoords = Inr key \<and>
               take_bit kTransformKeyBits (drop_bit (kTransformKeyBits * t) key) = field))"
proof -
  have p: "precision coordTransform < 4"
    using valid t ct by (simp add: numTransforms_def)
  have key: "numTransforms (processor stage) \<le> 7 \<Longrightarrow>
      gen_transform_key stage useExplicitLocalCoords =
        Inr (packed_transform_fields stage useExplicitLocalCoords
               (coordTransforms (processor stage)) 0)"
    using gen_transform_key_packed [OF valid, of useExplicitLocalCoords] by simp
  have rb: "numTransforms (processor stage) \<le> 6 \<Longrightarrow>
      take_bit kTransformKeyBits (drop_bit (kTransformKeyBits * t)
        (packed_transform_fields stage useExplicitLocalCoords
           (coordTransforms (processor stage)) 0)) = field"
    using packed_field_extract [OF valid, of t stage useExplicitLocalCoords] t ct fld
    by (simp add: numTransforms_def)
  show ?thesis
    unfolding fld
    using field_matrix_type [of stage useExplicitLocalCoords t coordTransform]
      field_precision [OF p, of stage useExplicitLocalCoords t]
      field_position_flag [OF p, of stage useExplicitLocalCoords t]
      field_device_flag [OF p, of stage useExplicitLocalCoords t]
      field_width [OF p, of stage useExplicitLocalCoords t]
      key rb
    by (simp add: fld)
qed

theorem per_transform_field_encoding_witness:
  "precision (coordTransforms (processor two_transform_stage) ! 0) < 4 \<and>
   precision (coordTransforms (processor two_transform_stage) ! 1) < 4 \<and>
   1 < numTransforms (processor two_transform_stage) \<and>
   transform_key_field two_transform_stage False 1
     \<lparr>sourceCoords = kDevice_GrCoordSet, precision = 2\<rparr> = 21 \<and>
   (21 :: u32) AND kMatrixTypeKeyMask = kGeneral_MatrixType \<and>
   take_bit kPrecisionBits (drop_bit kPrecisionShift (21 :: u32)) = 2 \<and>
   (21 :: u32) AND kPositionCoords_Flag = 0 \<and>
   (21 :: u32) AND kDeviceCoords_Flag \<noteq> 0 \<and>
   gen_transform_key two_transform_stage False = Inr 682 \<and>
   take_bit kTransformKeyBits (drop_bit (kTransformKeyBits * 1) (682 :: u32)) = 21"
proof -
  have v: "\<forall>ct \<in> set (coordTransforms (processor two_transform_stage)). precision ct < 4"
    by (simp add: two_transform_stage_def)
  have v': "precision (coordTransforms (processor two_transform_stage) ! 0) < 4 \<and>
      precision (coordTransforms (processor two_transform_stage) ! 1) < 4"
    by (simp add: two_transform_stage_def)
  have n: "1 < numTransforms (processor two_transform_stage)"
    by (simp add: two_transform_stage_def numTransforms_def)
  have m: "numTransforms (processor two_transform_stage) \<le> 6"
    by (simp add: two_transform_stage_def numTransforms_def)
  have c: "\<lparr>sourceCoords = kDevice_GrCoordSet, precision = 2\<rparr> =
      coordTransforms (processor two_transform_stage) ! 1"
    by (simp add: two_transform_stage_def)
  have f: "(21 :: u32) = transform_key_field two_transform_stage False 1
     \<lparr>sourceCoords = kDevice_GrCoordSet, precision = 2\<rparr>"
    by (simp add: two_transform_stage_def transform_key_field_def transform_consts)
  have p: "isPerspectiveCoordTransform two_transform_stage 1"
    by (simp add: two_transform_stage_def)
  from per_transform_field_encoding [OF v n c f] p m
  have "(21 :: u32) AND kMatrixTypeKeyMask = kGeneral_MatrixType \<and>
      take_bit kPrecisionBits (drop_bit kPrecisionShift (21 :: u32)) = 2 \<and>
      (21 :: u32) AND kPositionCoords_Flag = 0 \<and>
      (21 :: u32) AND kDeviceCoords_Flag \<noteq> 0 \<and>
      (\<exists>key. gen_transform_key two_transform_stage False = Inr key \<and>
         take_bit kTransformKeyBits (drop_bit (kTransformKeyBits * 1) key) = 21)"
    by auto
  then show ?thesis
    using v' n f [symmetric] two_transform_stage_key by auto
qed

text \<open>
  C10: for a stage with at most 6 transforms (and valid precisions) \<^verbatim>\<open>gen_transform_key\<close>
  returns a key, so the overlap assertion does not fire; every field is read back from
  the key; the shifted fields are pairwise disjoint and field \<open>i\<close> lies in the bits from
  \<open>kTransformKeyBits * i\<close> up to \<open>kTransformKeyBits * i + kTransformKeyBits\<close>; a stage
  without transforms gets the key 0, the literal that \<^verbatim>\<open>Build\<close> passes for the primitive
  and the transfer processor (lines 166 and 184).
\<close>

theorem gen_transform_key_total_up_to_six:
  assumes "\<forall>ct \<in> set (coordTransforms (processor stage)). precision ct < 4"
    and "numTransforms (processor stage) \<le> 6"
  shows "(\<exists>key. gen_transform_key stage useExplicitLocalCoords = Inr key \<and>
            (\<forall>t < numTransforms (processor stage).
               take_bit kTransformKeyBits (drop_bit (kTransformKeyBits * t) key) =
                 transform_key_field stage useExplicitLocalCoords t
                   (coordTransforms (processor stage) ! t))) \<and>
         (\<forall>i < numTransforms (processor stage). \<forall>j < numTransforms (processor stage).
            i \<noteq> j \<longrightarrow>
              push_bit (kTransformKeyBits * i)
                (transform_key_field stage useExplicitLocalCoords i
                   (coordTransforms (processor stage) ! i)) AND
              push_bit (kTransformKeyBits * j)
                (transform_key_field stage useExplicitLocalCoords j
                   (coordTransforms (processor stage) ! j)) = 0) \<and>
         (\<forall>i < numTransforms (processor stage). \<forall>n.
            bit (push_bit (kTransformKeyBits * i)
                  (transform_key_field stage useExplicitLocalCoords i
                     (coordTransforms (processor stage) ! i))) n \<longrightarrow>
              kTransformKeyBits * i \<le> n \<and> n < kTransformKeyBits * i + kTransformKeyBits) \<and>
         (numTransforms (processor stage) = 0 \<longrightarrow>
            gen_transform_key stage useExplicitLocalCoords = Inr 0)"
proof (intro conjI)
  let ?cts = "coordTransforms (processor stage)"
  have n: "length ?cts \<le> 6" using assms(2) by (simp add: numTransforms_def)
  have key: "gen_transform_key stage useExplicitLocalCoords =
      Inr (packed_transform_fields stage useExplicitLocalCoords ?cts 0)"
    using gen_transform_key_packed [OF assms(1), of useExplicitLocalCoords] assms(2) by simp
  show "\<exists>key. gen_transform_key stage useExplicitLocalCoords = Inr key \<and>
            (\<forall>t < numTransforms (processor stage).
               take_bit kTransformKeyBits (drop_bit (kTransformKeyBits * t) key) =
                 transform_key_field stage useExplicitLocalCoords t (?cts ! t))"
    using key packed_field_extract [OF assms(1) n]
    by (simp add: numTransforms_def)
  show "\<forall>i < numTransforms (processor stage). \<forall>j < numTransforms (processor stage).
            i \<noteq> j \<longrightarrow>
              push_bit (kTransformKeyBits * i)
                (transform_key_field stage useExplicitLocalCoords i (?cts ! i)) AND
              push_bit (kTransformKeyBits * j)
                (transform_key_field stage useExplicitLocalCoords j (?cts ! j)) = 0"
    using assms(1) by (simp add: numTransforms_def shifted_fields_disjoint)
  show "\<forall>i < numTransforms (processor stage). \<forall>n.
            bit (push_bit (kTransformKeyBits * i)
                  (transform_key_field stage useExplicitLocalCoords i (?cts ! i))) n \<longrightarrow>
              kTransformKeyBits * i \<le> n \<and> n < kTransformKeyBits * i + kTransformKeyBits"
  proof (intro allI impI)
    fix i n
    assume i: "i < numTransforms (processor stage)"
      and b: "bit (push_bit (kTransformKeyBits * i)
                  (transform_key_field stage useExplicitLocalCoords i (?cts ! i))) n"
    have p: "precision (?cts ! i) < 4" using assms(1) i by (simp add: numTransforms_def)
    from b have le: "kTransformKeyBits * i \<le> n"
      and f: "bit (transform_key_field stage useExplicitLocalCoords i (?cts ! i))
                (n - kTransformKeyBits * i)"
      by (simp_all add: bit_push_bit_u32)
    have "n - kTransformKeyBits * i < 5" using p f by (rule field_small)
    then show "kTransformKeyBits * i \<le> n \<and> n < kTransformKeyBits * i + kTransformKeyBits"
      using le by (simp add: kTransformKeyBits_eq)
  qed
  show "numTransforms (processor stage) = 0 \<longrightarrow>
            gen_transform_key stage useExplicitLocalCoords = Inr 0"
    by (simp add: numTransforms_def gen_transform_key_def)
qed

theorem gen_transform_key_total_up_to_six_witness:
  "precision (coordTransforms (processor two_transform_stage) ! 0) < 4 \<and>
   precision (coordTransforms (processor two_transform_stage) ! 1) < 4 \<and>
   numTransforms (processor two_transform_stage) = 2 \<and>
   gen_transform_key two_transform_stage False = Inr 682 \<and>
   take_bit 5 (drop_bit 5 (682 :: u32)) =
     transform_key_field two_transform_stage False 1
       (coordTransforms (processor two_transform_stage) ! 1) \<and>
   transform_key_field two_transform_stage False 1
       (coordTransforms (processor two_transform_stage) ! 1) = 21"
proof -
  have v: "\<forall>ct \<in> set (coordTransforms (processor two_transform_stage)). precision ct < 4"
    by (simp add: two_transform_stage_def)
  have n: "numTransforms (processor two_transform_stage) \<le> 6"
    by (simp add: two_transform_stage_def numTransforms_def)
  have f: "transform_key_field two_transform_stage False 1
       (coordTransforms (processor two_transform_stage) ! 1) = 21"
    by (simp add: two_transform_stage_def transform_key_field_def transform_consts)
  have m: "numTransforms (processor two_transform_stage) = 2"
    by (simp add: two_transform_stage_def numTransforms_def)
  show ?thesis
    using gen_transform_key_total_up_to_six [OF v n, of False] two_transform_stage_key f m
    by (auto simp add: kTransformKeyBits_eq two_transform_stage_def)
qed

subsection \<open>The steps of Build\<close>

lemma Build_unfold:
  "Build ext optState descInfo drawType gpu uninit desc =
     (case get_meta_key ext (primitiveProcessor optState) (glCaps gpu) 0
             (primitive_stage_builder ext optState gpu uninit) of
        Inl e \<Rightarrow> Inl e
      | Inr (ok, b2) \<Rightarrow>
          if \<not> ok then Inr (False, desc\<lparr>fKey := []\<rparr>)
          else
            (case fragment_stages_loop ext (glCaps gpu) (fRequiresLocalCoordAttrib descInfo)
                    (fragmentStages optState) b2 of
               Inl e \<Rightarrow> Inl e
             | Inr (ok, b3) \<Rightarrow>
                 if \<not> ok then Inr (False, desc\<lparr>fKey := []\<rparr>)
                 else
                   (case get_meta_key ext (xferProcessor optState) (glCaps gpu) 0
                           (xfer_stage_builder optState gpu b3) of
                      Inl e \<Rightarrow> Inl e
                    | Inr (ok, b5) \<Rightarrow>
                        if \<not> ok then Inr (False, desc\<lparr>fKey := []\<rparr>)
                        else
                          (case write_header ext optState descInfo drawType gpu (fData b5) of
                             Inl e \<Rightarrow> Inl e
                           | Inr key \<Rightarrow> Inr (True, desc\<lparr>fKey := finalize ext key\<rparr>)))))"
  by (simp add: Build_def Let_def primitive_stage_builder_def xfer_stage_builder_def
      reserved_key_def cong del: sum.case_cong_weak prod.case_cong_weak if_weak_cong)

lemma Build_False_key:
  assumes "Build ext optState descInfo drawType gpu uninit desc = Inr (False, d)"
  shows "d = desc\<lparr>fKey := []\<rparr>"
  using assms unfolding Build_unfold
  by (auto split: sum.splits prod.splits if_splits)

lemma Build_True_cases:
  assumes "Build ext optState descInfo drawType gpu uninit desc = Inr (True, d)"
  obtains b2 b3 b5 key where
    "get_meta_key ext (primitiveProcessor optState) (glCaps gpu) 0
       (primitive_stage_builder ext optState gpu uninit) = Inr (True, b2)"
    "fragment_stages_loop ext (glCaps gpu) (fRequiresLocalCoordAttrib descInfo)
       (fragmentStages optState) b2 = Inr (True, b3)"
    "get_meta_key ext (xferProcessor optState) (glCaps gpu) 0
       (xfer_stage_builder optState gpu b3) = Inr (True, b5)"
    "write_header ext optState descInfo drawType gpu (fData b5) = Inr key"
    "d = desc\<lparr>fKey := finalize ext key\<rparr>"
  using assms unfolding Build_unfold
  by (auto split: sum.splits prod.splits if_splits)

lemma fragment_stages_loop_append_fail:
  assumes "fragment_stages_loop ext glcaps req pre b = Inr (True, bp)"
    and "gen_transform_key fps req = Inr transformKey"
    and "get_meta_key ext (processor fps) glcaps transformKey
           (getGLProcessorKey (fpGLProcessorKey (processor fps) glcaps) bp) = Inr (False, b')"
  shows "fragment_stages_loop ext glcaps req (pre @ fps # post) b = Inr (False, b')"
  using assms
proof (induction pre arbitrary: b)
  case Nil
  then show ?case by (simp add: Let_def)
next
  case (Cons s pre)
  then show ?case
    by (auto simp add: Let_def split: sum.splits prod.splits if_splits)
qed

lemma fragment_stages_loop_fail_stage:
  assumes "fragment_stages_loop ext glcaps req stages b = Inr (False, b')"
  shows "\<exists>pre fps post bp transformKey. stages = pre @ fps # post \<and>
           fragment_stages_loop ext glcaps req pre b = Inr (True, bp) \<and>
           gen_transform_key fps req = Inr transformKey \<and>
           get_meta_key ext (processor fps) glcaps transformKey
             (getGLProcessorKey (fpGLProcessorKey (processor fps) glcaps) bp) = Inr (False, b')"
  using assms
proof (induction stages arbitrary: b)
  case Nil
  then show ?case by simp
next
  case (Cons s rest)
  from Cons.prems obtain tk ok b2 where tk: "gen_transform_key s req = Inr tk"
    and m: "get_meta_key ext (processor s) glcaps tk
              (getGLProcessorKey (fpGLProcessorKey (processor s) glcaps) b) = Inr (ok, b2)"
    by (auto simp add: Let_def split: sum.splits prod.splits if_splits)
  show ?case
  proof (cases ok)
    case False
    with Cons.prems tk m have "b2 = b'" by (simp add: Let_def)
    with False tk m show ?thesis
      by (intro exI [of _ "[]"] exI [of _ s] exI [of _ rest] exI [of _ b] exI [of _ tk]) simp
  next
    case True
    with Cons.prems tk m have "fragment_stages_loop ext glcaps req rest b2 = Inr (False, b')"
      by (simp add: Let_def)
    from Cons.IH [OF this] obtain pre fps post bp transformKey where
      r: "rest = pre @ fps # post"
      "fragment_stages_loop ext glcaps req pre b2 = Inr (True, bp)"
      "gen_transform_key fps req = Inr transformKey"
      "get_meta_key ext (processor fps) glcaps transformKey
             (getGLProcessorKey (fpGLProcessorKey (processor fps) glcaps) bp) = Inr (False, b')"
      by blast
    have "fragment_stages_loop ext glcaps req (s # pre) b = Inr (True, bp)"
      using tk m True r(2) by (simp add: Let_def)
    with r show ?thesis
      by (intro exI [of _ "s # pre"] exI [of _ fps] exI [of _ post] exI [of _ bp]
          exI [of _ transformKey]) simp
  qed
qed

section \<open>The claims about Build\<close>

text \<open>
  C7, atomicity of \<open>Build\<close> on a recoverable failure. Whenever \<open>Build\<close> returns false
  the key it leaves is empty; and it returns false with the empty key whenever the meta
  key of the primitive processor fails, whenever the meta key of a fragment stage fails
  after the stages before it succeeded, and whenever the meta key of the transfer
  processor fails.
\<close>

theorem Build_failure_discards_key:
  "(\<forall>d. Build ext optState descInfo drawType gpu uninit desc = Inr (False, d) \<longrightarrow> fKey d = []) \<and>
   (\<forall>b'. get_meta_key ext (primitiveProcessor optState) (glCaps gpu) 0
            (primitive_stage_builder ext optState gpu uninit) = Inr (False, b') \<longrightarrow>
      Build ext optState descInfo drawType gpu uninit desc = Inr (False, desc\<lparr>fKey := []\<rparr>)) \<and>
   (\<forall>b2 pre fps post bp transformKey b'.
      get_meta_key ext (primitiveProcessor optState) (glCaps gpu) 0
        (primitive_stage_builder ext optState gpu uninit) = Inr (True, b2) \<and>
      fragmentStages optState = pre @ fps # post \<and>
      fragment_stages_loop ext (glCaps gpu) (fRequiresLocalCoordAttrib descInfo) pre b2
        = Inr (True, bp) \<and>
      gen_transform_key fps (fRequiresLocalCoordAttrib descInfo) = Inr transformKey \<and>
      get_meta_key ext (processor fps) (glCaps gpu) transformKey
        (getGLProcessorKey (fpGLProcessorKey (processor fps) (glCaps gpu)) bp) = Inr (False, b') \<longrightarrow>
      Build ext optState descInfo drawType gpu uninit desc = Inr (False, desc\<lparr>fKey := []\<rparr>)) \<and>
   (\<forall>b2 b3 b'.
      get_meta_key ext (primitiveProcessor optState) (glCaps gpu) 0
        (primitive_stage_builder ext optState gpu uninit) = Inr (True, b2) \<and>
      fragment_stages_loop ext (glCaps gpu) (fRequiresLocalCoordAttrib descInfo)
        (fragmentStages optState) b2 = Inr (True, b3) \<and>
      get_meta_key ext (xferProcessor optState) (glCaps gpu) 0
        (xfer_stage_builder optState gpu b3) = Inr (False, b') \<longrightarrow>
      Build ext optState descInfo drawType gpu uninit desc = Inr (False, desc\<lparr>fKey := []\<rparr>))"
proof (intro conjI allI impI)
  fix d
  assume "Build ext optState descInfo drawType gpu uninit desc = Inr (False, d)"
  then have "d = desc\<lparr>fKey := []\<rparr>" by (rule Build_False_key)
  then show "fKey d = []" by simp
next
  fix b'
  assume "get_meta_key ext (primitiveProcessor optState) (glCaps gpu) 0
            (primitive_stage_builder ext optState gpu uninit) = Inr (False, b')"
  then show "Build ext optState descInfo drawType gpu uninit desc = Inr (False, desc\<lparr>fKey := []\<rparr>)"
    by (simp add: Build_unfold)
next
  fix b2 pre fps post bp transformKey b'
  assume a: "get_meta_key ext (primitiveProcessor optState) (glCaps gpu) 0
        (primitive_stage_builder ext optState gpu uninit) = Inr (True, b2) \<and>
      fragmentStages optState = pre @ fps # post \<and>
      fragment_stages_loop ext (glCaps gpu) (fRequiresLocalCoordAttrib descInfo) pre b2
        = Inr (True, bp) \<and>
      gen_transform_key fps (fRequiresLocalCoordAttrib descInfo) = Inr transformKey \<and>
      get_meta_key ext (processor fps) (glCaps gpu) transformKey
        (getGLProcessorKey (fpGLProcessorKey (processor fps) (glCaps gpu)) bp) = Inr (False, b')"
  then have "fragment_stages_loop ext (glCaps gpu) (fRequiresLocalCoordAttrib descInfo)
      (fragmentStages optState) b2 = Inr (False, b')"
    using fragment_stages_loop_append_fail [of ext "glCaps gpu" "fRequiresLocalCoordAttrib descInfo"
        pre b2 bp fps transformKey b' post]
    by simp
  with a show "Build ext optState descInfo drawType gpu uninit desc = Inr (False, desc\<lparr>fKey := []\<rparr>)"
    by (simp add: Build_unfold)
next
  fix b2 b3 b'
  assume "get_meta_key ext (primitiveProcessor optState) (glCaps gpu) 0
        (primitive_stage_builder ext optState gpu uninit) = Inr (True, b2) \<and>
      fragment_stages_loop ext (glCaps gpu) (fRequiresLocalCoordAttrib descInfo)
        (fragmentStages optState) b2 = Inr (True, b3) \<and>
      get_meta_key ext (xferProcessor optState) (glCaps gpu) 0
        (xfer_stage_builder optState gpu b3) = Inr (False, b')"
  then show "Build ext optState descInfo drawType gpu uninit desc = Inr (False, desc\<lparr>fKey := []\<rparr>)"
    by (simp add: Build_unfold)
qed

lemmas eval_defs =
  test_decls_def example_state_def example_info_def example_gpu_def example_stage_def
  no_swizzle_caps_def wide_class_stage_def
  primitive_stage_builder_def xfer_stage_builder_def reserved_key_def
  GrProcessorKeyBuilder_new_def push_back_n_def add32_def add32n_2_def builder_size_def
  get_meta_key_def gen_texture_key_def gen_transform_key_def transform_key_field_def
  kMetaKeyInvalidMask_def SK_MaxU16_def SkToU16_def word_bytes_def Let_def

lemma upt16: "[0..<16] = [0,1,2,3,4,5,6,7,8,9,10,11,12,13,14,15]"
  by (simp add: upt_rec)

lemmas state_defs = wide_prim_state_def wide_fragment_state_def wide_xfer_state_def

lemma prim_fail:
  "get_meta_key test_decls (primitiveProcessor wide_prim_state) (glCaps example_gpu) 0
     (primitive_stage_builder test_decls wide_prim_state example_gpu (\<lambda>i. 170))
   = Inr (False, \<lparr>fData = reserved16, fCount = 0\<rparr>)"
  by (simp add: eval_defs state_defs upt16 reserved16_def)

lemma prim_ok:
  "get_meta_key test_decls (primitiveProcessor example_state) (glCaps example_gpu) 0
     (primitive_stage_builder test_decls example_state example_gpu (\<lambda>i. 170))
   = Inr (True, \<lparr>fData = reserved16 @ [0, 0, 0, 0, 0, 0, 2, 0], fCount = 0\<rparr>)"
  by (simp add: eval_defs upt16 reserved16_def)

lemma example_stage_key: "gen_transform_key example_stage False = Inr 8"
  by (simp add: gen_transform_key_def example_stage_def transform_key_field_def transform_consts)

lemma wide_class_stage_key: "gen_transform_key wide_class_stage False = Inr 8"
  by (simp add: gen_transform_key_def wide_class_stage_def example_stage_def
      transform_key_field_def transform_consts)

lemma example_stage_meta:
  "get_meta_key test_decls (processor example_stage) no_swizzle_caps 8
     (getGLProcessorKey (fpGLProcessorKey (processor example_stage) no_swizzle_caps)
        \<lparr>fData = reserved16 @ [0, 0, 0, 0, 0, 0, 2, 0], fCount = 0\<rparr>)
   = Inr (True, \<lparr>fData = reserved16 @ [0, 0, 0, 0, 0, 0, 2, 0] @ [0, 0, 0, 0]
                   @ [8, 0, 0, 0, 4, 0, 3, 0], fCount = 0\<rparr>)"
  by (simp add: eval_defs)

lemma example_stages_loop:
  "fragment_stages_loop test_decls no_swizzle_caps False [example_stage]
     \<lparr>fData = reserved16 @ [0, 0, 0, 0, 0, 0, 2, 0], fCount = 0\<rparr>
   = Inr (True, \<lparr>fData = reserved16 @ [0, 0, 0, 0, 0, 0, 2, 0] @ [0, 0, 0, 0]
                   @ [8, 0, 0, 0, 4, 0, 3, 0], fCount = 0\<rparr>)"
  by (simp add: example_stage_key example_stage_meta)

lemma wide_class_stage_meta:
  "get_meta_key test_decls (processor wide_class_stage) no_swizzle_caps 8
     (getGLProcessorKey (fpGLProcessorKey (processor wide_class_stage) no_swizzle_caps)
        \<lparr>fData = reserved16 @ [0, 0, 0, 0, 0, 0, 2, 0] @ [0, 0, 0, 0]
                   @ [8, 0, 0, 0, 4, 0, 3, 0], fCount = 0\<rparr>)
   = Inr (False, \<lparr>fData = reserved16 @ [0, 0, 0, 0, 0, 0, 2, 0] @ [0, 0, 0, 0]
                   @ [8, 0, 0, 0, 4, 0, 3, 0] @ [0, 0, 0, 0], fCount = 1\<rparr>)"
  by (simp add: eval_defs)

lemma xfer_fail:
  "get_meta_key test_decls (xferProcessor wide_xfer_state) (glCaps example_gpu) 0
     (xfer_stage_builder wide_xfer_state example_gpu
        \<lparr>fData = reserved16 @ [0, 0, 0, 0, 0, 0, 2, 0] @ [0, 0, 0, 0]
                   @ [8, 0, 0, 0, 4, 0, 3, 0], fCount = 0\<rparr>)
   = Inr (False, \<lparr>fData = reserved16 @ [0, 0, 0, 0, 0, 0, 2, 0] @ [0, 0, 0, 0]
                   @ [8, 0, 0, 0, 4, 0, 3, 0], fCount = 0\<rparr>)"
  by (simp add: eval_defs state_defs)

text \<open>
  A class id of 17 bits at the primitive processor, at the second fragment stage and at
  the transfer processor: each time \<open>Build\<close> returns false and the key is empty.
\<close>

theorem Build_failure_discards_key_witness:
  "Build test_decls wide_prim_state example_info 0 example_gpu (\<lambda>i. 170) \<lparr>fKey = [1, 2, 3]\<rparr>
     = Inr (False, \<lparr>fKey = []\<rparr>) \<and>
   Build test_decls wide_fragment_state example_info 0 example_gpu (\<lambda>i. 170) \<lparr>fKey = [1, 2, 3]\<rparr>
     = Inr (False, \<lparr>fKey = []\<rparr>) \<and>
   Build test_decls wide_xfer_state example_info 0 example_gpu (\<lambda>i. 170) \<lparr>fKey = [1, 2, 3]\<rparr>
     = Inr (False, \<lparr>fKey = []\<rparr>)"
proof -
  have prim_ok': "get_meta_key test_decls (primitiveProcessor s) (glCaps example_gpu) 0
     (primitive_stage_builder test_decls s example_gpu (\<lambda>i. 170))
   = Inr (True, \<lparr>fData = reserved16 @ [0, 0, 0, 0, 0, 0, 2, 0], fCount = 0\<rparr>)"
    if "primitiveProcessor s = primitiveProcessor example_state"
       "batchTracker s = batchTracker example_state" for s
    using prim_ok that by (simp add: primitive_stage_builder_def)
  have 1: "Build test_decls wide_prim_state example_info 0 example_gpu (\<lambda>i. 170) \<lparr>fKey = [1, 2, 3]\<rparr>
     = Inr (False, \<lparr>fKey = []\<rparr>)"
    using Build_failure_discards_key [of test_decls wide_prim_state example_info 0 example_gpu
        "\<lambda>i. 170" "\<lparr>fKey = [1, 2, 3]\<rparr>"] prim_fail
    by simp
  have 2: "Build test_decls wide_fragment_state example_info 0 example_gpu (\<lambda>i. 170) \<lparr>fKey = [1, 2, 3]\<rparr>
     = Inr (False, \<lparr>fKey = []\<rparr>)"
    using Build_failure_discards_key [of test_decls wide_fragment_state example_info 0 example_gpu
        "\<lambda>i. 170" "\<lparr>fKey = [1, 2, 3]\<rparr>", THEN conjunct2, THEN conjunct2, THEN conjunct1,
        rule_format, of _ "[example_stage]" wide_class_stage "[]"]
      prim_ok' [of wide_fragment_state] example_stages_loop wide_class_stage_key
      wide_class_stage_meta
    by (simp add: wide_fragment_state_def example_info_def example_gpu_def)
  have 3: "Build test_decls wide_xfer_state example_info 0 example_gpu (\<lambda>i. 170) \<lparr>fKey = [1, 2, 3]\<rparr>
     = Inr (False, \<lparr>fKey = []\<rparr>)"
    using Build_failure_discards_key [of test_decls wide_xfer_state example_info 0 example_gpu
        "\<lambda>i. 170" "\<lparr>fKey = [1, 2, 3]\<rparr>", THEN conjunct2, THEN conjunct2, THEN conjunct2,
        rule_format]
      prim_ok' [of wide_xfer_state] example_stages_loop xfer_fail
    by (simp add: wide_xfer_state_def example_info_def example_gpu_def example_state_def)
  from 1 2 3 show ?thesis by simp
qed

subsection \<open>The processor keys do not depend on the reserved bytes\<close>

lemma prepend_add32: "add32 v (prepend p b) = prepend p (add32 v b)"
  by (simp add: add32_def prepend_def)

lemma prepend_getGLProcessorKey:
  "getGLProcessorKey ws (prepend p b) = prepend p (getGLProcessorKey ws b)"
  by (induction ws arbitrary: b) (simp_all add: prepend_add32)

lemma prepend_get_meta_key:
  "get_meta_key ext proc glcaps transformKey (prepend p b) =
     (case get_meta_key ext proc glcaps transformKey b of
        Inl e \<Rightarrow> Inl e
      | Inr (ok, b') \<Rightarrow> Inr (ok, prepend p b'))"
  by (simp add: get_meta_key_def Let_def builder_size_def prepend_def add32n_2_def
      split: sum.splits)

lemma prepend_fragment_stages_loop:
  "fragment_stages_loop ext glcaps req stages (prepend p b) =
     (case fragment_stages_loop ext glcaps req stages b of
        Inl e \<Rightarrow> Inl e
      | Inr (ok, b') \<Rightarrow> Inr (ok, prepend p b'))"
proof (induction stages arbitrary: b)
  case Nil
  then show ?case by simp
next
  case (Cons fps rest)
  show ?case
    by (simp add: Let_def prepend_getGLProcessorKey prepend_get_meta_key Cons.IH
        split: sum.splits prod.splits)
qed

lemma primitive_stage_builder_prepend:
  "primitive_stage_builder ext optState gpu uninit =
     prepend (reserved_key ext uninit)
       (getGLProcessorKey
          (gpGLProcessorKey (primitiveProcessor optState) (batchTracker optState) (glCaps gpu))
          (GrProcessorKeyBuilder_new []))"
proof -
  have "GrProcessorKeyBuilder_new (reserved_key ext uninit) =
      prepend (reserved_key ext uninit) (GrProcessorKeyBuilder_new [])"
    by (simp add: GrProcessorKeyBuilder_new_def prepend_def)
  then show ?thesis
    by (simp add: primitive_stage_builder_def prepend_getGLProcessorKey)
qed

lemma xfer_stage_builder_prepend:
  "xfer_stage_builder optState gpu (prepend p b) = prepend p (xfer_stage_builder optState gpu b)"
  by (simp add: xfer_stage_builder_def prepend_getGLProcessorKey)

lemma fData_prepend: "fData (prepend p b) = p @ fData b"
  by (simp add: prepend_def)

lemma Build_via_processor_keys:
  "Build ext optState descInfo drawType gpu uninit desc =
     (case processor_keys ext optState descInfo gpu of
        Inl e \<Rightarrow> Inl e
      | Inr (ok, b) \<Rightarrow>
          if \<not> ok then Inr (False, desc\<lparr>fKey := []\<rparr>)
          else
            (case write_header ext optState descInfo drawType gpu
                    (reserved_key ext uninit @ fData b) of
               Inl e \<Rightarrow> Inl e
             | Inr key \<Rightarrow> Inr (True, desc\<lparr>fKey := finalize ext key\<rparr>)))"
proof -
  let ?b1 = "getGLProcessorKey
      (gpGLProcessorKey (primitiveProcessor optState) (batchTracker optState) (glCaps gpu))
      (GrProcessorKeyBuilder_new [])"
  let ?p = "reserved_key ext uninit"
  show ?thesis
  proof (cases "get_meta_key ext (primitiveProcessor optState) (glCaps gpu) 0 ?b1")
    case (Inl e)
    then show ?thesis
      unfolding Build_unfold processor_keys_def primitive_stage_builder_prepend
      by (simp add: prepend_get_meta_key)
  next
    case prim: (Inr r)
    obtain ok b2 where r: "r = (ok, b2)" by (cases r)
    show ?thesis
    proof (cases ok)
      case False
      with prim r show ?thesis
        unfolding Build_unfold processor_keys_def primitive_stage_builder_prepend
        by (simp add: prepend_get_meta_key)
    next
      case True
      note ok = True
      show ?thesis
      proof (cases "fragment_stages_loop ext (glCaps gpu) (fRequiresLocalCoordAttrib descInfo)
                      (fragmentStages optState) b2")
        case (Inl e)
        with prim r ok show ?thesis
          unfolding Build_unfold processor_keys_def primitive_stage_builder_prepend
          by (simp add: prepend_get_meta_key prepend_fragment_stages_loop)
      next
        case frag: (Inr r')
        obtain ok' b3 where r': "r' = (ok', b3)" by (cases r')
        show ?thesis
        proof (cases ok')
          case False
          with prim r ok frag r' show ?thesis
            unfolding Build_unfold processor_keys_def primitive_stage_builder_prepend
            by (simp add: prepend_get_meta_key prepend_fragment_stages_loop)
        next
          case True
          with prim r ok frag r' show ?thesis
            unfolding Build_unfold processor_keys_def primitive_stage_builder_prepend
            by (simp add: prepend_get_meta_key prepend_fragment_stages_loop
                xfer_stage_builder_prepend fData_prepend split: sum.splits prod.splits)
        qed
      qed
    qed
  qed
qed

subsection \<open>The header\<close>

lemma write_header_Inr:
  assumes "write_header ext optState descInfo drawType gpu key0 = Inr key"
  shows "key = (memset0 (kHeaderOffset ext) (kHeaderSize ext) key0)
           [kHeaderOffset ext + offsetof_fUseNvpr ext :=
              (if uses_nvpr ext drawType gpu then 1 else 0),
            kHeaderOffset ext + offsetof_fDstReadKey ext :=
              (if fReadsDst descInfo then dst_read_key ext optState gpu else 0),
            kHeaderOffset ext + offsetof_fFragPosKey ext :=
              (if fReadsFragPosition descInfo then frag_pos_key ext optState gpu else 0),
            kHeaderOffset ext + offsetof_fColorEffectCnt ext := of_nat (numColorStages optState),
            kHeaderOffset ext + offsetof_fCoverageEffectCnt ext :=
              of_nat (numCoverageStages optState)]"
    and "uses_nvpr ext drawType gpu \<Longrightarrow> \<not> hasGeometryProcessor optState"
    and "fReadsDst descInfo \<Longrightarrow> dst_read_key ext optState gpu \<noteq> 0"
    and "fReadsDst descInfo \<Longrightarrow> dstCopy optState \<noteq> None \<or> dstReadInShaderSupport (gpu_caps gpu)"
  using assms
  by (auto simp add: write_header_def Let_def uses_nvpr_def dst_read_key_def frag_pos_key_def
      split: if_splits)

lemma write_header_dst_assert:
  assumes "fReadsDst descInfo" and "dst_read_key ext optState gpu = 0"
  shows "write_header ext optState descInfo drawType gpu key0 = Inl SkAssertFailure"
  using assms
  by (simp add: write_header_def Let_def dst_read_key_def)

lemma length_memset0:
  "off + n \<le> length key \<Longrightarrow> length (memset0 off n key) = length key"
  by (simp add: memset0_def)

lemma nth_memset0:
  assumes "off + n \<le> length key" and "i < length key"
  shows "memset0 off n key ! i = (if off \<le> i \<and> i < off + n then 0 else key ! i)"
  using assms by (auto simp add: memset0_def nth_append)

lemma length_reserved_key: "length (reserved_key ext uninit) = kProcessorKeysOffset ext"
  by (simp add: reserved_key_def push_back_n_def)

lemma Build_True_header:
  assumes "Build ext optState descInfo drawType gpu uninit desc = Inr (True, d)"
  obtains b key where
    "processor_keys ext optState descInfo gpu = Inr (True, b)"
    "write_header ext optState descInfo drawType gpu (reserved_key ext uninit @ fData b) = Inr key"
    "fKey d = finalize ext key"
  using assms unfolding Build_via_processor_keys
  by (auto split: sum.splits prod.splits if_splits)

lemma header_bytes:
  assumes layout: "header_layout_ok ext"
    and len: "kProcessorKeysOffset ext \<le> length key0"
    and wh: "write_header ext optState descInfo drawType gpu key0 = Inr key"
  shows "length key = length key0"
    and "key ! (kHeaderOffset ext + offsetof_fUseNvpr ext) =
           (if uses_nvpr ext drawType gpu then 1 else 0)"
    and "key ! (kHeaderOffset ext + offsetof_fDstReadKey ext) =
           (if fReadsDst descInfo then dst_read_key ext optState gpu else 0)"
    and "key ! (kHeaderOffset ext + offsetof_fFragPosKey ext) =
           (if fReadsFragPosition descInfo then frag_pos_key ext optState gpu else 0)"
    and "key ! (kHeaderOffset ext + offsetof_fColorEffectCnt ext) = of_nat (numColorStages optState)"
    and "key ! (kHeaderOffset ext + offsetof_fCoverageEffectCnt ext) =
           of_nat (numCoverageStages optState)"
    and "\<And>i. i < kHeaderSize ext \<Longrightarrow> i \<notin> set (header_field_offsets ext) \<Longrightarrow>
           key ! (kHeaderOffset ext + i) = 0"
proof -
  have hs: "kHeaderOffset ext + kHeaderSize ext \<le> length key0"
    using layout len by (simp add: header_layout_ok_def)
  have offs: "offsetof_fUseNvpr ext < kHeaderSize ext" "offsetof_fDstReadKey ext < kHeaderSize ext"
    "offsetof_fFragPosKey ext < kHeaderSize ext" "offsetof_fColorEffectCnt ext < kHeaderSize ext"
    "offsetof_fCoverageEffectCnt ext < kHeaderSize ext"
    using layout by (simp_all add: header_layout_ok_def header_field_offsets_def)
  have dist: "distinct [offsetof_fUseNvpr ext, offsetof_fDstReadKey ext, offsetof_fFragPosKey ext,
      offsetof_fColorEffectCnt ext, offsetof_fCoverageEffectCnt ext]"
    using layout by (simp add: header_layout_ok_def header_field_offsets_def)
  let ?o1 = "offsetof_fUseNvpr ext" and ?o2 = "offsetof_fDstReadKey ext"
    and ?o3 = "offsetof_fFragPosKey ext" and ?o4 = "offsetof_fColorEffectCnt ext"
    and ?o5 = "offsetof_fCoverageEffectCnt ext"
  have neq: "?o1 \<noteq> ?o2" "?o1 \<noteq> ?o3" "?o1 \<noteq> ?o4" "?o1 \<noteq> ?o5"
    "?o2 \<noteq> ?o1" "?o2 \<noteq> ?o3" "?o2 \<noteq> ?o4" "?o2 \<noteq> ?o5"
    "?o3 \<noteq> ?o1" "?o3 \<noteq> ?o2" "?o3 \<noteq> ?o4" "?o3 \<noteq> ?o5"
    "?o4 \<noteq> ?o1" "?o4 \<noteq> ?o2" "?o4 \<noteq> ?o3" "?o4 \<noteq> ?o5"
    "?o5 \<noteq> ?o1" "?o5 \<noteq> ?o2" "?o5 \<noteq> ?o3" "?o5 \<noteq> ?o4"
    using dist by auto
  note k = write_header_Inr(1) [OF wh]
  have lm: "length (memset0 (kHeaderOffset ext) (kHeaderSize ext) key0) = length key0"
    using hs by (rule length_memset0)
  show "length key = length key0" by (subst k) (simp add: lm)
  show "key ! (kHeaderOffset ext + offsetof_fUseNvpr ext) =
           (if uses_nvpr ext drawType gpu then 1 else 0)"
    using offs hs by (subst k) (simp add: nth_list_update lm neq)
  show "key ! (kHeaderOffset ext + offsetof_fDstReadKey ext) =
           (if fReadsDst descInfo then dst_read_key ext optState gpu else 0)"
    using offs hs by (subst k) (simp add: nth_list_update lm neq)
  show "key ! (kHeaderOffset ext + offsetof_fFragPosKey ext) =
           (if fReadsFragPosition descInfo then frag_pos_key ext optState gpu else 0)"
    using offs hs by (subst k) (simp add: nth_list_update lm neq)
  show "key ! (kHeaderOffset ext + offsetof_fColorEffectCnt ext) = of_nat (numColorStages optState)"
    using offs hs by (subst k) (simp add: nth_list_update lm neq)
  show "key ! (kHeaderOffset ext + offsetof_fCoverageEffectCnt ext) =
           of_nat (numCoverageStages optState)"
    using offs hs by (subst k) (simp add: nth_list_update lm neq)
  show "key ! (kHeaderOffset ext + i) = 0"
    if "i < kHeaderSize ext" "i \<notin> set (header_field_offsets ext)" for i
    using that hs by (subst k) (auto simp add: nth_list_update lm nth_memset0 header_field_offsets_def)
qed

subsection \<open>Build on the example\<close>

lemmas meta_eval_defs =
  GrProcessorKeyBuilder_new_def add32_def add32n_2_def builder_size_def
  get_meta_key_def gen_texture_key_def kMetaKeyInvalidMask_def SK_MaxU16_def SkToU16_def
  word_bytes_def Let_def xfer_stage_builder_def

lemma processor_keys_example:
  assumes "primitiveProcessor s = primitiveProcessor example_state"
    and "batchTracker s = batchTracker example_state"
    and "fragmentStages s = fragmentStages example_state"
    and "xferProcessor s = xferProcessor example_state"
    and "\<not> fRequiresLocalCoordAttrib info"
  shows "processor_keys ext s info example_gpu =
           Inr (True, \<lparr>fData = example_processor_keys, fCount = 0\<rparr>)"
  unfolding processor_keys_def xfer_stage_builder_def assms(1-4)
  using assms(5)
  by (simp add: example_state_def example_gpu_def example_stage_def meta_eval_defs
      gen_transform_key_def transform_key_field_def transform_consts
      example_processor_keys_def)

lemma reserved_key_test: "reserved_key ext (\<lambda>i. 170) = reserved16"
  if "kProcessorKeysOffset ext = 16"
  using that by (simp add: reserved_key_def push_back_n_def upt16 reserved16_def)

lemma header_layout_ok_test: "header_layout_ok test_decls"
  by (simp add: header_layout_ok_def header_field_offsets_def test_decls_def)

lemma length_word_bytes: "length (word_bytes v) = 4"
  by (simp add: word_bytes_def)

lemma finalize_keeps_header_test: "finalize_keeps_header test_decls"
  by (simp add: finalize_keeps_header_def test_decls_def nth_append length_word_bytes)

lemma write_header_frag_pos_example:
  "write_header test_decls example_state frag_pos_info 0 example_gpu
     (reserved16 @ example_processor_keys) =
   Inr [170, 170, 170, 170, 170, 170, 170, 170, 0, 0, 1, 0, 0, 0, 0, 0,
      0, 0, 0, 0, 0, 0, 2, 0,
      0, 0, 0, 0, 8, 0, 0, 0, 4, 0, 3, 0,
      0, 0, 0, 0, 0, 0, 1, 0]"
  by (simp add: write_header_def memset0_def reserved16_def example_processor_keys_def
      example_state_def example_gpu_def gpu_caps_def no_swizzle_caps_def Let_def
      test_decls_def frag_pos_info_def example_info_def numeral_eq_Suc)

lemma finalize_example:
  "finalize test_decls [170, 170, 170, 170, 170, 170, 170, 170, 0, 0, 1, 0, 0, 0, 0, 0,
      0, 0, 0, 0, 0, 0, 2, 0,
      0, 0, 0, 0, 8, 0, 0, 0, 4, 0, 3, 0,
      0, 0, 0, 0, 0, 0, 1, 0] =
   [44, 0, 0, 0, 0, 0, 0, 0, 0, 0, 1, 0, 0, 0, 0, 0,
      0, 0, 0, 0, 0, 0, 2, 0,
      0, 0, 0, 0, 8, 0, 0, 0, 4, 0, 3, 0,
      0, 0, 0, 0, 0, 0, 1, 0]"
  by (simp add: test_decls_def word_bytes_def)

lemma Build_frag_pos_example:
  "Build test_decls example_state frag_pos_info 0 example_gpu (\<lambda>i. 170) \<lparr>fKey = [1, 2, 3]\<rparr> =
     Inr (True,
       \<lparr>fKey = [44, 0, 0, 0, 0, 0, 0, 0, 0, 0, 1, 0, 0, 0, 0, 0,
      0, 0, 0, 0, 0, 0, 2, 0,
      0, 0, 0, 0, 8, 0, 0, 0, 4, 0, 3, 0,
      0, 0, 0, 0, 0, 0, 1, 0]\<rparr>)"
proof -
  have k: "kProcessorKeysOffset test_decls = 16" by (simp add: test_decls_def)
  have f: "\<not> fRequiresLocalCoordAttrib frag_pos_info"
    by (simp add: frag_pos_info_def example_info_def)
  show ?thesis
    unfolding Build_via_processor_keys
    by (simp add: processor_keys_example [OF refl refl refl refl f] reserved_key_test [OF k]
      write_header_frag_pos_example finalize_example)
qed

text \<open>
  C9, the header after a successful \<open>Build\<close>, as the code has it (for declarations whose
  header lies in the reserved bytes with five distinct one-byte fields and whose
  \<open>finalize\<close> keeps the header). The path-rendering byte is 1 exactly when the
  capabilities support path rendering and the draw type is a path-rendering one, and then
  there is no geometry processor; the destination-read byte is the key of the
  destination read when the descriptor reads the destination and 0 otherwise, and it is
  nonzero exactly when the descriptor reads the destination; the fragment-position byte
  is the key of the fragment position when the descriptor reads it and 0 otherwise; the
  two counts are those of the pipeline state (in one byte); every other byte of the
  header is 0. A destination read whose key is 0 fails the assertion of line 214.
  Nothing is asserted about the fragment-position key.
\<close>

theorem Build_header_values:
  assumes layout: "header_layout_ok ext" and fin: "finalize_keeps_header ext"
  shows "(\<forall>d. Build ext optState descInfo drawType gpu uninit desc = Inr (True, d) \<longrightarrow>
            header_field ext (offsetof_fUseNvpr ext) (fKey d) =
              (if uses_nvpr ext drawType gpu then 1 else 0) \<and>
            (uses_nvpr ext drawType gpu \<longrightarrow> \<not> hasGeometryProcessor optState) \<and>
            header_field ext (offsetof_fDstReadKey ext) (fKey d) =
              (if fReadsDst descInfo then dst_read_key ext optState gpu else 0) \<and>
            (header_field ext (offsetof_fDstReadKey ext) (fKey d) \<noteq> 0 \<longleftrightarrow> fReadsDst descInfo) \<and>
            header_field ext (offsetof_fFragPosKey ext) (fKey d) =
              (if fReadsFragPosition descInfo then frag_pos_key ext optState gpu else 0) \<and>
            header_field ext (offsetof_fColorEffectCnt ext) (fKey d) =
              of_nat (numColorStages optState) \<and>
            header_field ext (offsetof_fCoverageEffectCnt ext) (fKey d) =
              of_nat (numCoverageStages optState) \<and>
            (\<forall>i < kHeaderSize ext. i \<notin> set (header_field_offsets ext) \<longrightarrow>
               header_field ext i (fKey d) = 0)) \<and>
         (\<forall>b. processor_keys ext optState descInfo gpu = Inr (True, b) \<and>
              fReadsDst descInfo \<and> dst_read_key ext optState gpu = 0 \<longrightarrow>
            Build ext optState descInfo drawType gpu uninit desc = Inl SkAssertFailure)"
proof (intro conjI allI impI)
  fix b :: GrProcessorKeyBuilder
  assume "processor_keys ext optState descInfo gpu = Inr (True, b) \<and>
              fReadsDst descInfo \<and> dst_read_key ext optState gpu = 0"
  then show "Build ext optState descInfo drawType gpu uninit desc = Inl SkAssertFailure"
    unfolding Build_via_processor_keys by (simp add: write_header_dst_assert)
next
  fix d
  assume ok: "Build ext optState descInfo drawType gpu uninit desc = Inr (True, d)"
  from ok obtain b key where
    pk: "processor_keys ext optState descInfo gpu = Inr (True, b)"
    and wh: "write_header ext optState descInfo drawType gpu (reserved_key ext uninit @ fData b) = Inr key"
    and d: "fKey d = finalize ext key"
    by (rule Build_True_header)
  have len0: "kProcessorKeysOffset ext \<le> length (reserved_key ext uninit @ fData b)"
    by (simp add: length_reserved_key)
  note hb = header_bytes [OF layout len0 wh]
  have len: "kProcessorKeysOffset ext \<le> length key" using len0 hb(1) by simp
  have offs: "offsetof_fUseNvpr ext < kHeaderSize ext" "offsetof_fDstReadKey ext < kHeaderSize ext"
    "offsetof_fFragPosKey ext < kHeaderSize ext" "offsetof_fColorEffectCnt ext < kHeaderSize ext"
    "offsetof_fCoverageEffectCnt ext < kHeaderSize ext"
    using layout by (simp_all add: header_layout_ok_def header_field_offsets_def)
  have keep: "header_field ext i (fKey d) = key ! (kHeaderOffset ext + i)"
    if "i < kHeaderSize ext" for i
    using fin len that by (simp add: finalize_keeps_header_def header_field_def d)
  show "header_field ext (offsetof_fUseNvpr ext) (fKey d) =
              (if uses_nvpr ext drawType gpu then 1 else 0)"
    by (simp only: keep [OF offs(1)] hb(2))
  show dst: "header_field ext (offsetof_fDstReadKey ext) (fKey d) =
              (if fReadsDst descInfo then dst_read_key ext optState gpu else 0)"
    by (simp only: keep [OF offs(2)] hb(3))
  show "header_field ext (offsetof_fDstReadKey ext) (fKey d) \<noteq> 0 \<longleftrightarrow> fReadsDst descInfo"
    unfolding dst using write_header_Inr(3) [OF wh] by simp
  show "header_field ext (offsetof_fFragPosKey ext) (fKey d) =
              (if fReadsFragPosition descInfo then frag_pos_key ext optState gpu else 0)"
    by (simp only: keep [OF offs(3)] hb(4))
  show "header_field ext (offsetof_fColorEffectCnt ext) (fKey d) =
              of_nat (numColorStages optState)"
    by (simp only: keep [OF offs(4)] hb(5))
  show "header_field ext (offsetof_fCoverageEffectCnt ext) (fKey d) =
              of_nat (numCoverageStages optState)"
    by (simp only: keep [OF offs(5)] hb(6))
  show "\<not> hasGeometryProcessor optState" if "uses_nvpr ext drawType gpu"
    using write_header_Inr(2) [OF wh that] .
  show "header_field ext i (fKey d) = 0"
    if "i < kHeaderSize ext" "i \<notin> set (header_field_offsets ext)" for i
    using keep [OF that(1)] hb(7) [OF that] by simp
qed

text \<open>
  The claim as stated fails: with a dependency on the fragment position and a
  fragment-position key of 0, \<open>Build\<close> succeeds and stores 0; no assertion fails.
\<close>

theorem Build_header_values_counterexample:
  "fReadsFragPosition frag_pos_info \<and>
   frag_pos_key test_decls example_state example_gpu = 0 \<and>
   Build test_decls example_state frag_pos_info 0 example_gpu (\<lambda>i. 170) \<lparr>fKey = [1, 2, 3]\<rparr> =
     Inr (True,
       \<lparr>fKey = [44, 0, 0, 0, 0, 0, 0, 0, 0, 0, 1, 0, 0, 0, 0, 0,
                0, 0, 0, 0, 0, 0, 2, 0,
                0, 0, 0, 0, 8, 0, 0, 0, 4, 0, 3, 0,
                0, 0, 0, 0, 0, 0, 1, 0]\<rparr>) \<and>
   Build test_decls example_state frag_pos_info 0 example_gpu (\<lambda>i. 170) \<lparr>fKey = [1, 2, 3]\<rparr> \<noteq>
     Inl SkAssertFailure"
  by (simp add: Build_frag_pos_example)
    (simp add: frag_pos_info_def frag_pos_key_def test_decls_def)

lemma write_header_dst_read_example:
  "write_header test_decls dst_read_state dst_read_info 0 example_gpu
     (reserved16 @ example_processor_keys) =
   Inr [170, 170, 170, 170, 170, 170, 170, 170, 1, 0, 1, 0, 0, 0, 0, 0,
      0, 0, 0, 0, 0, 0, 2, 0,
      0, 0, 0, 0, 8, 0, 0, 0, 4, 0, 3, 0,
      0, 0, 0, 0, 0, 0, 1, 0]"
  by (simp add: write_header_def memset0_def reserved16_def example_processor_keys_def
      dst_read_state_def example_state_def example_gpu_def gpu_caps_def no_swizzle_caps_def
      Let_def test_decls_def dst_read_info_def example_info_def numeral_eq_Suc)

lemma finalize_dst_read_example:
  "finalize test_decls [170, 170, 170, 170, 170, 170, 170, 170, 1, 0, 1, 0, 0, 0, 0, 0,
      0, 0, 0, 0, 0, 0, 2, 0,
      0, 0, 0, 0, 8, 0, 0, 0, 4, 0, 3, 0,
      0, 0, 0, 0, 0, 0, 1, 0] =
   [44, 0, 0, 0, 0, 0, 0, 0, 1, 0, 1, 0, 0, 0, 0, 0,
      0, 0, 0, 0, 0, 0, 2, 0,
      0, 0, 0, 0, 8, 0, 0, 0, 4, 0, 3, 0,
      0, 0, 0, 0, 0, 0, 1, 0]"
  by (simp add: test_decls_def word_bytes_def)

lemma Build_dst_read_example:
  "Build test_decls dst_read_state dst_read_info 0 example_gpu (\<lambda>i. 170) \<lparr>fKey = [1, 2, 3]\<rparr> =
     Inr (True,
       \<lparr>fKey = [44, 0, 0, 0, 0, 0, 0, 0, 1, 0, 1, 0, 0, 0, 0, 0,
                0, 0, 0, 0, 0, 0, 2, 0,
                0, 0, 0, 0, 8, 0, 0, 0, 4, 0, 3, 0,
                0, 0, 0, 0, 0, 0, 1, 0]\<rparr>)"
proof -
  have k: "kProcessorKeysOffset test_decls = 16" by (simp add: test_decls_def)
  have f: "\<not> fRequiresLocalCoordAttrib dst_read_info"
    by (simp add: dst_read_info_def example_info_def)
  have s: "primitiveProcessor dst_read_state = primitiveProcessor example_state"
    "batchTracker dst_read_state = batchTracker example_state"
    "fragmentStages dst_read_state = fragmentStages example_state"
    "xferProcessor dst_read_state = xferProcessor example_state"
    by (simp_all add: dst_read_state_def)
  show ?thesis
    unfolding Build_via_processor_keys
    by (simp add: processor_keys_example [OF s f] reserved_key_test [OF k]
      write_header_dst_read_example finalize_dst_read_example)
qed

text \<open>
  The example with a destination copy: the header holds the destination-read key 1;
  with a key function that returns 0 the assertion fails.
\<close>

theorem Build_header_values_witness:
  "header_layout_ok test_decls \<and> finalize_keeps_header test_decls \<and>
   Build test_decls dst_read_state dst_read_info 0 example_gpu (\<lambda>i. 170) \<lparr>fKey = [1, 2, 3]\<rparr> =
     Inr (True,
       \<lparr>fKey = [44, 0, 0, 0, 0, 0, 0, 0, 1, 0, 1, 0, 0, 0, 0, 0,
                0, 0, 0, 0, 0, 0, 2, 0,
                0, 0, 0, 0, 8, 0, 0, 0, 4, 0, 3, 0,
                0, 0, 0, 0, 0, 0, 1, 0]\<rparr>) \<and>
   fReadsDst dst_read_info \<and>
   header_field test_decls (offsetof_fDstReadKey test_decls)
     [44, 0, 0, 0, 0, 0, 0, 0, 1, 0, 1, 0, 0, 0, 0, 0,
      0, 0, 0, 0, 0, 0, 2, 0,
      0, 0, 0, 0, 8, 0, 0, 0, 4, 0, 3, 0,
      0, 0, 0, 0, 0, 0, 1, 0] = dst_read_key test_decls dst_read_state example_gpu \<and>
   dst_read_key test_decls dst_read_state example_gpu = 1 \<and>
   dst_read_key zero_dst_decls dst_read_state example_gpu = 0 \<and>
   Build zero_dst_decls dst_read_state dst_read_info 0 example_gpu (\<lambda>i. 170) \<lparr>fKey = [1, 2, 3]\<rparr> =
     Inl SkAssertFailure"
proof -
  have f: "\<not> fRequiresLocalCoordAttrib dst_read_info" and r: "fReadsDst dst_read_info"
    by (simp_all add: dst_read_info_def example_info_def)
  have s: "primitiveProcessor dst_read_state = primitiveProcessor example_state"
    "batchTracker dst_read_state = batchTracker example_state"
    "fragmentStages dst_read_state = fragmentStages example_state"
    "xferProcessor dst_read_state = xferProcessor example_state"
    by (simp_all add: dst_read_state_def)
  have z: "dst_read_key zero_dst_decls dst_read_state example_gpu = 0"
    by (simp add: dst_read_key_def zero_dst_decls_def)
  have o: "dst_read_key test_decls dst_read_state example_gpu = 1"
    by (simp add: dst_read_key_def test_decls_def)
  have lz: "header_layout_ok zero_dst_decls"
    by (simp add: header_layout_ok_def header_field_offsets_def zero_dst_decls_def test_decls_def)
  have fz: "finalize_keeps_header zero_dst_decls"
    by (simp add: finalize_keeps_header_def zero_dst_decls_def test_decls_def nth_append
        length_word_bytes)
  have a: "Build zero_dst_decls dst_read_state dst_read_info 0 example_gpu (\<lambda>i. 170)
      \<lparr>fKey = [1, 2, 3]\<rparr> = Inl SkAssertFailure"
    using Build_header_values [OF lz fz, of dst_read_state dst_read_info 0 example_gpu
        "\<lambda>i. 170" "\<lparr>fKey = [1, 2, 3]\<rparr>", THEN conjunct2, rule_format,
        of "\<lparr>fData = example_processor_keys, fCount = 0\<rparr>"]
      processor_keys_example [OF s f, of zero_dst_decls] r z
    by simp
  show ?thesis
    using Build_header_values [OF header_layout_ok_test finalize_keeps_header_test,
        of dst_read_state dst_read_info 0 example_gpu "\<lambda>i. 170" "\<lparr>fKey = [1, 2, 3]\<rparr>",
        THEN conjunct1, rule_format, OF Build_dst_read_example]
      Build_dst_read_example header_layout_ok_test finalize_keeps_header_test r z o a
    by simp
qed

subsection \<open>Build on a stage with seven transforms\<close>

lemma processor_keys_seven_transforms:
  "processor_keys test_decls seven_transform_state explicit_coords_info example_gpu =
     Inr (True, \<lparr>fData = [0, 0, 0, 0, 0, 0, 2, 0,
                           0, 0, 0, 0, 0, 0, 3, 0,
                           0, 0, 0, 0, 0, 0, 1, 0], fCount = 0\<rparr>)"
  unfolding processor_keys_def xfer_stage_builder_def
  by (simp add: seven_transform_state_def explicit_coords_info_def example_info_def
      example_state_def example_gpu_def seven_transform_stage_def plain_transform_def
      meta_eval_defs gen_transform_key_def transform_key_field_def transform_consts)

lemma processor_keys_six_transforms:
  "processor_keys test_decls six_transform_state explicit_coords_info example_gpu =
     Inr (True, \<lparr>fData = [0, 0, 0, 0, 0, 0, 2, 0,
                           0, 0, 0, 0, 0, 0, 3, 0,
                           0, 0, 0, 0, 0, 0, 1, 0], fCount = 0\<rparr>)"
  unfolding processor_keys_def xfer_stage_builder_def
  by (simp add: six_transform_state_def explicit_coords_info_def example_info_def
      example_state_def example_gpu_def six_transform_stage_def plain_transform_def
      meta_eval_defs gen_transform_key_def transform_key_field_def transform_consts)

lemma write_header_transforms:
  assumes "hasGeometryProcessor s = False" "numColorStages s = 1" "numCoverageStages s = 0"
  shows "write_header test_decls s explicit_coords_info 0 example_gpu
     (reserved16 @ [0, 0, 0, 0, 0, 0, 2, 0,
                    0, 0, 0, 0, 0, 0, 3, 0,
                    0, 0, 0, 0, 0, 0, 1, 0]) =
   Inr [170, 170, 170, 170, 170, 170, 170, 170, 0, 0, 1, 0, 0, 0, 0, 0,
      0, 0, 0, 0, 0, 0, 2, 0,
      0, 0, 0, 0, 0, 0, 3, 0,
      0, 0, 0, 0, 0, 0, 1, 0]"
  using assms
  by (simp add: write_header_def memset0_def reserved16_def
      example_gpu_def gpu_caps_def no_swizzle_caps_def Let_def
      test_decls_def example_info_def explicit_coords_info_def numeral_eq_Suc)

lemma finalize_transforms:
  "finalize test_decls [170, 170, 170, 170, 170, 170, 170, 170, 0, 0, 1, 0, 0, 0, 0, 0,
      0, 0, 0, 0, 0, 0, 2, 0,
      0, 0, 0, 0, 0, 0, 3, 0,
      0, 0, 0, 0, 0, 0, 1, 0] =
   [40, 0, 0, 0, 0, 0, 0, 0, 0, 0, 1, 0, 0, 0, 0, 0,
      0, 0, 0, 0, 0, 0, 2, 0,
      0, 0, 0, 0, 0, 0, 3, 0,
      0, 0, 0, 0, 0, 0, 1, 0]"
  by (simp add: test_decls_def word_bytes_def)

lemma Build_seven_transforms:
  "Build test_decls seven_transform_state explicit_coords_info 0 example_gpu (\<lambda>i. 170)
       \<lparr>fKey = [1, 2, 3]\<rparr> =
     Inr (True,
       \<lparr>fKey = [40, 0, 0, 0, 0, 0, 0, 0, 0, 0, 1, 0, 0, 0, 0, 0,
                0, 0, 0, 0, 0, 0, 2, 0,
                0, 0, 0, 0, 0, 0, 3, 0,
                0, 0, 0, 0, 0, 0, 1, 0]\<rparr>)"
proof -
  have k: "kProcessorKeysOffset test_decls = 16" by (simp add: test_decls_def)
  have s: "hasGeometryProcessor seven_transform_state = False"
    "numColorStages seven_transform_state = 1" "numCoverageStages seven_transform_state = 0"
    by (simp_all add: seven_transform_state_def example_state_def)
  show ?thesis
    unfolding Build_via_processor_keys
    by (simp add: processor_keys_seven_transforms reserved_key_test [OF k]
      write_header_transforms [OF s] finalize_transforms)
qed

lemma Build_six_transforms:
  "Build test_decls six_transform_state explicit_coords_info 0 example_gpu (\<lambda>i. 170)
       \<lparr>fKey = [1, 2, 3]\<rparr> =
     Inr (True,
       \<lparr>fKey = [40, 0, 0, 0, 0, 0, 0, 0, 0, 0, 1, 0, 0, 0, 0, 0,
                0, 0, 0, 0, 0, 0, 2, 0,
                0, 0, 0, 0, 0, 0, 3, 0,
                0, 0, 0, 0, 0, 0, 1, 0]\<rparr>)"
proof -
  have k: "kProcessorKeysOffset test_decls = 16" by (simp add: test_decls_def)
  have s: "hasGeometryProcessor six_transform_state = False"
    "numColorStages six_transform_state = 1" "numCoverageStages six_transform_state = 0"
    by (simp_all add: six_transform_state_def example_state_def)
  show ?thesis
    unfolding Build_via_processor_keys
    by (simp add: processor_keys_six_transforms reserved_key_test [OF k]
      write_header_transforms [OF s] finalize_transforms)
qed

lemma seventh_field:
  "transform_key_field seven_transform_stage True 6
     (coordTransforms (processor seven_transform_stage) ! 6) = 20"
  by (simp add: seven_transform_stage_def transform_key_field_def transform_consts)

text \<open>
  C5, the capacity boundary of the transform key: a stage with one transform more than
  \<open>32 div kTransformKeyBits = 6\<close> is to fail the overlap assertion of line 93 ("keys
  for each transform ought not to overlap") rather than get a key. The code does not: on the stage with seven transforms whose seventh is
  sourced from device coordinates with precision 2, the field of the seventh transform
  is 20, its shift by 30 inside 32 bits leaves nothing of it, the assertion sees no
  overlap, \<^verbatim>\<open>gen_transform_key\<close> returns the key of the stage with the first six
  transforms only, and \<open>Build\<close> succeeds with the very key it gives that stage.
\<close>

theorem seventh_transform_is_dropped:
  "numTransforms (processor six_transform_stage) = 6 \<and>
   numTransforms (processor seven_transform_stage) = 7 \<and>
   take 6 (coordTransforms (processor seven_transform_stage)) =
     coordTransforms (processor six_transform_stage) \<and>
   list_all (\<lambda>ct. precision ct < 4) (coordTransforms (processor seven_transform_stage)) \<and>
   transform_key_field seven_transform_stage True 6
     (coordTransforms (processor seven_transform_stage) ! 6) = 20 \<and>
   push_bit (kTransformKeyBits * 6) (20 :: u32) = 0 \<and>
   gen_transform_key seven_transform_stage True = Inr 0 \<and>
   gen_transform_key six_transform_stage True = Inr 0 \<and>
   Build test_decls seven_transform_state explicit_coords_info 0 example_gpu (\<lambda>i. 170)
       \<lparr>fKey = [1, 2, 3]\<rparr> =
     Inr (True,
       \<lparr>fKey = [40, 0, 0, 0, 0, 0, 0, 0, 0, 0, 1, 0, 0, 0, 0, 0,
                0, 0, 0, 0, 0, 0, 2, 0,
                0, 0, 0, 0, 0, 0, 3, 0,
                0, 0, 0, 0, 0, 0, 1, 0]\<rparr>) \<and>
   Build test_decls six_transform_state explicit_coords_info 0 example_gpu (\<lambda>i. 170)
       \<lparr>fKey = [1, 2, 3]\<rparr> =
   Build test_decls seven_transform_state explicit_coords_info 0 example_gpu (\<lambda>i. 170)
       \<lparr>fKey = [1, 2, 3]\<rparr>"
proof -
  have n: "numTransforms (processor six_transform_stage) = 6"
    "numTransforms (processor seven_transform_stage) = 7"
    by (simp_all add: six_transform_stage_def seven_transform_stage_def numTransforms_def)
  have t: "take 6 (coordTransforms (processor seven_transform_stage)) =
     coordTransforms (processor six_transform_stage)"
    by (simp add: six_transform_stage_def seven_transform_stage_def)
  have v: "list_all (\<lambda>ct. precision ct < 4) (coordTransforms (processor seven_transform_stage))"
    by (simp add: seven_transform_stage_def plain_transform_def)
  have p: "push_bit (kTransformKeyBits * 6) (20 :: u32) = 0"
    by (simp add: kTransformKeyBits_eq)
  show ?thesis
    by (intro conjI n t v seventh_field p seven_transform_stage_key six_transform_stage_key
        Build_seven_transforms)
      (simp add: Build_seven_transforms Build_six_transforms)
qed


subsection \<open>The processor keys in closed form\<close>

lemma words_bytes_append: "words_bytes (xs @ ys) = words_bytes xs @ words_bytes ys"
  by (simp add: words_bytes_def)

lemma words_bytes_Nil: "words_bytes [] = []"
  by (simp add: words_bytes_def)

lemma words_bytes_Cons: "words_bytes (w # ws) = word_bytes w @ words_bytes ws"
  by (simp add: words_bytes_def)

lemmas words_bytes_simps = words_bytes_Nil words_bytes_Cons words_bytes_append

lemma getGLProcessorKey_content:
  "fData (getGLProcessorKey ws b) = fData b @ words_bytes ws \<and>
   fCount (getGLProcessorKey ws b) = fCount b + length ws"
  by (induction ws arbitrary: b) (simp_all add: words_bytes_def add32_def)

lemma get_meta_key_True:
  assumes "get_meta_key ext proc glcaps transformKey b = Inr (True, b')"
  shows "fData b' = fData b @ words_bytes
           [push_bit 16 (texture_key_of ext proc glcaps) OR transformKey,
            push_bit 16 (classID proc) OR of_nat (4 * fCount b)]"
    and "fCount b' = 0"
    and "4 * fCount b \<le> 65535"
proof -
  from assms obtain textureKey where t: "gen_texture_key ext proc glcaps = Inr textureKey"
    by (auto simp add: get_meta_key_def Let_def split: sum.splits)
  have tk: "texture_key_of ext proc glcaps = textureKey" by (simp add: texture_key_of_def t)
  note c = get_meta_key_cases [OF t, of transformKey b]
  from assms c have le: "builder_size b \<le> 65535"
    and b': "b' = b\<lparr>fData := fData b
                        @ word_bytes (push_bit 16 textureKey OR transformKey)
                        @ word_bytes (push_bit 16 (classID proc) OR of_nat (builder_size b)),
                     fCount := 0\<rparr>"
    by (auto split: if_splits)
  show "4 * fCount b \<le> 65535" using le by (simp add: builder_size_def)
  show "fCount b' = 0" by (simp add: b')
  show "fData b' = fData b @ words_bytes
           [push_bit 16 (texture_key_of ext proc glcaps) OR transformKey,
            push_bit 16 (classID proc) OR of_nat (4 * fCount b)]"
    by (simp add: b' tk words_bytes_def builder_size_def)
qed

lemma get_meta_key_fits:
  assumes "get_meta_key ext proc glcaps transformKey b = Inr (ok, b')"
  shows "ok \<longleftrightarrow>
           unat (texture_key_of ext proc glcaps) \<le> 65535 \<and> unat transformKey \<le> 65535 \<and>
           unat (classID proc) \<le> 65535 \<and> 4 * fCount b \<le> 65535"
proof -
  from assms obtain textureKey where t: "gen_texture_key ext proc glcaps = Inr textureKey"
    by (auto simp add: get_meta_key_def Let_def split: sum.splits)
  have tk: "texture_key_of ext proc glcaps = textureKey" by (simp add: texture_key_of_def t)
  note c = get_meta_key_cases [OF t, of transformKey b]
  from assms c show ?thesis
    by (auto simp add: tk builder_size_def split: if_splits)
qed

lemma transform_key_of_Inr:
  "gen_transform_key fps req = Inr transformKey \<Longrightarrow> transform_key_of fps req = transformKey"
  by (simp add: transform_key_of_def)

lemma length_stage_chunks: "length (stage_chunks keys) = length keys"
  by (simp add: stage_chunks_def)

lemma stage_chunks_Nil: "stage_chunks [] = []"
  by (simp add: stage_chunks_def)

lemma stage_chunks_Cons: "stage_chunks (k # ks) = stage_chunk k # stage_chunks ks"
  by (simp add: stage_chunks_def)

lemma stage_chunks_append: "stage_chunks (xs @ ys) = stage_chunks xs @ stage_chunks ys"
  by (simp add: stage_chunks_def)

text \<open>
  One stage on a builder that holds no word of a private key yet: the processor adds its
  private key, and the meta key follows with the byte length of that private key.
\<close>

lemma stage_True:
  assumes "get_meta_key ext proc glcaps transformKey (getGLProcessorKey ws b) = Inr (True, b')"
    and "fCount b = 0"
  shows "fData b' = fData b @ words_bytes
           (stage_chunk (ws, texture_key_of ext proc glcaps, transformKey, classID proc))"
    and "fCount b' = 0"
    and "stage_key_fits (ws, texture_key_of ext proc glcaps, transformKey, classID proc)"
proof -
  note g = getGLProcessorKey_content [of ws b]
  note k = get_meta_key_True [OF assms(1)]
  note f = get_meta_key_fits [OF assms(1)]
  show "fCount b' = 0" by (rule k(2))
  show "fData b' = fData b @ words_bytes
           (stage_chunk (ws, texture_key_of ext proc glcaps, transformKey, classID proc))"
    using k(1) g assms(2) by (simp add: words_bytes_simps)
  show "stage_key_fits (ws, texture_key_of ext proc glcaps, transformKey, classID proc)"
    using f g assms(2) by simp
qed

lemma stage_False:
  assumes "get_meta_key ext proc glcaps transformKey (getGLProcessorKey ws b) = Inr (False, b')"
    and "fCount b = 0"
  shows "\<not> stage_key_fits (ws, texture_key_of ext proc glcaps, transformKey, classID proc)"
  using get_meta_key_fits [OF assms(1)] getGLProcessorKey_content [of ws b] assms(2) by simp

lemma fragment_stages_loop_True:
  assumes "fragment_stages_loop ext glcaps req stages b = Inr (True, b')" and "fCount b = 0"
  shows "fData b' =
           fData b @ words_bytes (concat (stage_chunks
                                     (map (fragment_stage_key ext glcaps req) stages))) \<and>
         fCount b' = 0 \<and>
         list_all stage_key_fits (map (fragment_stage_key ext glcaps req) stages)"
  using assms
proof (induction stages arbitrary: b)
  case Nil
  then show ?case by (simp add: words_bytes_Nil stage_chunks_Nil)
next
  case (Cons fps rest)
  let ?b1 = "getGLProcessorKey (fpGLProcessorKey (processor fps) glcaps) b"
  from Cons.prems(1) obtain transformKey b2 where
    tk: "gen_transform_key fps req = Inr transformKey"
    and m: "get_meta_key ext (processor fps) glcaps transformKey ?b1 = Inr (True, b2)"
    and r: "fragment_stages_loop ext glcaps req rest b2 = Inr (True, b')"
    by (auto simp add: Let_def split: sum.splits prod.splits if_splits)
  note k = stage_True [OF m Cons.prems(2)]
  note ih = Cons.IH [OF r k(2)]
  have fk: "fragment_stage_key ext glcaps req fps =
      (fpGLProcessorKey (processor fps) glcaps, texture_key_of ext (processor fps) glcaps,
       transformKey, classID (processor fps))"
    by (simp add: fragment_stage_key_def transform_key_of_Inr [OF tk])
  show ?case
    using ih k(1) k(3)
    by (simp add: fk stage_chunks_Cons words_bytes_append del: stage_chunk.simps
        stage_key_fits.simps)
qed

lemma fragment_stages_loop_False:
  assumes "fragment_stages_loop ext glcaps req stages b = Inr (False, b')" and "fCount b = 0"
  shows "\<not> list_all stage_key_fits (map (fragment_stage_key ext glcaps req) stages)"
  using assms
proof (induction stages arbitrary: b)
  case Nil
  then show ?case by simp
next
  case (Cons fps rest)
  let ?b1 = "getGLProcessorKey (fpGLProcessorKey (processor fps) glcaps) b"
  from Cons.prems(1) obtain transformKey ok b2 where
    tk: "gen_transform_key fps req = Inr transformKey"
    and m: "get_meta_key ext (processor fps) glcaps transformKey ?b1 = Inr (ok, b2)"
    and r: "ok \<Longrightarrow> fragment_stages_loop ext glcaps req rest b2 = Inr (False, b')"
    by (auto simp add: Let_def split: sum.splits prod.splits if_splits)
  have fk: "fragment_stage_key ext glcaps req fps =
      (fpGLProcessorKey (processor fps) glcaps, texture_key_of ext (processor fps) glcaps,
       transformKey, classID (processor fps))"
    by (simp add: fragment_stage_key_def transform_key_of_Inr [OF tk])
  show ?case
  proof (cases ok)
    case True
    with m have m': "get_meta_key ext (processor fps) glcaps transformKey ?b1 = Inr (True, b2)"
      by simp
    from Cons.IH [OF r [OF True] stage_True(2) [OF m' Cons.prems(2)]] show ?thesis
      by simp
  next
    case False
    with m have m': "get_meta_key ext (processor fps) glcaps transformKey ?b1 = Inr (False, b2)"
      by simp
    from stage_False [OF m' Cons.prems(2)] show ?thesis
      by (simp add: fk del: stage_key_fits.simps)
  qed
qed

lemma processor_keys_True:
  assumes "processor_keys ext optState descInfo gpu = Inr (True, b)"
  shows "fData b = words_bytes (concat (stage_chunks (stage_keys ext optState descInfo gpu)))"
    and "list_all stage_key_fits (stage_keys ext optState descInfo gpu)"
proof -
  let ?gp = "gpGLProcessorKey (primitiveProcessor optState) (batchTracker optState) (glCaps gpu)"
  let ?xp = "xpGLProcessorKey (xferProcessor optState) (glCaps gpu)"
  let ?fs = "map (fragment_stage_key ext (glCaps gpu) (fRequiresLocalCoordAttrib descInfo))
               (fragmentStages optState)"
  let ?b0 = "GrProcessorKeyBuilder_new []"
  from assms obtain b2 b3 where
    m1: "get_meta_key ext (primitiveProcessor optState) (glCaps gpu) 0
           (getGLProcessorKey ?gp ?b0) = Inr (True, b2)"
    and lp: "fragment_stages_loop ext (glCaps gpu) (fRequiresLocalCoordAttrib descInfo)
               (fragmentStages optState) b2 = Inr (True, b3)"
    and m2: "get_meta_key ext (xferProcessor optState) (glCaps gpu) 0
               (getGLProcessorKey ?xp b3) = Inr (True, b)"
    by (auto simp add: processor_keys_def xfer_stage_builder_def
        split: sum.splits prod.splits if_splits)
  have c0: "fCount ?b0 = 0" by (simp add: GrProcessorKeyBuilder_new_def)
  note k1 = stage_True [OF m1 c0]
  note l = fragment_stages_loop_True [OF lp k1(2)]
  note k2 = stage_True [OF m2 l [THEN conjunct2, THEN conjunct1]]
  show "fData b = words_bytes (concat (stage_chunks (stage_keys ext optState descInfo gpu)))"
    using k1(1) l k2(1)
    by (simp add: stage_keys_def stage_chunks_Cons stage_chunks_append stage_chunks_Nil
        words_bytes_append GrProcessorKeyBuilder_new_def del: stage_chunk.simps)
  show "list_all stage_key_fits (stage_keys ext optState descInfo gpu)"
    using k1(3) l k2(3)
    by (simp add: stage_keys_def del: stage_key_fits.simps)
qed

lemma processor_keys_False:
  assumes "processor_keys ext optState descInfo gpu = Inr (False, b)"
  shows "\<not> list_all stage_key_fits (stage_keys ext optState descInfo gpu)"
proof -
  let ?gp = "gpGLProcessorKey (primitiveProcessor optState) (batchTracker optState) (glCaps gpu)"
  let ?xp = "xpGLProcessorKey (xferProcessor optState) (glCaps gpu)"
  let ?b0 = "GrProcessorKeyBuilder_new []"
  have c0: "fCount ?b0 = 0" by (simp add: GrProcessorKeyBuilder_new_def)
  from assms obtain ok1 b2 where
    m1: "get_meta_key ext (primitiveProcessor optState) (glCaps gpu) 0
           (getGLProcessorKey ?gp ?b0) = Inr (ok1, b2)"
    by (auto simp add: processor_keys_def split: sum.splits prod.splits)
  show ?thesis
  proof (cases ok1)
    case False
    with m1 have "get_meta_key ext (primitiveProcessor optState) (glCaps gpu) 0
           (getGLProcessorKey ?gp ?b0) = Inr (False, b2)" by simp
    from stage_False [OF this c0] show ?thesis
      by (simp add: stage_keys_def del: stage_key_fits.simps)
  next
    case True
    with m1 have m1': "get_meta_key ext (primitiveProcessor optState) (glCaps gpu) 0
           (getGLProcessorKey ?gp ?b0) = Inr (True, b2)" by simp
    note k1 = stage_True [OF m1' c0]
    from assms m1' obtain ok2 b3 where
      lp: "fragment_stages_loop ext (glCaps gpu) (fRequiresLocalCoordAttrib descInfo)
               (fragmentStages optState) b2 = Inr (ok2, b3)"
      by (auto simp add: processor_keys_def split: sum.splits prod.splits)
    show ?thesis
    proof (cases ok2)
      case False
      with lp have "fragment_stages_loop ext (glCaps gpu) (fRequiresLocalCoordAttrib descInfo)
               (fragmentStages optState) b2 = Inr (False, b3)" by simp
      from fragment_stages_loop_False [OF this k1(2)] show ?thesis
        by (simp add: stage_keys_def del: stage_key_fits.simps)
    next
      case True
      with lp have lp': "fragment_stages_loop ext (glCaps gpu) (fRequiresLocalCoordAttrib descInfo)
               (fragmentStages optState) b2 = Inr (True, b3)" by simp
      note l = fragment_stages_loop_True [OF lp' k1(2)]
      from assms m1' lp' have "get_meta_key ext (xferProcessor optState) (glCaps gpu) 0
               (getGLProcessorKey ?xp b3) = Inr (False, b)"
        by (simp add: processor_keys_def xfer_stage_builder_def)
      from stage_False [OF this l [THEN conjunct2, THEN conjunct1]] show ?thesis
        by (simp add: stage_keys_def del: stage_key_fits.simps)
    qed
  qed
qed

lemma stage_chunks_nth:
  assumes "i < length keys"
  shows "stage_chunks keys ! i = stage_chunk (keys ! i)"
  using assms by (simp add: stage_chunks_def)

lemma size_field_low_bits:
  assumes "n \<le> 65535"
  shows "(push_bit 16 cid OR of_nat n :: u32) AND 65535 = of_nat n"
proof -
  have m: "(65535 :: u32) = mask 16" by (simp add: mask_eq_exp_minus_1)
  have "take_bit 16 n = n" using assms by (simp add: take_bit_nat_eq_self_iff)
  then have n: "take_bit 16 (of_nat n :: u32) = of_nat n"
    by (simp add: take_bit_of_nat)
  have "take_bit 16 (push_bit 16 cid OR of_nat n :: u32) = of_nat n"
    by (simp add: take_bit_or take_bit_push_bit n del: of_nat_take_bit) 
  then show ?thesis by (simp add: m take_bit_eq_mask)
qed

lemma drop_memset0:
  assumes "off + n \<le> m" and "m \<le> length key"
  shows "drop m (memset0 off n key) = drop m key"
  using assms by (simp add: memset0_def)

lemma write_header_keeps_processor_keys:
  assumes layout: "header_layout_ok ext"
    and len: "kProcessorKeysOffset ext \<le> length key0"
    and wh: "write_header ext optState descInfo drawType gpu key0 = Inr key"
  shows "drop (kProcessorKeysOffset ext) key = drop (kProcessorKeysOffset ext) key0"
proof -
  have hs: "kHeaderOffset ext + kHeaderSize ext \<le> kProcessorKeysOffset ext"
    using layout by (simp add: header_layout_ok_def)
  have offs: "kHeaderOffset ext + offsetof_fUseNvpr ext < kProcessorKeysOffset ext"
    "kHeaderOffset ext + offsetof_fDstReadKey ext < kProcessorKeysOffset ext"
    "kHeaderOffset ext + offsetof_fFragPosKey ext < kProcessorKeysOffset ext"
    "kHeaderOffset ext + offsetof_fColorEffectCnt ext < kProcessorKeysOffset ext"
    "kHeaderOffset ext + offsetof_fCoverageEffectCnt ext < kProcessorKeysOffset ext"
    using layout by (simp_all add: header_layout_ok_def header_field_offsets_def)
  show ?thesis
    by (subst write_header_Inr(1) [OF wh])
      (simp add: drop_update_cancel offs drop_memset0 [OF hs len])
qed

lemma write_header_eq:
  "write_header ext optState descInfo drawType gpu key0 =
     (if header_assertions_hold ext optState descInfo drawType gpu
      then Inr (stored_header ext optState descInfo drawType gpu key0)
      else Inl SkAssertFailure)"
  by (auto simp add: write_header_def header_assertions_hold_def stored_header_def Let_def
      uses_nvpr_def dst_read_key_def frag_pos_key_def)

text \<open>
  C4, the size field of the meta key, with the key builder as the specification
  describes it. Whenever \<open>Build\<close> returns, it returns true exactly when every stage fits
  the meta key: its texture key, its transform key and its class id take at most 16 bits
  and the byte length of its own private key is at most 65535, whatever the stages
  before it have put into the key. After a successful \<open>Build\<close> the bytes from
  \<open>kProcessorKeysOffset\<close> on are the chunks of the stages in pipeline order, and for
  every stage the low 16 bits of its second meta-key word equal the byte length of the
  private key of this stage (0 for an empty private key).
\<close>

theorem meta_key_size_is_private_key_size:
  assumes layout: "header_layout_ok ext" and fin: "finalize_keeps_processor_keys ext"
    and run: "Build ext optState descInfo drawType gpu uninit desc = Inr (ok, d)"
    and keys: "keys = stage_keys ext optState descInfo gpu"
  shows "(ok \<longleftrightarrow> list_all stage_key_fits keys) \<and>
         (ok \<longrightarrow>
            drop (kProcessorKeysOffset ext) (fKey d) = words_bytes (concat (stage_chunks keys)) \<and>
            length (stage_chunks keys) = length (fragmentStages optState) + 2 \<and>
            (\<forall>i < length keys.
               (\<exists>word0 word1.
                  stage_chunks keys ! i = fst (keys ! i) @ [word0, word1] \<and>
                  word1 AND 65535 = of_nat (4 * length (fst (keys ! i))) \<and>
                  4 * length (fst (keys ! i)) \<le> 65535)))"
proof (cases ok)
  case False
  with run obtain b where "processor_keys ext optState descInfo gpu = Inr (False, b)"
    unfolding Build_via_processor_keys
    by (auto split: sum.splits prod.splits if_splits)
  from processor_keys_False [OF this] False show ?thesis
    by (simp add: keys)
next
  case True
  with run have ok: "Build ext optState descInfo drawType gpu uninit desc = Inr (True, d)"
    by simp
  from ok obtain b key where
    pk: "processor_keys ext optState descInfo gpu = Inr (True, b)"
    and wh: "write_header ext optState descInfo drawType gpu (reserved_key ext uninit @ fData b) = Inr key"
    and d: "fKey d = finalize ext key"
    by (rule Build_True_header)
  note c = processor_keys_True [OF pk]
  have fits: "list_all stage_key_fits keys"
    using c(2) by (simp add: keys)
  have len0: "kProcessorKeysOffset ext \<le> length (reserved_key ext uninit @ fData b)"
    by (simp add: length_reserved_key)
  have len: "kProcessorKeysOffset ext \<le> length key"
    using len0 header_bytes(1) [OF layout len0 wh] by simp
  have "drop (kProcessorKeysOffset ext) (fKey d) = drop (kProcessorKeysOffset ext) key"
    using fin len by (simp add: finalize_keeps_processor_keys_def d)
  also have "\<dots> = drop (kProcessorKeysOffset ext) (reserved_key ext uninit @ fData b)"
    using layout len0 wh by (rule write_header_keeps_processor_keys)
  also have "\<dots> = fData b" by (simp add: length_reserved_key)
  finally have bytes: "drop (kProcessorKeysOffset ext) (fKey d) =
      words_bytes (concat (stage_chunks keys))"
    by (simp add: c(1) keys)
  have count: "length (stage_chunks keys) = length (fragmentStages optState) + 2"
    by (simp add: length_stage_chunks keys stage_keys_def)
  have field: "\<exists>word0 word1.
               stage_chunks keys ! i = fst (keys ! i) @ [word0, word1] \<and>
               word1 AND 65535 = of_nat (4 * length (fst (keys ! i))) \<and>
               4 * length (fst (keys ! i)) \<le> 65535"
    if i: "i < length keys" for i
  proof -
    obtain privateKey textureKey transformKey cid where
      ki: "keys ! i = (privateKey, textureKey, transformKey, cid)"
      by (cases "keys ! i")
    have "stage_key_fits (keys ! i)"
      using fits i by (simp add: list_all_length)
    then have le: "4 * length privateKey \<le> 65535"
      by (simp add: ki)
    show ?thesis
      using le size_field_low_bits [OF le, of cid] stage_chunks_nth [OF i]
      by (simp add: ki)
  qed
  show ?thesis
    using True fits bytes count field by simp
qed

subsection \<open>Build on the end-to-end example\<close>

lemma write_header_example:
  "write_header test_decls example_state example_info 0 example_gpu
     (reserved16 @ example_processor_keys) =
   Inr [170, 170, 170, 170, 170, 170, 170, 170, 0, 0, 1, 0, 0, 0, 0, 0,
      0, 0, 0, 0, 0, 0, 2, 0,
      0, 0, 0, 0, 8, 0, 0, 0, 4, 0, 3, 0,
      0, 0, 0, 0, 0, 0, 1, 0]"
  by (simp add: write_header_def memset0_def reserved16_def example_processor_keys_def
      example_state_def example_gpu_def gpu_caps_def no_swizzle_caps_def Let_def
      test_decls_def example_info_def numeral_eq_Suc)

lemma Build_example:
  "Build test_decls example_state example_info 0 example_gpu (\<lambda>i. 170) \<lparr>fKey = [1, 2, 3]\<rparr> =
     Inr (True,
       \<lparr>fKey = [44, 0, 0, 0, 0, 0, 0, 0, 0, 0, 1, 0, 0, 0, 0, 0,
                0, 0, 0, 0, 0, 0, 2, 0,
                0, 0, 0, 0, 8, 0, 0, 0, 4, 0, 3, 0,
                0, 0, 0, 0, 0, 0, 1, 0]\<rparr>)"
proof -
  have k: "kProcessorKeysOffset test_decls = 16" by (simp add: test_decls_def)
  have f: "\<not> fRequiresLocalCoordAttrib example_info"
    by (simp add: example_info_def)
  show ?thesis
    unfolding Build_via_processor_keys
    by (simp add: processor_keys_example [OF refl refl refl refl f] reserved_key_test [OF k]
      write_header_example finalize_example)
qed

lemma finalize_keeps_processor_keys_test: "finalize_keeps_processor_keys test_decls"
  by (simp add: finalize_keeps_processor_keys_def test_decls_def length_word_bytes)

lemma stage_keys_example:
  "stage_keys test_decls example_state example_info example_gpu =
     [([], 0, 0, 2), ([0], 0, 8, 3), ([], 0, 0, 1)]"
  by (simp add: stage_keys_def fragment_stage_key_def texture_key_of_def transform_key_of_def
      gen_texture_key_def example_state_def example_info_def example_gpu_def example_stage_key)
    (simp add: example_stage_def)

lemma Build_wide_prim_state:
  "Build test_decls wide_prim_state example_info 0 example_gpu (\<lambda>i. 170) \<lparr>fKey = [1, 2, 3]\<rparr> =
     Inr (False, \<lparr>fKey = []\<rparr>)"
  unfolding Build_via_processor_keys processor_keys_def
  by (simp add: eval_defs state_defs)

lemma stage_keys_wide_prim_state:
  "stage_keys test_decls wide_prim_state example_info example_gpu =
     [([], 0, 0, 65536), ([0], 0, 8, 3), ([], 0, 0, 1)]"
  by (simp add: stage_keys_def fragment_stage_key_def texture_key_of_def transform_key_of_def
      gen_texture_key_def wide_prim_state_def example_state_def example_info_def example_gpu_def
      example_stage_key)
    (simp add: example_stage_def)

lemma length_long_key: "length long_key = 16000"
  unfolding long_key_def by (rule length_replicate)

lemma length_words_bytes: "length (words_bytes ws) = 4 * length ws"
  by (induction ws) (simp_all add: words_bytes_Nil words_bytes_Cons length_word_bytes)

lemma stage_fits_True:
  assumes "gen_texture_key ext proc glcaps = Inr textureKey" and "fCount b = 0"
    and "stage_key_fits (ws, textureKey, transformKey, classID proc)"
  shows "\<exists>b'. get_meta_key ext proc glcaps transformKey (getGLProcessorKey ws b) = Inr (True, b')
              \<and> fCount b' = 0"
  using assms getGLProcessorKey_content [of ws b]
  by (simp add: get_meta_key_cases builder_size_def)

lemma stage_keys_long_key_state:
  "stage_keys test_decls long_key_state example_info example_gpu =
     [(long_key, 0, 0, 2), ([0], 0, 8, 3), (long_key, 0, 0, 1)]"
  by (simp add: stage_keys_def fragment_stage_key_def texture_key_of_def transform_key_of_def
      gen_texture_key_def long_key_state_def example_state_def example_info_def example_gpu_def
      example_stage_key)
    (simp add: example_stage_def)

lemma processor_keys_long_key_state:
  "\<exists>b. processor_keys test_decls long_key_state example_info example_gpu = Inr (True, b)"
proof -
  let ?caps = "glCaps example_gpu"
  have c0: "fCount (GrProcessorKeyBuilder_new []) = 0"
    by (simp add: GrProcessorKeyBuilder_new_def)
  have t1: "gen_texture_key test_decls (primitiveProcessor long_key_state) ?caps = Inr 0"
    by (simp add: gen_texture_key_def long_key_state_def)
  have f1: "stage_key_fits (long_key, 0, 0, classID (primitiveProcessor long_key_state))"
    by (simp add: length_long_key long_key_state_def)
  from stage_fits_True [OF t1 c0 f1] obtain b2 where
    m1: "get_meta_key test_decls (primitiveProcessor long_key_state) ?caps 0
           (getGLProcessorKey long_key (GrProcessorKeyBuilder_new [])) = Inr (True, b2)"
    and c2: "fCount b2 = 0"
    by blast
  have t2: "gen_texture_key test_decls (processor example_stage) ?caps = Inr 0"
    by (simp add: gen_texture_key_def example_stage_def)
  have f2: "stage_key_fits ([0], 0, 8, classID (processor example_stage))"
    by (simp add: example_stage_def)
  from stage_fits_True [OF t2 c2 f2] obtain b3 where
    m2: "get_meta_key test_decls (processor example_stage) ?caps 8
           (getGLProcessorKey [0] b2) = Inr (True, b3)"
    and c3: "fCount b3 = 0"
    by blast
  have k2: "fpGLProcessorKey (processor example_stage) ?caps = [0]"
    by (simp add: example_stage_def)
  have lp: "fragment_stages_loop test_decls ?caps False [example_stage] b2 = Inr (True, b3)"
    using m2 by (simp add: example_stage_key k2 del: getGLProcessorKey.simps)
  have t3: "gen_texture_key test_decls (xferProcessor long_key_state) ?caps = Inr 0"
    by (simp add: gen_texture_key_def long_key_state_def)
  have f3: "stage_key_fits (long_key, 0, 0, classID (xferProcessor long_key_state))"
    by (simp add: length_long_key long_key_state_def)
  from stage_fits_True [OF t3 c3 f3] obtain b4 where
    m3: "get_meta_key test_decls (xferProcessor long_key_state) ?caps 0
           (getGLProcessorKey long_key b3) = Inr (True, b4)"
    by blast
  have s: "gpGLProcessorKey (primitiveProcessor long_key_state) (batchTracker long_key_state) ?caps
             = long_key"
    "xpGLProcessorKey (xferProcessor long_key_state) ?caps = long_key"
    "fragmentStages long_key_state = [example_stage]"
    "fRequiresLocalCoordAttrib example_info = False"
    by (simp_all add: long_key_state_def example_state_def example_info_def)
  have "processor_keys test_decls long_key_state example_info example_gpu = Inr (True, b4)"
    unfolding processor_keys_def xfer_stage_builder_def s
    by (simp add: m1 lp m3 del: fragment_stages_loop.simps)
  then show ?thesis ..
qed

lemma Build_long_key_state:
  "\<exists>d. Build test_decls long_key_state example_info 0 example_gpu (\<lambda>i. 170) \<lparr>fKey = [1, 2, 3]\<rparr> =
     Inr (True, d)"
proof -
  from processor_keys_long_key_state obtain b where
    pk: "processor_keys test_decls long_key_state example_info example_gpu = Inr (True, b)" ..
  have h: "header_assertions_hold test_decls long_key_state example_info 0 example_gpu"
    by (simp add: header_assertions_hold_def uses_nvpr_def example_info_def test_decls_def)
  show ?thesis
    unfolding Build_via_processor_keys
    by (simp add: pk write_header_eq h)
qed


text \<open>
  On the specification's end-to-end example the three stages are found behind the
  header: the fragment stage has a private key of 4 bytes and its second meta-key word
  is 196612, with 4 in the low 16 bits; the transfer processor has an empty private key
  and its second meta-key word is 65536, with 0 in the low 16 bits. With a class id of
  17 bits on the primitive processor \<open>Build\<close> returns false. With private keys of 64000
  bytes on the primitive and on the transfer processor \<open>Build\<close> returns true, and the
  processor keys take 128028 bytes.
\<close>

theorem meta_key_size_is_private_key_size_witness:
  "header_layout_ok test_decls \<and> finalize_keeps_processor_keys test_decls \<and>
   Build test_decls example_state example_info 0 example_gpu (\<lambda>i. 170) \<lparr>fKey = [1, 2, 3]\<rparr> =
     Inr (True,
       \<lparr>fKey = [44, 0, 0, 0, 0, 0, 0, 0, 0, 0, 1, 0, 0, 0, 0, 0,
                0, 0, 0, 0, 0, 0, 2, 0,
                0, 0, 0, 0, 8, 0, 0, 0, 4, 0, 3, 0,
                0, 0, 0, 0, 0, 0, 1, 0]\<rparr>) \<and>
   stage_keys test_decls example_state example_info example_gpu =
     [([], 0, 0, 2), ([0], 0, 8, 3), ([], 0, 0, 1)] \<and>
   list_all stage_key_fits [([], 0, 0, 2), ([0], 0, 8, 3), ([], 0, 0, 1)] \<and>
   drop (kProcessorKeysOffset test_decls)
     [44, 0, 0, 0, 0, 0, 0, 0, 0, 0, 1, 0, 0, 0, 0, 0,
      0, 0, 0, 0, 0, 0, 2, 0,
      0, 0, 0, 0, 8, 0, 0, 0, 4, 0, 3, 0,
      0, 0, 0, 0, 0, 0, 1, 0] =
     words_bytes (concat (stage_chunks [([], 0, 0, 2), ([0], 0, 8, 3), ([], 0, 0, 1)])) \<and>
   stage_chunks [([], 0, 0, 2), ([0], 0, 8, 3), ([], 0, 0, 1)] =
     [[0, 131072], [0, 8, 196612], [0, 65536]] \<and>
   (196612 :: u32) AND 65535 = 4 \<and> (65536 :: u32) AND 65535 = 0 \<and>
   Build test_decls wide_prim_state example_info 0 example_gpu (\<lambda>i. 170) \<lparr>fKey = [1, 2, 3]\<rparr> =
     Inr (False, \<lparr>fKey = []\<rparr>) \<and>
   stage_keys test_decls wide_prim_state example_info example_gpu =
     [([], 0, 0, 65536), ([0], 0, 8, 3), ([], 0, 0, 1)] \<and>
   \<not> list_all stage_key_fits [([], 0, 0, 65536), ([0], 0, 8, 3), ([], 0, 0, 1)] \<and>
   4 * length long_key = 64000 \<and>
   stage_keys test_decls long_key_state example_info example_gpu =
     [(long_key, 0, 0, 2), ([0], 0, 8, 3), (long_key, 0, 0, 1)] \<and>
   (\<exists>d. Build test_decls long_key_state example_info 0 example_gpu (\<lambda>i. 170)
            \<lparr>fKey = [1, 2, 3]\<rparr> = Inr (True, d) \<and>
        length (drop (kProcessorKeysOffset test_decls) (fKey d)) = 128028)"
proof -
  note t = meta_key_size_is_private_key_size [OF header_layout_ok_test
        finalize_keeps_processor_keys_test Build_example stage_keys_example [symmetric]]
  note f = meta_key_size_is_private_key_size [OF header_layout_ok_test
        finalize_keeps_processor_keys_test Build_wide_prim_state
        stage_keys_wide_prim_state [symmetric]]
  have fits: "list_all stage_key_fits [([], 0, 0, 2), ([0 :: u32], 0 :: u32, 8 :: u32, 3 :: u32), ([], 0, 0, 1)]"
    using t [THEN conjunct1] by (simp only: simp_thms)
  have nfits: "\<not> list_all stage_key_fits
      [([], 0, 0, 65536), ([0 :: u32], 0 :: u32, 8 :: u32, 3 :: u32), ([], 0, 0, 1)]"
    using f [THEN conjunct1] by (simp only: simp_thms)
  have bytes: "drop (kProcessorKeysOffset test_decls)
     [44, 0, 0, 0, 0, 0, 0, 0, 0, 0, 1, 0, 0, 0, 0, 0,
      0, 0, 0, 0, 0, 0, 2, 0,
      0, 0, 0, 0, 8, 0, 0, 0, 4, 0, 3, 0,
      0, 0, 0, 0, 0, 0, 1, 0] =
     words_bytes (concat (stage_chunks [([], 0, 0, 2), ([0], 0, 8, 3), ([], 0, 0, 1)]))"
    using t [THEN conjunct2, rule_format, OF TrueI, THEN conjunct1]
    by (simp only: GrProgramDesc.select_convs)
  have chunks: "stage_chunks [([], 0, 0, 2), ([0 :: u32], 0 :: u32, 8 :: u32, 3 :: u32), ([], 0, 0, 1)] =
     [[0, 131072], [0, 8, 196612], [0, 65536]]"
    by (simp add: stage_chunks_def)
  have low: "(196612 :: u32) AND 65535 = 4" "(65536 :: u32) AND 65535 = 0"
    by simp_all
  have long: "4 * length long_key = 64000"
    by (simp add: length_long_key)
  from Build_long_key_state obtain d where
    bd: "Build test_decls long_key_state example_info 0 example_gpu (\<lambda>i. 170)
           \<lparr>fKey = [1, 2, 3]\<rparr> = Inr (True, d)" ..
  have "drop (kProcessorKeysOffset test_decls) (fKey d) =
      words_bytes (concat (stage_chunks [(long_key, 0, 0, 2), ([0], 0, 8, 3), (long_key, 0, 0, 1)]))"
    using meta_key_size_is_private_key_size [OF header_layout_ok_test
        finalize_keeps_processor_keys_test bd stage_keys_long_key_state [symmetric],
        THEN conjunct2, rule_format, OF TrueI, THEN conjunct1] .
  then have "length (drop (kProcessorKeysOffset test_decls) (fKey d)) = 128028"
    by (simp add: length_words_bytes stage_chunks_def length_long_key)
  with bd have total: "\<exists>d. Build test_decls long_key_state example_info 0 example_gpu (\<lambda>i. 170)
            \<lparr>fKey = [1, 2, 3]\<rparr> = Inr (True, d) \<and>
        length (drop (kProcessorKeysOffset test_decls) (fKey d)) = 128028"
    by blast
  show ?thesis
    by (intro conjI header_layout_ok_test finalize_keeps_processor_keys_test Build_example
        stage_keys_example fits bytes chunks low Build_wide_prim_state
        stage_keys_wide_prim_state nfits long stage_keys_long_key_state total)
qed

subsection \<open>What Build reads of its inputs\<close>

lemma transform_key_field_cong:
  assumes "isPerspectiveCoordTransform s1 t = isPerspectiveCoordTransform s2 t"
  shows "transform_key_field s1 ex t ct = transform_key_field s2 ex t ct"
  using assms by (simp add: transform_key_field_def)

lemma gen_transform_key_loop_cong:
  assumes "\<forall>i < length cts. isPerspectiveCoordTransform s1 (t + i) =
             isPerspectiveCoordTransform s2 (t + i)"
  shows "gen_transform_key_loop s1 ex cts t totalKey = gen_transform_key_loop s2 ex cts t totalKey"
  using assms
proof (induction cts arbitrary: t totalKey)
  case Nil
  then show ?case by simp
next
  case (Cons ct rest)
  from Cons.prems have h: "isPerspectiveCoordTransform s1 t = isPerspectiveCoordTransform s2 t"
    by (metis add.right_neutral length_greater_0_conv list.distinct(1))
  have r: "\<forall>i < length rest. isPerspectiveCoordTransform s1 (Suc t + i) =
             isPerspectiveCoordTransform s2 (Suc t + i)"
  proof (intro allI impI)
    fix i assume "i < length rest"
    then have "Suc i < length (ct # rest)" by simp
    with Cons.prems have "isPerspectiveCoordTransform s1 (t + Suc i) =
        isPerspectiveCoordTransform s2 (t + Suc i)" by blast
    then show "isPerspectiveCoordTransform s1 (Suc t + i) =
        isPerspectiveCoordTransform s2 (Suc t + i)" by simp
  qed
  show ?case
    by (simp add: Let_def transform_key_field_cong [OF h, of ex ct] Cons.IH [OF r]
        cong del: if_weak_cong)
qed

lemma gen_transform_key_cong:
  assumes "coordTransforms (processor s1) = coordTransforms (processor s2)"
    and "\<forall>t < numTransforms (processor s1).
           isPerspectiveCoordTransform s1 t = isPerspectiveCoordTransform s2 t"
  shows "gen_transform_key s1 ex = gen_transform_key s2 ex"
  unfolding gen_transform_key_def assms(1) [symmetric]
  using assms(2) by (intro gen_transform_key_loop_cong) (simp add: numTransforms_def)

lemma get_meta_key_cong:
  assumes "classID p = classID q"
    and "gen_texture_key ext p glcaps = gen_texture_key ext q glcaps"
  shows "get_meta_key ext p glcaps transformKey b = get_meta_key ext q glcaps transformKey b"
  using assms by (simp add: get_meta_key_def Let_def split: sum.splits)

lemma fragment_stages_loop_cong:
  assumes "list_all2 (same_stage_key ext glcaps req) stages1 stages2"
  shows "fragment_stages_loop ext glcaps req stages1 b = fragment_stages_loop ext glcaps req stages2 b"
  using assms
proof (induction stages1 stages2 arbitrary: b rule: list_all2_induct)
  case Nil
  then show ?case by simp
next
  case (Cons s1 rest1 s2 rest2)
  from Cons.hyps(1) have
    k: "fpGLProcessorKey (processor s1) glcaps = fpGLProcessorKey (processor s2) glcaps"
    and t: "gen_transform_key s1 req = gen_transform_key s2 req"
    and c: "classID (processor s1) = classID (processor s2)"
    and x: "gen_texture_key ext (processor s1) glcaps = gen_texture_key ext (processor s2) glcaps"
    by (simp_all add: same_stage_key_def)
  show ?case
    by (simp add: Let_def k t get_meta_key_cong [OF c x] Cons.IH
        split: sum.splits prod.splits)
qed

lemma processor_keys_cong:
  assumes "gpGLProcessorKey (primitiveProcessor s1) (batchTracker s1) (glCaps gpu) =
           gpGLProcessorKey (primitiveProcessor s2) (batchTracker s2) (glCaps gpu)"
    and "classID (primitiveProcessor s1) = classID (primitiveProcessor s2)"
    and "gen_texture_key ext (primitiveProcessor s1) (glCaps gpu) =
         gen_texture_key ext (primitiveProcessor s2) (glCaps gpu)"
    and "list_all2 (same_stage_key ext (glCaps gpu) (fRequiresLocalCoordAttrib descInfo))
           (fragmentStages s1) (fragmentStages s2)"
    and "xpGLProcessorKey (xferProcessor s1) (glCaps gpu) =
         xpGLProcessorKey (xferProcessor s2) (glCaps gpu)"
    and "classID (xferProcessor s1) = classID (xferProcessor s2)"
    and "gen_texture_key ext (xferProcessor s1) (glCaps gpu) =
         gen_texture_key ext (xferProcessor s2) (glCaps gpu)"
  shows "processor_keys ext s1 descInfo gpu = processor_keys ext s2 descInfo gpu"
  unfolding processor_keys_def xfer_stage_builder_def assms(1) assms(5)
    get_meta_key_cong [OF assms(2) assms(3)] get_meta_key_cong [OF assms(6) assms(7)]
    fragment_stages_loop_cong [OF assms(4)]
  by (rule refl)

lemma gen_texture_key_loop_no_remap:
  assumes "no_remap ext glcaps accesses"
  shows "gen_texture_key_loop ext glcaps accesses t key = Inr key"
  using assms by (induction accesses arbitrary: t) (simp_all add: no_remap_def Let_def)

lemma gen_texture_key_no_remap:
  assumes "no_remap ext glcaps (textureAccesses proc)"
  shows "gen_texture_key ext proc glcaps = Inr 0"
  using assms by (simp add: gen_texture_key_def gen_texture_key_loop_no_remap)

lemma no_remap_swizzle_support:
  assumes "textureSwizzleSupport glcaps"
  shows "no_remap ext glcaps accesses"
  using assms by (simp add: no_remap_def swizzle_requires_alpha_remapping_def list_all_iff)

lemma no_remap_needed_swizzle_support:
  assumes "textureSwizzleSupport glcaps"
  shows "no_remap_needed ext glcaps optState"
  using assms by (simp add: no_remap_needed_def no_remap_swizzle_support list_all_iff)

lemma header_cong:
  assumes "hasGeometryProcessor s1 = hasGeometryProcessor s2"
    and "dstCopy s1 = dstCopy s2" and "renderTarget s1 = renderTarget s2"
    and "numColorStages s1 = numColorStages s2"
    and "numCoverageStages s1 = numCoverageStages s2"
  shows "write_header ext s1 descInfo drawType gpu key0 =
         write_header ext s2 descInfo drawType gpu key0"
  using assms
  by (simp add: write_header_eq header_assertions_hold_def stored_header_def dst_read_key_def
      frag_pos_key_def)

lemma erase_textures_fields:
  assumes "erase_textures s1 = erase_textures s2"
  shows "batchTracker s1 = batchTracker s2"
    and "hasGeometryProcessor s1 = hasGeometryProcessor s2"
    and "dstCopy s1 = dstCopy s2" and "renderTarget s1 = renderTarget s2"
    and "numColorStages s1 = numColorStages s2"
    and "numCoverageStages s1 = numCoverageStages s2"
    and "classID (primitiveProcessor s1) = classID (primitiveProcessor s2)"
    and "gpGLProcessorKey (primitiveProcessor s1) = gpGLProcessorKey (primitiveProcessor s2)"
    and "classID (xferProcessor s1) = classID (xferProcessor s2)"
    and "xpGLProcessorKey (xferProcessor s1) = xpGLProcessorKey (xferProcessor s2)"
    and "map erase_stage_textures (fragmentStages s1) =
         map erase_stage_textures (fragmentStages s2)"
proof -
  show "batchTracker s1 = batchTracker s2"
    using arg_cong [OF assms, of batchTracker] by (simp add: erase_textures_def)
  show "hasGeometryProcessor s1 = hasGeometryProcessor s2"
    using arg_cong [OF assms, of hasGeometryProcessor] by (simp add: erase_textures_def)
  show "dstCopy s1 = dstCopy s2"
    using arg_cong [OF assms, of dstCopy] by (simp add: erase_textures_def)
  show "renderTarget s1 = renderTarget s2"
    using arg_cong [OF assms, of renderTarget] by (simp add: erase_textures_def)
  show "numColorStages s1 = numColorStages s2"
    using arg_cong [OF assms, of numColorStages] by (simp add: erase_textures_def)
  show "numCoverageStages s1 = numCoverageStages s2"
    using arg_cong [OF assms, of numCoverageStages] by (simp add: erase_textures_def)
  have p: "(primitiveProcessor s1)\<lparr>textureAccesses := []\<rparr> =
      (primitiveProcessor s2)\<lparr>textureAccesses := []\<rparr>"
    using arg_cong [OF assms, of primitiveProcessor] by (simp add: erase_textures_def)
  show "classID (primitiveProcessor s1) = classID (primitiveProcessor s2)"
    using arg_cong [OF p, of classID] by simp
  show "gpGLProcessorKey (primitiveProcessor s1) = gpGLProcessorKey (primitiveProcessor s2)"
    using arg_cong [OF p, of gpGLProcessorKey] by simp
  have x: "(xferProcessor s1)\<lparr>textureAccesses := []\<rparr> =
      (xferProcessor s2)\<lparr>textureAccesses := []\<rparr>"
    using arg_cong [OF assms, of xferProcessor] by (simp add: erase_textures_def)
  show "classID (xferProcessor s1) = classID (xferProcessor s2)"
    using arg_cong [OF x, of classID] by simp
  show "xpGLProcessorKey (xferProcessor s1) = xpGLProcessorKey (xferProcessor s2)"
    using arg_cong [OF x, of xpGLProcessorKey] by simp
  show "map erase_stage_textures (fragmentStages s1) =
         map erase_stage_textures (fragmentStages s2)"
    using arg_cong [OF assms, of fragmentStages] by (simp add: erase_textures_def)
qed

lemma map_eq_list_all2:
  "map f xs = map f ys \<Longrightarrow> list_all2 (\<lambda>a b. f a = f b) xs ys"
  by (induction xs arbitrary: ys) auto

lemma erase_stage_textures_same_key:
  assumes e: "erase_stage_textures a = erase_stage_textures b"
    and ta: "gen_texture_key ext (processor a) glcaps = Inr 0"
    and tb: "gen_texture_key ext (processor b) glcaps = Inr 0"
  shows "same_stage_key ext glcaps req a b"
proof -
  have p: "(processor a)\<lparr>textureAccesses := []\<rparr> = (processor b)\<lparr>textureAccesses := []\<rparr>"
    using arg_cong [OF e, of processor] by (simp add: erase_stage_textures_def)
  have i: "isPerspectiveCoordTransform a = isPerspectiveCoordTransform b"
    using arg_cong [OF e, of isPerspectiveCoordTransform] by (simp add: erase_stage_textures_def)
  have c: "classID (processor a) = classID (processor b)"
    using arg_cong [OF p, of classID] by simp
  have k: "fpGLProcessorKey (processor a) = fpGLProcessorKey (processor b)"
    using arg_cong [OF p, of fpGLProcessorKey] by simp
  have t: "coordTransforms (processor a) = coordTransforms (processor b)"
    using arg_cong [OF p, of coordTransforms] by simp
  have g: "gen_transform_key a req = gen_transform_key b req"
    using t i by (intro gen_transform_key_cong) simp_all
  show ?thesis by (simp add: same_stage_key_def c k g ta tb)
qed

lemma Build_erase_textures:
  assumes e: "erase_textures s1 = erase_textures s2"
    and n1: "no_remap_needed ext (glCaps gpu) s1" and n2: "no_remap_needed ext (glCaps gpu) s2"
  shows "Build ext s1 descInfo drawType gpu uninit desc =
         Build ext s2 descInfo drawType gpu uninit desc"
proof -
  note f = erase_textures_fields [OF e]
  have frag: "list_all2 (same_stage_key ext (glCaps gpu) (fRequiresLocalCoordAttrib descInfo))
      (fragmentStages s1) (fragmentStages s2)"
  proof -
    have "list_all2 (\<lambda>a b. erase_stage_textures a = erase_stage_textures b)
        (fragmentStages s1) (fragmentStages s2)"
      using f(11) by (rule map_eq_list_all2)
    moreover have "\<forall>a \<in> set (fragmentStages s1).
        gen_texture_key ext (processor a) (glCaps gpu) = Inr 0"
      using n1 by (simp add: no_remap_needed_def list_all_iff gen_texture_key_no_remap)
    moreover have "\<forall>b \<in> set (fragmentStages s2).
        gen_texture_key ext (processor b) (glCaps gpu) = Inr 0"
      using n2 by (simp add: no_remap_needed_def list_all_iff gen_texture_key_no_remap)
    ultimately show ?thesis
      by (auto simp add: list_all2_conv_all_nth intro!: erase_stage_textures_same_key)
  qed
  have pt: "gen_texture_key ext (primitiveProcessor s1) (glCaps gpu) =
      gen_texture_key ext (primitiveProcessor s2) (glCaps gpu)"
    using n1 n2 by (simp add: no_remap_needed_def gen_texture_key_no_remap)
  have xt: "gen_texture_key ext (xferProcessor s1) (glCaps gpu) =
      gen_texture_key ext (xferProcessor s2) (glCaps gpu)"
    using n1 n2 by (simp add: no_remap_needed_def gen_texture_key_no_remap)
  have pk: "processor_keys ext s1 descInfo gpu = processor_keys ext s2 descInfo gpu"
    using f(7) pt frag f(9) xt by (intro processor_keys_cong) (simp_all add: f(1) f(8) f(10))
  show ?thesis
    unfolding Build_via_processor_keys pk
      header_cong [OF f(2) f(3) f(4) f(5) f(6), of ext descInfo drawType gpu]
    by (rule refl)
qed

text \<open>
  C8, canonicalization. Two pipeline states that differ only in their texture accesses
  get the same result of \<open>Build\<close> (the same key, byte for byte, or the same failure)
  when every texture access of both is classified as needing no remap; under hardware
  swizzle support this holds for any two such states, and the texture key of every
  processor is 0 whatever its textures are.
\<close>

theorem Build_ignores_unremapped_textures:
  assumes "erase_textures s1 = erase_textures s2"
  shows "(no_remap_needed ext (glCaps gpu) s1 \<and> no_remap_needed ext (glCaps gpu) s2 \<longrightarrow>
            Build ext s1 descInfo drawType gpu uninit desc =
            Build ext s2 descInfo drawType gpu uninit desc) \<and>
         (textureSwizzleSupport (glCaps gpu) \<longrightarrow>
            Build ext s1 descInfo drawType gpu uninit desc =
            Build ext s2 descInfo drawType gpu uninit desc \<and>
            gen_texture_key ext (primitiveProcessor s1) (glCaps gpu) = Inr 0 \<and>
            (\<forall>fps \<in> set (fragmentStages s1).
               gen_texture_key ext (processor fps) (glCaps gpu) = Inr 0) \<and>
            gen_texture_key ext (xferProcessor s1) (glCaps gpu) = Inr 0)"
proof (intro conjI impI ballI)
  assume n: "no_remap_needed ext (glCaps gpu) s1 \<and> no_remap_needed ext (glCaps gpu) s2"
  show "Build ext s1 descInfo drawType gpu uninit desc =
      Build ext s2 descInfo drawType gpu uninit desc"
    using assms n [THEN conjunct1] n [THEN conjunct2] by (rule Build_erase_textures)
next
  assume hw: "textureSwizzleSupport (glCaps gpu)"
  show "Build ext s1 descInfo drawType gpu uninit desc =
      Build ext s2 descInfo drawType gpu uninit desc"
    using assms no_remap_needed_swizzle_support [OF hw] no_remap_needed_swizzle_support [OF hw]
    by (rule Build_erase_textures)
  show "gen_texture_key ext (primitiveProcessor s1) (glCaps gpu) = Inr 0"
    using no_remap_swizzle_support [OF hw] by (rule gen_texture_key_no_remap)
  show "gen_texture_key ext (xferProcessor s1) (glCaps gpu) = Inr 0"
    using no_remap_swizzle_support [OF hw] by (rule gen_texture_key_no_remap)
  show "gen_texture_key ext (processor fps) (glCaps gpu) = Inr 0"
    for fps :: GrPendingFragmentStage
    using no_remap_swizzle_support [OF hw] by (rule gen_texture_key_no_remap)
qed

text \<open>
  With hardware swizzle support the example and the example with a texture on the
  primitive processor get the same key; without it the texture key of that processor
  is 1.
\<close>

theorem Build_ignores_unremapped_textures_witness:
  "erase_textures textured_state = erase_textures example_state \<and>
   textureAccesses (primitiveProcessor textured_state) = [\<lparr>config = 0, swizzleMask = 1\<rparr>] \<and>
   textureAccesses (primitiveProcessor example_state) = [] \<and>
   textureSwizzleSupport (glCaps swizzle_gpu) \<and>
   Build test_decls textured_state example_info 0 swizzle_gpu (\<lambda>i. 170) \<lparr>fKey = [1, 2, 3]\<rparr> =
   Build test_decls example_state example_info 0 swizzle_gpu (\<lambda>i. 170) \<lparr>fKey = [1, 2, 3]\<rparr> \<and>
   gen_texture_key test_decls (primitiveProcessor textured_state) (glCaps swizzle_gpu) = Inr 0 \<and>
   gen_texture_key test_decls (primitiveProcessor textured_state) (glCaps example_gpu) = Inr 1"
proof -
  have e: "erase_textures textured_state = erase_textures example_state"
    by (simp add: erase_textures_def textured_state_def example_state_def)
  have hw: "textureSwizzleSupport (glCaps swizzle_gpu)"
    by (simp add: swizzle_gpu_def swizzle_caps_def)
  have t: "textureAccesses (primitiveProcessor textured_state) = [\<lparr>config = 0, swizzleMask = 1\<rparr>]"
    "textureAccesses (primitiveProcessor example_state) = []"
    by (simp_all add: textured_state_def example_state_def)
  have k: "gen_texture_key test_decls (primitiveProcessor textured_state) (glCaps example_gpu) = Inr 1"
    by (simp add: gen_texture_key_def textured_state_def example_gpu_def no_swizzle_caps_def
        swizzle_requires_alpha_remapping_def test_decls_def)
  show ?thesis
    using Build_ignores_unremapped_textures [OF e, of test_decls swizzle_gpu example_info 0
        "\<lambda>i. 170" "\<lparr>fKey = [1, 2, 3]\<rparr>"] e hw t k
    by simp
qed

lemma gen_texture_key_textures:
  assumes "textureAccesses p = textureAccesses q"
  shows "gen_texture_key ext p glcaps = gen_texture_key ext q glcaps"
  using assms by (simp add: gen_texture_key_def)

lemma logically_equal_stages_same_key:
  assumes "logically_equal_stages glcaps s1 s2"
  shows "same_stage_key ext glcaps req s1 s2"
proof -
  from assms have c: "classID (processor s1) = classID (processor s2)"
    and k: "fpGLProcessorKey (processor s1) glcaps = fpGLProcessorKey (processor s2) glcaps"
    and x: "textureAccesses (processor s1) = textureAccesses (processor s2)"
    and t: "coordTransforms (processor s1) = coordTransforms (processor s2)"
    and i: "\<forall>t < numTransforms (processor s1).
              isPerspectiveCoordTransform s1 t = isPerspectiveCoordTransform s2 t"
    by (simp_all add: logically_equal_stages_def list_all_iff)
  show ?thesis
    unfolding same_stage_key_def
    using c k gen_transform_key_cong [OF t i, of req] gen_texture_key_textures [OF x, of ext glcaps]
    by simp
qed

lemma logically_equal_processor_keys:
  assumes "logically_equal gpu descInfo s1 s2"
  shows "processor_keys ext s1 descInfo gpu = processor_keys ext s2 descInfo gpu"
proof -
  from assms have
    frag: "list_all2 (logically_equal_stages (glCaps gpu)) (fragmentStages s1) (fragmentStages s2)"
    by (simp add: logically_equal_def)
  have "list_all2 (same_stage_key ext (glCaps gpu) (fRequiresLocalCoordAttrib descInfo))
      (fragmentStages s1) (fragmentStages s2)"
    using frag by (rule list_all2_mono) (rule logically_equal_stages_same_key)
  then show ?thesis
    using assms
    by (intro processor_keys_cong gen_texture_key_textures)
      (simp_all add: logically_equal_def)
qed

lemma logically_equal_header:
  assumes "logically_equal gpu descInfo s1 s2"
  shows "header_assertions_hold ext s1 descInfo drawType gpu =
         header_assertions_hold ext s2 descInfo drawType gpu"
    and "stored_header ext s1 descInfo drawType gpu key0 =
         stored_header ext s2 descInfo drawType gpu key0"
  using assms
  by (auto simp add: logically_equal_def header_assertions_hold_def stored_header_def
      dst_read_key_def frag_pos_key_def split: if_splits)

lemma length_stored_header:
  assumes "kHeaderOffset ext + kHeaderSize ext \<le> length key0"
  shows "length (stored_header ext optState descInfo drawType gpu key0) = length key0"
  using assms by (simp add: stored_header_def length_memset0)

lemma drop_stored_header:
  assumes "length p = kHeaderOffset ext + kHeaderSize ext"
  shows "drop (kHeaderOffset ext) (stored_header ext optState descInfo drawType gpu (p @ z)) =
           (replicate (kHeaderSize ext) 0 @ z)
             [offsetof_fUseNvpr ext := (if uses_nvpr ext drawType gpu then 1 else 0),
              offsetof_fDstReadKey ext :=
                (if fReadsDst descInfo then dst_read_key ext optState gpu else 0),
              offsetof_fFragPosKey ext :=
                (if fReadsFragPosition descInfo then frag_pos_key ext optState gpu else 0),
              offsetof_fColorEffectCnt ext := of_nat (numColorStages optState),
              offsetof_fCoverageEffectCnt ext := of_nat (numCoverageStages optState)]"
proof -
  have "drop (kHeaderOffset ext) (memset0 (kHeaderOffset ext) (kHeaderSize ext) (p @ z)) =
      replicate (kHeaderSize ext) 0 @ z"
    using assms by (simp add: memset0_def)
  then show ?thesis
    by (simp add: stored_header_def drop_update_swap)
qed

lemma Build_eq:
  "Build ext optState descInfo drawType gpu uninit desc =
     (case processor_keys ext optState descInfo gpu of
        Inl e \<Rightarrow> Inl e
      | Inr (ok, b) \<Rightarrow>
          if \<not> ok then Inr (False, \<lparr>fKey = []\<rparr>)
          else if header_assertions_hold ext optState descInfo drawType gpu
          then Inr (True,
                 \<lparr>fKey = finalize ext (stored_header ext optState descInfo drawType gpu
                                        (reserved_key ext uninit @ fData b))\<rparr>)
          else Inl SkAssertFailure)"
  unfolding Build_via_processor_keys write_header_eq
  by (cases desc) (simp split: sum.splits prod.splits)

lemma finalize_stored_header:
  assumes eq: "logically_equal gpu descInfo s1 s2" and det: "reserved_bytes_determined ext"
  shows "finalize ext (stored_header ext s1 descInfo drawType gpu (reserved_key ext uninit1 @ z)) =
      finalize ext (stored_header ext s2 descInfo drawType gpu (reserved_key ext uninit2 @ z))"
proof -
  have hs: "kHeaderOffset ext + kHeaderSize ext = kProcessorKeysOffset ext"
    using det by (simp add: reserved_bytes_determined_def)
  have l: "length (reserved_key ext u) = kHeaderOffset ext + kHeaderSize ext" for u
    unfolding hs by (rule length_reserved_key)
  have le: "kHeaderOffset ext + kHeaderSize ext \<le> length (reserved_key ext u @ z)" for u
    using l [of u] by simp
  have len: "length (stored_header ext s1 descInfo drawType gpu (reserved_key ext uninit1 @ z)) =
        length (stored_header ext s2 descInfo drawType gpu (reserved_key ext uninit2 @ z))"
    unfolding length_stored_header [OF le] using l [of uninit1] l [of uninit2] by simp
  have d: "drop (kHeaderOffset ext)
          (stored_header ext s1 descInfo drawType gpu (reserved_key ext uninit1 @ z)) =
        drop (kHeaderOffset ext)
          (stored_header ext s2 descInfo drawType gpu (reserved_key ext uninit2 @ z))"
    unfolding logically_equal_header(2) [OF eq] drop_stored_header [OF l]
    by (rule refl)
  from det len d show ?thesis
    unfolding reserved_bytes_determined_def by blast
qed

lemma Build_logically_equal:
  assumes eq: "logically_equal gpu descInfo s1 s2" and det: "reserved_bytes_determined ext"
  shows "Build ext s1 descInfo drawType gpu uninit1 desc1 =
         Build ext s2 descInfo drawType gpu uninit2 desc2"
proof -
  note pk = logically_equal_processor_keys [OF eq, of ext]
  note ha = logically_equal_header(1) [OF eq, of ext drawType]
  note f = finalize_stored_header [OF eq det, of drawType uninit1 _ uninit2]
  show ?thesis
  proof (cases "processor_keys ext s2 descInfo gpu")
    case (Inl e)
    then show ?thesis by (simp add: Build_eq pk)
  next
    case (Inr r)
    obtain ok b where r: "r = (ok, b)" by (cases r)
    show ?thesis
      using Inr r f [of "fData b"] by (simp add: Build_eq pk ha)
  qed
qed

text \<open>
  C1, determinism of \<open>Build\<close>. For logically equal inputs under the same capabilities,
  descriptor flags and draw type, \<open>Build\<close> gives the same result: the same returned
  boolean and the same key, of the same length and with the same bytes, or the same
  failure. The result depends neither on what the descriptor held before nor on the
  content of the memory that \<^verbatim>\<open>push_back_n\<close> hands out.
\<close>

theorem Build_deterministic:
  assumes "logically_equal gpu descInfo s1 s2" and "reserved_bytes_determined ext"
  shows "Build ext s1 descInfo drawType gpu uninit1 desc1 =
         Build ext s2 descInfo drawType gpu uninit2 desc2"
  using assms by (rule Build_logically_equal)

lemma reserved_bytes_determined_test: "reserved_bytes_determined test_decls"
  by (simp add: reserved_bytes_determined_def test_decls_def)

lemma logically_equal_variant:
  "logically_equal example_gpu example_info example_state variant_state"
  by (simp add: logically_equal_def logically_equal_stages_def variant_state_def
      example_state_def example_info_def example_stage_def numTransforms_def)

text \<open>
  The example and its variant, built into descriptors with different previous content
  on different fresh memory: the same 44 bytes.
\<close>

theorem Build_deterministic_witness:
  "logically_equal example_gpu example_info example_state variant_state \<and>
   reserved_bytes_determined test_decls \<and>
   renderTarget example_state \<noteq> renderTarget variant_state \<and>
   Build test_decls example_state example_info 0 example_gpu (\<lambda>i. 170) \<lparr>fKey = [1, 2, 3]\<rparr> =
   Build test_decls variant_state example_info 0 example_gpu (\<lambda>i. 85) \<lparr>fKey = []\<rparr> \<and>
   Build test_decls variant_state example_info 0 example_gpu (\<lambda>i. 85) \<lparr>fKey = []\<rparr> =
     Inr (True,
       \<lparr>fKey = [44, 0, 0, 0, 0, 0, 0, 0, 0, 0, 1, 0, 0, 0, 0, 0,
                0, 0, 0, 0, 0, 0, 2, 0,
                0, 0, 0, 0, 8, 0, 0, 0, 4, 0, 3, 0,
                0, 0, 0, 0, 0, 0, 1, 0]\<rparr>)"
proof -
  have r: "renderTarget example_state \<noteq> renderTarget variant_state"
    by (simp add: variant_state_def example_state_def)
  note d = Build_deterministic [OF logically_equal_variant reserved_bytes_determined_test,
      of 0 "\<lambda>i. 170" "\<lparr>fKey = [1, 2, 3]\<rparr>" "\<lambda>i. 85" "\<lparr>fKey = []\<rparr>"]
  have v: "Build test_decls variant_state example_info 0 example_gpu (\<lambda>i. 85) \<lparr>fKey = []\<rparr> =
     Inr (True,
       \<lparr>fKey = [44, 0, 0, 0, 0, 0, 0, 0, 0, 0, 1, 0, 0, 0, 0, 0,
                0, 0, 0, 0, 0, 0, 2, 0,
                0, 0, 0, 0, 8, 0, 0, 0, 4, 0, 3, 0,
                0, 0, 0, 0, 0, 0, 1, 0]\<rparr>)"
    unfolding d [symmetric] by (rule Build_example)
  show ?thesis
    by (intro conjI logically_equal_variant reserved_bytes_determined_test r d v)
qed

end
